theory Spec2Isabelle
  imports Complex_Main "HOL-Library.AList"
begin

section \<open>Exceptions and small Python helpers\<close>

text \<open>
  Python exceptions are values. \<open>RuntimeError msg cause\<close> carries the message and the
  exception chained by \<^verbatim>\<open>raise ... from cause\<close>. \<open>HTTPError s\<close> carries
  \<^verbatim>\<open>getattr(e.response, "status_code", None)\<close>. \<open>OtherRequestError\<close> stands for an
  exception of the transport that none of the handlers names.
\<close>

datatype exc =
    ConnectionError
  | Timeout
  | ChunkedEncodingError
  | HTTPError "nat option"
  | OtherRequestError
  | KeyError
  | ValueError
  | TypeError
  | AttributeError
  | IndexError
  | RuntimeError string "exc option"

text \<open>\<^verbatim>\<open>str(n)\<close> for a natural number, as an f-string renders it.\<close>

definition digit_char :: "nat \<Rightarrow> char" where
  "digit_char d = (''0123456789abcdef'' ! d)"

fun str_of_nat :: "nat \<Rightarrow> string" where
  "str_of_nat n = (if n < 10 then [digit_char n] else str_of_nat (n div 10) @ [digit_char (n mod 10)])"

declare str_of_nat.simps [simp del]

section \<open>btc.py: the retry wrapper\<close>

definition MAX_RETRIES :: nat where
  "MAX_RETRIES = 5"

text \<open>
  What is sent: method, URL, the query parameters and the JSON body (flat objects of
  strings, or none).
  A response has a status code and a decoded JSON body (\<open>None\<close> when \<^verbatim>\<open>r.json()\<close>
  cannot decode it).
\<close>

record request =
  req_method :: string
  req_url :: string
  req_params :: "(string \<times> string) list option"
  req_json :: "(string \<times> string) list option"

record 'b response =
  status_code :: nat
  body :: "'b option"

datatype 'b outcome = Responds "'b response" | Throws exc

text \<open>
  The transport \<^verbatim>\<open>SESSION.request\<close> is the environment: \<open>send req k\<close> is what the
  \<open>k\<close>-th attempt (numbered from 1, as in the source) at \<open>req\<close> yields.
\<close>

type_synonym 'b transport = "request \<Rightarrow> nat \<Rightarrow> 'b outcome"

text \<open>\<^verbatim>\<open>resp.raise_for_status()\<close>: statuses 400..599 raise \<open>HTTPError\<close>.\<close>

definition raise_for_status :: "'b response \<Rightarrow> exc option" where
  "raise_for_status r =
     (if 400 \<le> status_code r \<and> status_code r < 600
      then Some (HTTPError (Some (status_code r))) else None)"

text \<open>The body of the \<^verbatim>\<open>try\<close>: the request, then \<^verbatim>\<open>raise_for_status\<close>.\<close>

definition try_request :: "'b outcome \<Rightarrow> exc + 'b response" where
  "try_request out =
     (case out of
        Throws e \<Rightarrow> Inl e
      | Responds r \<Rightarrow> (case raise_for_status r of Some e \<Rightarrow> Inl e | None \<Rightarrow> Inr r))"

text \<open>
  The two \<^verbatim>\<open>except\<close> clauses: \<open>True\<close> when the exception is remembered in
  \<^verbatim>\<open>last_exc\<close> and the loop goes on, \<open>False\<close> when it leaves the function (the bare
  \<^verbatim>\<open>raise\<close>, or an exception no clause catches).
\<close>

fun caught_for_retry :: "exc \<Rightarrow> bool" where
  "caught_for_retry ConnectionError = True"
| "caught_for_retry Timeout = True"
| "caught_for_retry ChunkedEncodingError = True"
| "caught_for_retry (HTTPError status) = (status \<in> Some ` {429, 500, 502, 503, 504})"
| "caught_for_retry _ = False"

text \<open>
  The \<^verbatim>\<open>for attempt in range(1, MAX_RETRIES + 1)\<close> loop. The last argument counts the
  calls of the transport made so far; the result pairs what the function returns or
  raises with that count. The sleep between attempts has no effect on either.
\<close>

fun retry_loop ::
  "(nat \<Rightarrow> 'b outcome) \<Rightarrow> string \<Rightarrow> nat list \<Rightarrow> exc option \<Rightarrow> nat \<Rightarrow> (exc + 'b response) \<times> nat"
where
  "retry_loop send url [] last_exc calls =
     (Inl (RuntimeError (''Request failed after '' @ str_of_nat MAX_RETRIES @ '' retries: '' @ url)
        last_exc), calls)"
| "retry_loop send url (attempt # rest) last_exc calls =
     (case try_request (send attempt) of
        Inr resp \<Rightarrow> (Inr resp, Suc calls)
      | Inl e \<Rightarrow>
          if caught_for_retry e then retry_loop send url rest (Some e) (Suc calls)
          else (Inl e, Suc calls))"

definition request_with_retry :: "'b transport \<Rightarrow> request \<Rightarrow> (exc + 'b response) \<times> nat" where
  "request_with_retry send req =
     retry_loop (send req) (req_url req) [1..<MAX_RETRIES + 1] None 0"

text \<open>
  The claim's list of transient failures, in its own words: connection failure,
  timeout, truncated or chunked transfer failure, or an HTTP status among
  429, 500, 502, 503, 504.
\<close>

definition transient :: "exc \<Rightarrow> bool" where
  "transient e \<longleftrightarrow>
     e = ConnectionError \<or> e = Timeout \<or> e = ChunkedEncodingError \<or>
     e = HTTPError (Some 429) \<or> e = HTTPError (Some 500) \<or> e = HTTPError (Some 502) \<or>
     e = HTTPError (Some 503) \<or> e = HTTPError (Some 504)"

definition failure_of :: "'b outcome \<Rightarrow> exc option" where
  "failure_of out = (case try_request out of Inl e \<Rightarrow> Some e | Inr _ \<Rightarrow> None)"

section \<open>Decoded JSON and the Python built-ins the sources call\<close>

text \<open>
  A decoded JSON value. An object is an association list with distinct keys; a number is
  the rational it denotes.
\<close>

datatype json =
    JNull
  | JBool bool
  | JNum rat
  | JStr string
  | JList "json list"
  | JDict "(string \<times> json) list"

text \<open>Python truthiness of a decoded value (\<^verbatim>\<open>if x:\<close>, \<^verbatim>\<open>not x\<close>).\<close>

fun truthy :: "json \<Rightarrow> bool" where
  "truthy JNull = False"
| "truthy (JBool b) = b"
| "truthy (JNum r) = (r \<noteq> 0)"
| "truthy (JStr s) = (s \<noteq> [])"
| "truthy (JList xs) = (xs \<noteq> [])"
| "truthy (JDict kvs) = (kvs \<noteq> [])"

text \<open>
  \<^verbatim>\<open>x.get(k)\<close>: only a dictionary has the method, a missing key gives \<open>None\<close>.
  \<^verbatim>\<open>x.get(k, d)\<close> gives \<open>d\<close> for a missing key, and a present null as it is.
\<close>

fun py_get :: "json \<Rightarrow> string \<Rightarrow> exc + json" where
  "py_get (JDict kvs) k = Inr (case map_of kvs k of None \<Rightarrow> JNull | Some v \<Rightarrow> v)"
| "py_get _ k = Inl AttributeError"

fun py_get_default :: "json \<Rightarrow> string \<Rightarrow> json \<Rightarrow> exc + json" where
  "py_get_default (JDict kvs) k d = Inr (case map_of kvs k of None \<Rightarrow> d | Some v \<Rightarrow> v)"
| "py_get_default _ k d = Inl AttributeError"

text \<open>
  \<^verbatim>\<open>x["key"]\<close> with a string key: a dictionary without the key raises \<open>KeyError\<close>,
  anything else raises \<open>TypeError\<close> (a list or a string wants an integer index, the
  rest is not subscriptable).
\<close>

fun py_item :: "json \<Rightarrow> string \<Rightarrow> exc + json" where
  "py_item (JDict kvs) k = (case map_of kvs k of None \<Rightarrow> Inl KeyError | Some v \<Rightarrow> Inr v)"
| "py_item _ k = Inl TypeError"

text \<open>
  \<^verbatim>\<open>x[0]\<close>: the first element of a list (\<open>IndexError\<close> when empty), the first
  character of a string, \<open>KeyError\<close> on a dictionary (its keys are strings),
  \<open>TypeError\<close> otherwise.
\<close>

fun py_first :: "json \<Rightarrow> exc + json" where
  "py_first (JList xs) = (case xs of [] \<Rightarrow> Inl IndexError | x # _ \<Rightarrow> Inr x)"
| "py_first (JStr s) = (case s of [] \<Rightarrow> Inl IndexError | c # _ \<Rightarrow> Inr (JStr [c]))"
| "py_first (JDict kvs) = Inl KeyError"
| "py_first _ = Inl TypeError"

text \<open>
  Floats. A finite double is the rational it equals; what rounds is taken from the
  platform as a parameter: \<^verbatim>\<open>float(s)\<close> of a string (\<open>None\<close> when it raises
  \<open>ValueError\<close>), \<^verbatim>\<open>float(n)\<close> of a decoded number, the true division of two
  integers, the sum and the product of two floats.
\<close>

record float_ops =
  float_of_str :: "string \<Rightarrow> rat option"
  float_of_num :: "rat \<Rightarrow> rat"
  truediv :: "int \<Rightarrow> int \<Rightarrow> rat"
  fadd :: "rat \<Rightarrow> rat \<Rightarrow> rat"
  fmul :: "rat \<Rightarrow> rat \<Rightarrow> rat"

text \<open>\<^verbatim>\<open>float(x)\<close> of a decoded value.\<close>

fun py_float :: "float_ops \<Rightarrow> json \<Rightarrow> exc + rat" where
  "py_float fl (JStr s) = (case float_of_str fl s of None \<Rightarrow> Inl ValueError | Some r \<Rightarrow> Inr r)"
| "py_float fl (JNum r) = Inr (float_of_num fl r)"
| "py_float fl (JBool b) = Inr (if b then 1 else 0)"
| "py_float fl _ = Inl TypeError"

text \<open>
  \<^verbatim>\<open>s.replace(old, new)\<close> for a non-empty \<open>old\<close>: the occurrences from the left, not
  overlapping.
\<close>

fun replace :: "string \<Rightarrow> string \<Rightarrow> string \<Rightarrow> string" where
  "replace old new [] = []"
| "replace old new (c # cs) =
     (if old \<noteq> [] \<and> take (length old) (c # cs) = old
      then new @ replace old new (drop (length old) (c # cs))
      else c # replace old new cs)"

text \<open>\<^verbatim>\<open>s.lower()\<close> and \<^verbatim>\<open>s.upper()\<close> on ASCII text.\<close>

definition lower_char :: "char \<Rightarrow> char" where
  "lower_char c =
     (case map_of (zip ''ABCDEFGHIJKLMNOPQRSTUVWXYZ'' ''abcdefghijklmnopqrstuvwxyz'') c of
        None \<Rightarrow> c | Some d \<Rightarrow> d)"

definition upper_char :: "char \<Rightarrow> char" where
  "upper_char c =
     (case map_of (zip ''abcdefghijklmnopqrstuvwxyz'' ''ABCDEFGHIJKLMNOPQRSTUVWXYZ'') c of
        None \<Rightarrow> c | Some d \<Rightarrow> d)"

definition lower :: "string \<Rightarrow> string" where
  "lower s = map lower_char s"

definition upper :: "string \<Rightarrow> string" where
  "upper s = map upper_char s"

text \<open>\<^verbatim>\<open>s.rjust(width, fill)\<close>.\<close>

definition rjust :: "nat \<Rightarrow> char \<Rightarrow> string \<Rightarrow> string" where
  "rjust width fill s = replicate (width - length s) fill @ s"

text \<open>\<^verbatim>\<open>s.split(sep)\<close> for a one-character separator.\<close>

fun split_on :: "char \<Rightarrow> string \<Rightarrow> string list" where
  "split_on sep [] = [[]]"
| "split_on sep (c # cs) =
     (if c = sep then [] # split_on sep cs
      else (case split_on sep cs of [] \<Rightarrow> [[c]] | w # ws \<Rightarrow> (c # w) # ws))"

text \<open>\<^verbatim>\<open>hex(n)\<close> of a natural number.\<close>

fun hex_digits :: "nat \<Rightarrow> string" where
  "hex_digits n = (if n < 16 then [digit_char n] else hex_digits (n div 16) @ [digit_char (n mod 16)])"

declare hex_digits.simps [simp del]

definition hex :: "nat \<Rightarrow> string" where
  "hex n = ''0x'' @ hex_digits n"

text \<open>
  \<^verbatim>\<open>int(s, base)\<close> and \<^verbatim>\<open>int(s)\<close> of a string, for base 10 and 16: surrounding
  white space is dropped, then an optional sign, for base 16 an optional \<^verbatim>\<open>0x\<close>
  prefix, then digits, single underscores allowed between them (and after the prefix);
  anything else raises \<open>ValueError\<close>.
\<close>

definition digit_table :: "(char \<times> nat) list" where
  "digit_table =
     [(CHR ''0'', 0), (CHR ''1'', 1), (CHR ''2'', 2), (CHR ''3'', 3), (CHR ''4'', 4),
      (CHR ''5'', 5), (CHR ''6'', 6), (CHR ''7'', 7), (CHR ''8'', 8), (CHR ''9'', 9),
      (CHR ''a'', 10), (CHR ''b'', 11), (CHR ''c'', 12), (CHR ''d'', 13), (CHR ''e'', 14),
      (CHR ''f'', 15)]"

definition digit_value :: "nat \<Rightarrow> char \<Rightarrow> nat option" where
  "digit_value base c =
     (case map_of digit_table (lower_char c) of
        None \<Rightarrow> None
      | Some d \<Rightarrow> if d < base then Some d else None)"

definition is_space :: "char \<Rightarrow> bool" where
  "is_space c \<longleftrightarrow> c \<in> set [CHR '' '', CHR 0x09, CHR 0x0A, CHR 0x0B, CHR 0x0C, CHR 0x0D]"

definition strip :: "string \<Rightarrow> string" where
  "strip s = rev (dropWhile is_space (rev (dropWhile is_space s)))"

text \<open>
  The digits, most significant first, with the value read so far; \<open>after_digit\<close> says
  whether an underscore may come next.
\<close>

fun read_digits :: "nat \<Rightarrow> string \<Rightarrow> int \<Rightarrow> bool \<Rightarrow> int option" where
  "read_digits base [] acc after_digit = (if after_digit then Some acc else None)"
| "read_digits base (c # cs) acc after_digit =
     (if c = CHR ''_'' then (if after_digit \<and> cs \<noteq> [] then read_digits base cs acc False else None)
      else (case digit_value base c of
              None \<Rightarrow> None
            | Some d \<Rightarrow> read_digits base cs (acc * int base + int d) True))"

definition read_unsigned :: "nat \<Rightarrow> string \<Rightarrow> int option" where
  "read_unsigned base s =
     (if base = 16 \<and> (take 2 s = ''0x'' \<or> take 2 s = ''0X'') then
        (case drop 2 s of
           c # cs \<Rightarrow> if c = CHR ''_'' then read_digits base cs 0 False
                     else read_digits base (c # cs) 0 False
         | [] \<Rightarrow> None)
      else read_digits base s 0 False)"

definition py_int :: "nat \<Rightarrow> string \<Rightarrow> exc + int" where
  "py_int base s =
     (let t = strip s;
          (neg, u) = (case t of
                        c # cs \<Rightarrow> if c = CHR ''-'' then (True, cs)
                                  else if c = CHR ''+'' then (False, cs) else (False, t)
                      | [] \<Rightarrow> (False, t))
      in case read_unsigned base u of
           None \<Rightarrow> Inl ValueError
         | Some n \<Rightarrow> Inr (if neg then - n else n))"

text \<open>
  Dates and times. An aware \<^verbatim>\<open>datetime\<close> is the instant it denotes, a naive one its
  wall-clock reading, both in microseconds from 0001-01-01T00:00:00; so
  \<^verbatim>\<open>datetime.min.replace(tzinfo=timezone.utc)\<close> is \<open>Aware 0\<close>. Comparing an aware with
  a naive one raises \<open>TypeError\<close>. \<^verbatim>\<open>datetime.fromisoformat\<close> is taken from the
  platform as a parameter (\<open>None\<close> when it raises \<open>ValueError\<close>).
\<close>

datatype datetime = Aware int | Naive int

definition datetime_min_utc :: datetime where
  "datetime_min_utc = Aware 0"

fun dt_gt :: "datetime \<Rightarrow> datetime \<Rightarrow> exc + bool" where
  "dt_gt (Aware a) (Aware b) = Inr (a > b)"
| "dt_gt (Naive a) (Naive b) = Inr (a > b)"
| "dt_gt _ _ = Inl TypeError"

text \<open>
  \<^verbatim>\<open>max(items, key=key)\<close>: the key of every item is computed in turn, and an item
  replaces the best so far only when its key is strictly greater, so the first of
  several maximal items wins. An empty list raises \<open>ValueError\<close>.
\<close>

fun max_loop :: "('a \<Rightarrow> exc + datetime) \<Rightarrow> 'a list \<Rightarrow> 'a \<Rightarrow> datetime \<Rightarrow> exc + 'a" where
  "max_loop key [] best best_key = Inr best"
| "max_loop key (p # ps) best best_key =
     (case key p of
        Inl e \<Rightarrow> Inl e
      | Inr k \<Rightarrow>
          (case dt_gt k best_key of
             Inl e \<Rightarrow> Inl e
           | Inr b \<Rightarrow> if b then max_loop key ps p k else max_loop key ps best best_key))"

definition py_max :: "('a \<Rightarrow> exc + datetime) \<Rightarrow> 'a list \<Rightarrow> exc + 'a" where
  "py_max key items =
     (case items of
        [] \<Rightarrow> Inl ValueError
      | p # ps \<Rightarrow> (case key p of Inl e \<Rightarrow> Inl e | Inr k \<Rightarrow> max_loop key ps p k))"

section \<open>btc.py: Esplora history and the UTXO replay\<close>

text \<open>
  Esplora's transaction objects, decoded from JSON. A field the source reads with
  \<^verbatim>\<open>.get\<close> is optional (\<open>None\<close> when absent or null); \<^verbatim>\<open>tx["txid"]\<close> raises
  \<open>KeyError\<close> when absent, so it is optional here too and the raise is a branch of the
  model. An output index is a JSON integer.
\<close>

record prevout =
  prevout_scriptpubkey_address :: "string option"

record vin =
  vin_prevout :: "prevout option"
  vin_txid :: "string option"
  vin_vout :: "int option"

record vout =
  vout_scriptpubkey_address :: "string option"
  vout_value :: "int option"

record status =
  status_confirmed :: "bool option"
  status_block_time :: "int option"

record tx =
  tx_txid :: "string option"
  tx_status :: "status option"
  tx_vin :: "vin list option"
  tx_vout :: "vout list option"

definition ESPLORA_API :: string where
  "ESPLORA_API = ''https://blockstream.info/api''"

text \<open>\<^verbatim>\<open>r.json()\<close> raises a \<open>ValueError\<close> on a body that does not decode.\<close>

definition esplora_get_json :: "'b transport \<Rightarrow> string \<Rightarrow> exc + 'b" where
  "esplora_get_json send path =
     (case fst (request_with_retry send
                  \<lparr>req_method = ''GET'', req_url = ESPLORA_API @ path, req_params = None,
                    req_json = None\<rparr>) of
        Inl e \<Rightarrow> Inl e
      | Inr r \<Rightarrow> (case body r of None \<Rightarrow> Inl ValueError | Some b \<Rightarrow> Inr b))"

text \<open>\<^verbatim>\<open>if last_seen_txid:\<close> is false for \<open>None\<close> and for the empty string.\<close>

definition get_address_txs :: "tx list transport \<Rightarrow> string \<Rightarrow> string option \<Rightarrow> exc + tx list" where
  "get_address_txs send address last_seen_txid =
     (case last_seen_txid of
        None \<Rightarrow> esplora_get_json send (''/address/'' @ address @ ''/txs'')
      | Some t \<Rightarrow>
          if t \<noteq> [] then esplora_get_json send (''/address/'' @ address @ ''/txs/chain/'' @ t)
          else esplora_get_json send (''/address/'' @ address @ ''/txs''))"

definition tx_block_time :: "tx \<Rightarrow> int option" where
  "tx_block_time t =
     (let st = (case tx_status t of
                  None \<Rightarrow> \<lparr>status_confirmed = None, status_block_time = None\<rparr>
                | Some s \<Rightarrow> s)
      in if status_confirmed st = Some True then status_block_time st else None)"

text \<open>
  The paging loop \<^verbatim>\<open>for _ in range(max_pages)\<close> of \<^verbatim>\<open>btc_balance_at_timestamp\<close>.
  The server is the environment and may answer each page fetch differently: \<open>net i\<close> is the
  transport that serves the page fetch number \<open>i\<close> (from 0). The first numeric argument is
  the number of iterations left, the second the page fetches made so far, which the
  result reports beside the accumulated list.
\<close>

fun page_loop ::
  "(nat \<Rightarrow> tx list transport) \<Rightarrow> string \<Rightarrow> nat \<Rightarrow> nat \<Rightarrow> tx list \<Rightarrow> string option
     \<Rightarrow> (exc + tx list) \<times> nat"
where
  "page_loop net address 0 fetched all_txs last_seen = (Inr all_txs, fetched)"
| "page_loop net address (Suc remaining) fetched all_txs last_seen =
     (case get_address_txs (net fetched) address last_seen of
        Inl e \<Rightarrow> (Inl e, Suc fetched)
      | Inr page \<Rightarrow>
          if page = [] then (Inr all_txs, Suc fetched)
          else (case tx_txid (last page) of
                  None \<Rightarrow> (Inl KeyError, Suc fetched)
                | Some t \<Rightarrow> page_loop net address remaining (Suc fetched) (all_txs @ page) (Some t)))"

text \<open>
  The dictionary \<^verbatim>\<open>utxos\<close> is an association list with distinct keys in insertion
  order: \<open>AList.update\<close> is the assignment, \<open>AList.delete\<close> is \<^verbatim>\<open>pop(key, None)\<close>.
\<close>

type_synonym utxo_key = "string \<times> int"
type_synonym utxos = "(utxo_key \<times> int) list"

text \<open>The loop over \<^verbatim>\<open>tx.get("vin", [])\<close>.\<close>

fun spend_inputs :: "string \<Rightarrow> vin list \<Rightarrow> utxos \<Rightarrow> utxos" where
  "spend_inputs address [] utxos = utxos"
| "spend_inputs address (v # vs) utxos =
     (case vin_prevout v of
        None \<Rightarrow> spend_inputs address vs utxos
      | Some prev \<Rightarrow>
          if prevout_scriptpubkey_address prev = Some address then
            (case vin_txid v of
               None \<Rightarrow> spend_inputs address vs utxos
             | Some prev_txid \<Rightarrow>
                 (case vin_vout v of
                    None \<Rightarrow> spend_inputs address vs utxos
                  | Some prev_vout \<Rightarrow>
                      spend_inputs address vs (AList.delete (prev_txid, prev_vout) utxos)))
          else spend_inputs address vs utxos)"

text \<open>The loop over \<^verbatim>\<open>enumerate(tx.get("vout", []))\<close>; a missing value counts 0.\<close>

fun receive_outputs :: "string \<Rightarrow> string \<Rightarrow> (nat \<times> vout) list \<Rightarrow> utxos \<Rightarrow> utxos" where
  "receive_outputs address txid [] utxos = utxos"
| "receive_outputs address txid ((idx, out) # rest) utxos =
     (if vout_scriptpubkey_address out = Some address then
        receive_outputs address txid rest
          (AList.update (txid, int idx) (case vout_value out of None \<Rightarrow> 0 | Some v \<Rightarrow> v) utxos)
      else receive_outputs address txid rest utxos)"

definition tx_inputs :: "tx \<Rightarrow> vin list" where
  "tx_inputs t = (case tx_vin t of None \<Rightarrow> [] | Some vs \<Rightarrow> vs)"

definition tx_outputs :: "tx \<Rightarrow> vout list" where
  "tx_outputs t = (case tx_vout t of None \<Rightarrow> [] | Some vs \<Rightarrow> vs)"

text \<open>The loop over \<^verbatim>\<open>eligible\<close>: spend, then receive.\<close>

fun replay :: "string \<Rightarrow> tx list \<Rightarrow> utxos \<Rightarrow> exc + utxos" where
  "replay address [] utxos = Inr utxos"
| "replay address (t # ts) utxos =
     (case tx_txid t of
        None \<Rightarrow> Inl KeyError
      | Some txid \<Rightarrow>
          replay address ts
            (receive_outputs address txid (enumerate 0 (tx_outputs t))
               (spend_inputs address (tx_inputs t) utxos)))"

definition eligible :: "int \<Rightarrow> tx list \<Rightarrow> tx list" where
  "eligible ts_cutoff all_txs =
     filter (\<lambda>t. case tx_block_time t of None \<Rightarrow> False | Some bt \<Rightarrow> bt \<le> ts_cutoff) all_txs"

text \<open>
  The key of \<^verbatim>\<open>eligible.sort\<close>, \<^verbatim>\<open>tx_block_time(t) or 0\<close>. Python's sort is stable,
  as \<open>sort_key\<close> is.
\<close>

definition sort_time :: "tx \<Rightarrow> int" where
  "sort_time t = (case tx_block_time t of None \<Rightarrow> 0 | Some bt \<Rightarrow> if bt = 0 then 0 else bt)"

text \<open>Lines 130 to 159 of \<^verbatim>\<open>btc_balance_at_timestamp\<close>: everything after the paging.\<close>

definition balance_of_history :: "string \<Rightarrow> int \<Rightarrow> tx list \<Rightarrow> exc + int" where
  "balance_of_history address ts_cutoff all_txs =
     (case replay address (sort_key sort_time (eligible ts_cutoff all_txs)) [] of
        Inl e \<Rightarrow> Inl e
      | Inr utxos \<Rightarrow> Inr (sum_list (map snd utxos)))"

definition btc_balance_at_timestamp ::
  "(nat \<Rightarrow> tx list transport) \<Rightarrow> string \<Rightarrow> int \<Rightarrow> nat \<Rightarrow> exc + int"
where
  "btc_balance_at_timestamp net address ts_cutoff max_pages =
     (case fst (page_loop net address max_pages 0 [] None) of
        Inl e \<Rightarrow> Inl e
      | Inr all_txs \<Rightarrow> balance_of_history address ts_cutoff all_txs)"

subsection \<open>The reference algorithm of the specification\<close>




definition ref_spent :: "string \<Rightarrow> tx \<Rightarrow> utxo_key set" where
  "ref_spent a t =
     {(i, n). \<exists>v \<in> set (tx_inputs t).
        (\<exists>p. vin_prevout v = Some p \<and> prevout_scriptpubkey_address p = Some a)
        \<and> vin_txid v = Some i \<and> vin_vout v = Some n}"





section \<open>The price lookups of btc.py and eth\_alchemy.py\<close>

definition prices_url :: "string \<Rightarrow> string" where
  "prices_url key = ''https://api.g.alchemy.com/prices/v1/'' @ key @ ''/tokens/historical''"

definition price_request :: "string \<Rightarrow> string \<Rightarrow> string \<Rightarrow> string \<Rightarrow> request" where
  "price_request key symbol start_iso end_iso =
     \<lparr>req_method = ''POST'', req_url = prices_url key, req_params = None,
      req_json = Some [(''symbol'', symbol), (''startTime'', start_iso), (''endTime'', end_iso)]\<rparr>"

text \<open>btc.py posts through the retry wrapper.\<close>

definition btc_historical_price_usd ::
  "json transport \<Rightarrow> string \<Rightarrow> string \<Rightarrow> string \<Rightarrow> string \<Rightarrow> exc + json"
where
  "btc_historical_price_usd send key symbol start_iso end_iso =
     (case fst (request_with_retry send (price_request key symbol start_iso end_iso)) of
        Inl e \<Rightarrow> Inl e
      | Inr r \<Rightarrow> (case body r of None \<Rightarrow> Inl ValueError | Some j \<Rightarrow> Inr j))"

text \<open>
  eth\_alchemy.py and solana\_alchemy.py post once: \<^verbatim>\<open>requests.post\<close>,
  \<^verbatim>\<open>raise_for_status\<close>, \<^verbatim>\<open>r.json()\<close>. \<open>post req\<close> is what the one request yields.
\<close>

definition historical_price_usd ::
  "(request \<Rightarrow> json outcome) \<Rightarrow> string \<Rightarrow> string \<Rightarrow> string \<Rightarrow> string \<Rightarrow> exc + json"
where
  "historical_price_usd post key symbol start_iso end_iso =
     (case try_request (post (price_request key symbol start_iso end_iso)) of
        Inl e \<Rightarrow> Inl e
      | Inr r \<Rightarrow> (case body r of None \<Rightarrow> Inl ValueError | Some j \<Rightarrow> Inr j))"

text \<open>\<^verbatim>\<open>_extract_price_points\<close>, the same in both files.\<close>

definition top_level_prices :: "json \<Rightarrow> exc + json list" where
  "top_level_prices payload =
     (case py_get payload ''prices'' of
        Inl e \<Rightarrow> Inl e
      | Inr (JList ps) \<Rightarrow> Inr ps
      | Inr _ \<Rightarrow> Inr [])"

definition extract_price_points :: "json \<Rightarrow> exc + json list" where
  "extract_price_points payload =
     (case py_get payload ''data'' of
        Inl e \<Rightarrow> Inl e
      | Inr (JDict kvs) \<Rightarrow>
          (case map_of kvs ''prices'' of
             Some (JList ps) \<Rightarrow> Inr ps
           | _ \<Rightarrow> top_level_prices payload)
      | Inr (JList xs) \<Rightarrow> Inr xs
      | Inr _ \<Rightarrow> top_level_prices payload)"

text \<open>The local function \<^verbatim>\<open>parse_ts\<close>, the same in both files.\<close>

definition parse_ts :: "(string \<Rightarrow> datetime option) \<Rightarrow> json \<Rightarrow> exc + datetime" where
  "parse_ts fromisoformat p =
     (case py_get p ''timestamp'' of
        Inl e \<Rightarrow> Inl e
      | Inr ts \<Rightarrow>
          if \<not> truthy ts then Inr datetime_min_utc
          else (case ts of
                  JStr s \<Rightarrow>
                    (case fromisoformat (replace ''Z'' ''+00:00'' s) of
                       None \<Rightarrow> Inl ValueError
                     | Some d \<Rightarrow> Inr d)
                | _ \<Rightarrow> Inl AttributeError))"

text \<open>
  The last two lines of both functions: \<^verbatim>\<open>latest = max(points, key=parse_ts)\<close> and
  \<^verbatim>\<open>return float(latest["value"])\<close>.
\<close>

definition point_value :: "float_ops \<Rightarrow> json \<Rightarrow> exc + rat" where
  "point_value fl p = (case py_item p ''value'' of Inl e \<Rightarrow> Inl e | Inr v \<Rightarrow> py_float fl v)"

definition latest_value ::
  "float_ops \<Rightarrow> (string \<Rightarrow> datetime option) \<Rightarrow> json list \<Rightarrow> exc + rat"
where
  "latest_value fl fromisoformat points =
     (case py_max (parse_ts fromisoformat) points of
        Inl e \<Rightarrow> Inl e
      | Inr latest \<Rightarrow> point_value fl latest)"

definition no_points_error :: "string \<Rightarrow> string \<Rightarrow> exc" where
  "no_points_error symbol ondate =
     RuntimeError (''No price points returned for '' @ symbol @ '' on '' @ ondate) None"

text \<open>\<^verbatim>\<open>fx_rate_usd_end_of_day\<close> of btc.py.\<close>

definition btc_fx_rate_usd_end_of_day ::
  "float_ops \<Rightarrow> (string \<Rightarrow> datetime option) \<Rightarrow> json transport \<Rightarrow> string \<Rightarrow> string \<Rightarrow> string
     \<Rightarrow> exc + rat"
where
  "btc_fx_rate_usd_end_of_day fl fromisoformat send key symbol ondate =
     (case btc_historical_price_usd send key symbol
             (ondate @ ''T00:00:00Z'') (ondate @ ''T23:59:59Z'') of
        Inl e \<Rightarrow> Inl e
      | Inr payload \<Rightarrow>
          (case extract_price_points payload of
             Inl e \<Rightarrow> Inl e
           | Inr points \<Rightarrow>
               if points = [] then Inl (no_points_error symbol ondate)
               else latest_value fl fromisoformat points))"

text \<open>
  \<^verbatim>\<open>fx_rate_usd_end_of_day\<close> of eth\_alchemy.py: first the body of its \<^verbatim>\<open>try\<close>, then
  the function with its \<^verbatim>\<open>except Exception\<close> handler.
\<close>

definition STABLE_FALLBACK :: "(string \<times> rat) list" where
  "STABLE_FALLBACK = [(''USDC'', 1), (''USDT'', 1)]"

definition eth_fx_try ::
  "float_ops \<Rightarrow> (string \<Rightarrow> datetime option) \<Rightarrow> (request \<Rightarrow> json outcome) \<Rightarrow> string \<Rightarrow> string
     \<Rightarrow> string \<Rightarrow> exc + rat"
where
  "eth_fx_try fl fromisoformat post key symbol ondate =
     (case historical_price_usd post key symbol
             (ondate @ ''T00:00:00Z'') (ondate @ ''T23:59:59Z'') of
        Inl e \<Rightarrow> Inl e
      | Inr payload \<Rightarrow>
          (case extract_price_points payload of
             Inl e \<Rightarrow> Inl e
           | Inr points \<Rightarrow>
               if points = [] then
                 (case map_of STABLE_FALLBACK symbol of
                    Some r \<Rightarrow> Inr r
                  | None \<Rightarrow> Inl (no_points_error symbol ondate))
               else latest_value fl fromisoformat points))"

definition eth_fx_rate_usd_end_of_day ::
  "float_ops \<Rightarrow> (string \<Rightarrow> datetime option) \<Rightarrow> (request \<Rightarrow> json outcome) \<Rightarrow> string \<Rightarrow> string
     \<Rightarrow> string \<Rightarrow> exc + rat"
where
  "eth_fx_rate_usd_end_of_day fl fromisoformat post key symbol ondate =
     (case eth_fx_try fl fromisoformat post key symbol ondate of
        Inr r \<Rightarrow> Inr r
      | Inl e \<Rightarrow> (case map_of STABLE_FALLBACK symbol of Some r \<Rightarrow> Inr r | None \<Rightarrow> Inl e))"

section \<open>eth\_alchemy.py: the JSON-RPC call and the ERC-20 balance\<close>

text \<open>
  The JSON-RPC envelope: \<open>env_error\<close> is the value under \<^verbatim>\<open>"error"\<close> when the key is
  there, \<open>env_result\<close> the value under \<^verbatim>\<open>"result"\<close> when that key is there.
  \<^verbatim>\<open>rpc\<close> is the same function in eth\_alchemy.py and solana\_alchemy.py; its argument
  is what the one \<^verbatim>\<open>requests.post\<close> yields.
\<close>

record 'r envelope =
  env_error :: "string option"
  env_result :: "'r option"

definition rpc :: "'r envelope outcome \<Rightarrow> exc + 'r" where
  "rpc out =
     (case try_request out of
        Inl e \<Rightarrow> Inl e
      | Inr r \<Rightarrow>
          (case body r of
             None \<Rightarrow> Inl ValueError
           | Some j \<Rightarrow>
               (case env_error j of
                  Some err \<Rightarrow> Inl (RuntimeError err None)
                | None \<Rightarrow> (case env_result j of None \<Rightarrow> Inl KeyError | Some res \<Rightarrow> Inr res))))"

record call_obj =
  call_to :: string
  call_data :: string

text \<open>The string \<^verbatim>\<open>data\<close> that \<^verbatim>\<open>erc20_balance_at_block\<close> builds.\<close>

definition balance_of_call_data :: "string \<Rightarrow> string" where
  "balance_of_call_data holder =
     ''0x70a08231'' @ rjust 64 CHR ''0'' (replace ''0x'' [] (lower holder))"

text \<open>
  \<open>eth_call call block\<close> is what the post of \<^verbatim>\<open>eth_call\<close> with these parameters yields;
  its result is the returned hex string.
\<close>

definition erc20_balance_at_block ::
  "(call_obj \<Rightarrow> string \<Rightarrow> string envelope outcome) \<Rightarrow> string \<Rightarrow> string \<Rightarrow> nat \<Rightarrow> exc + int"
where
  "erc20_balance_at_block eth_call holder token_contract block_number =
     (case rpc (eth_call \<lparr>call_to = token_contract, call_data = balance_of_call_data holder\<rparr>
                  (hex block_number)) of
        Inl e \<Rightarrow> Inl e
      | Inr out \<Rightarrow> py_int 16 out)"

section \<open>solana\_alchemy.py\<close>

subsection \<open>Signature history\<close>

text \<open>
  An entry of \<^verbatim>\<open>getSignaturesForAddress\<close>: \<^verbatim>\<open>s["signature"]\<close> raises \<open>KeyError\<close>
  when absent, \<^verbatim>\<open>s.get("blockTime")\<close> is optional. A null result of the call is
  the empty list (both are false under \<^verbatim>\<open>if not sigs\<close>).
\<close>

record sig_info =
  sig_signature :: "string option"
  sig_blockTime :: "int option"

record sig_cfg =
  cfg_limit :: nat
  cfg_before :: "string option"

text \<open>
  The server is the environment and may answer every call differently: \<open>sigs_post i
  address cfg\<close> is what the post of call number \<open>i\<close> (from 0) of one search yields.
\<close>

type_synonym sigs_server = "nat \<Rightarrow> string \<Rightarrow> sig_cfg \<Rightarrow> sig_info list envelope outcome"

text \<open>
  The \<^verbatim>\<open>for s in sigs\<close> loop: \<open>Some\<close> when it leaves the function (a signature
  returned, or \<open>KeyError\<close>), \<open>None\<close> when it runs to its end.
\<close>

fun scan_sigs :: "int \<Rightarrow> sig_info list \<Rightarrow> (exc + string) option" where
  "scan_sigs ts_unix [] = None"
| "scan_sigs ts_unix (s # rest) =
     (case sig_blockTime s of
        None \<Rightarrow> scan_sigs ts_unix rest
      | Some bt \<Rightarrow>
          if bt \<le> ts_unix then
            (case sig_signature s of None \<Rightarrow> Some (Inl KeyError) | Some g \<Rightarrow> Some (Inr g))
          else scan_sigs ts_unix rest)"

text \<open>\<^verbatim>\<open>cfg\<close> as the loop builds it: \<^verbatim>\<open>before\<close> is set only when it is true.\<close>

definition make_cfg :: "nat \<Rightarrow> string option \<Rightarrow> sig_cfg" where
  "make_cfg page_limit before =
     \<lparr>cfg_limit = page_limit,
      cfg_before = (case before of None \<Rightarrow> None | Some b \<Rightarrow> if b \<noteq> [] then Some b else None)\<rparr>"

text \<open>
  The \<^verbatim>\<open>while True\<close> loop of \<^verbatim>\<open>find_last_signature_before_ts\<close>. It has no bound, so
  it is a partial function: the outer \<open>None\<close> is a run that never returns; \<open>Some (Inl e)\<close>
  raises, \<open>Some (Inr r)\<close> returns \<open>r\<close>.
\<close>

partial_function (option) find_loop ::
  "sigs_server \<Rightarrow> string \<Rightarrow> int \<Rightarrow> nat \<Rightarrow> nat \<Rightarrow> string option \<Rightarrow> (exc + string option) option"
where
  "find_loop sigs_post address ts_unix page_limit calls before =
     (case rpc (sigs_post calls address (make_cfg page_limit before)) of
        Inl e \<Rightarrow> Some (Inl e)
      | Inr sigs \<Rightarrow>
          if sigs = [] then Some (Inr None)
          else (case scan_sigs ts_unix sigs of
                  Some (Inl e) \<Rightarrow> Some (Inl e)
                | Some (Inr g) \<Rightarrow> Some (Inr (Some g))
                | None \<Rightarrow>
                    (case sig_signature (last sigs) of
                       None \<Rightarrow> Some (Inl KeyError)
                     | Some b \<Rightarrow>
                         find_loop sigs_post address ts_unix page_limit (Suc calls) (Some b))))"

definition find_last_signature_before_ts ::
  "sigs_server \<Rightarrow> string \<Rightarrow> int \<Rightarrow> nat \<Rightarrow> (exc + string option) option"
where
  "find_last_signature_before_ts sigs_post address ts_unix page_limit =
     find_loop sigs_post address ts_unix page_limit 0 None"

subsection \<open>Transaction detail\<close>

text \<open>
  A key of a JSON object whose value may be null: the key is not in the object, its value
  is null, or it has a value. \<open>has_key\<close> is \<^verbatim>\<open>key in obj\<close>, \<open>get_item\<close> is
  \<^verbatim>\<open>obj[key]\<close>, which gives Python's \<open>None\<close> for a null.
\<close>

datatype 'a jfield = Missing | Null | Present 'a

definition has_key :: "'a jfield \<Rightarrow> bool" where
  "has_key f \<longleftrightarrow> f \<noteq> Missing"

definition get_item :: "'a jfield \<Rightarrow> exc + 'a option" where
  "get_item f = (case f of Missing \<Rightarrow> Inl KeyError | Null \<Rightarrow> Inr None | Present x \<Rightarrow> Inr (Some x))"

text \<open>
  The result of \<^verbatim>\<open>getTransaction\<close> (\<open>None\<close> for null, which the node answers for a
  transaction it does not have). \<open>td_transaction\<close> and \<open>td_meta\<close> are the keys
  \<^verbatim>\<open>"transaction"\<close> and \<^verbatim>\<open>"meta"\<close>; the node documents a null \<^verbatim>\<open>meta\<close>.
  \<open>tr_accountKeys\<close> is \<open>None\<close> when \<^verbatim>\<open>["message"]["accountKeys"]\<close> raises \<open>KeyError\<close>,
  \<open>meta_postBalances\<close> when \<^verbatim>\<open>["postBalances"]\<close> does. An account key is a string or
  an object with an optional \<^verbatim>\<open>pubkey\<close>.
\<close>

datatype account_key = KeyStr string | KeyDict "string option"

record token_amount =
  ui_amount :: "string option"
  ui_decimals :: "nat option"

record token_balance =
  tb_mint :: "string option"
  tb_accountIndex :: "int option"
  tb_uiTokenAmount :: "token_amount option"

record tx_meta =
  meta_postBalances :: "int list option"
  meta_postTokenBalances :: "token_balance list option"
  meta_preTokenBalances :: "token_balance list option"

record transaction =
  tr_accountKeys :: "account_key list option"

record tx_detail =
  td_transaction :: "transaction jfield"
  td_meta :: "tx_meta jfield"

type_synonym tx_server = "string \<Rightarrow> tx_detail option envelope outcome"

text \<open>The comprehension \<^verbatim>\<open>[(k["pubkey"] if isinstance(k, dict) else k) for k in account_keys]\<close>.\<close>

fun pubkeys_of :: "account_key list \<Rightarrow> exc + string list" where
  "pubkeys_of [] = Inr []"
| "pubkeys_of (KeyStr k # ks) =
     (case pubkeys_of ks of Inl e \<Rightarrow> Inl e | Inr ps \<Rightarrow> Inr (k # ps))"
| "pubkeys_of (KeyDict None # ks) = Inl KeyError"
| "pubkeys_of (KeyDict (Some k) # ks) =
     (case pubkeys_of ks of Inl e \<Rightarrow> Inl e | Inr ps \<Rightarrow> Inr (k # ps))"

text \<open>\<^verbatim>\<open>xs.index(x)\<close>: the first position, \<open>None\<close> when it raises \<open>ValueError\<close>.\<close>

fun py_index :: "'a list \<Rightarrow> 'a \<Rightarrow> nat option" where
  "py_index [] x = None"
| "py_index (y # ys) x = (if y = x then Some 0 else map_option Suc (py_index ys x))"

text \<open>
  \<^verbatim>\<open>tx["transaction"]["message"]["accountKeys"]\<close> and the comprehension after it;
  subscripting \<open>None\<close> raises \<open>TypeError\<close>.
\<close>

definition pubkeys_of_tx :: "tx_detail \<Rightarrow> exc + string list" where
  "pubkeys_of_tx td =
     (case get_item (td_transaction td) of
        Inl e \<Rightarrow> Inl e
      | Inr None \<Rightarrow> Inl TypeError
      | Inr (Some tr) \<Rightarrow>
          (case tr_accountKeys tr of
             None \<Rightarrow> Inl KeyError
           | Some account_keys \<Rightarrow> pubkeys_of account_keys))"

definition could_not_fetch :: "string \<Rightarrow> exc" where
  "could_not_fetch signature =
     RuntimeError (''Could not fetch transaction details for '' @ signature) None"

definition wallet_not_found :: exc where
  "wallet_not_found =
     RuntimeError
       ''Wallet not found in transaction accountKeys; cannot read SOL snapshot from this tx.'' None"

text \<open>
  \<^verbatim>\<open>sol_balance_from_transaction\<close>. \<^verbatim>\<open>tx["meta"]["postBalances"]\<close> comes after the
  search for the wallet, and raises \<open>TypeError\<close> on a null \<^verbatim>\<open>meta\<close>.
\<close>

definition sol_balance_from_transaction :: "tx_server \<Rightarrow> string \<Rightarrow> string \<Rightarrow> exc + int" where
  "sol_balance_from_transaction tx_post wallet signature =
     (case rpc (tx_post signature) of
        Inl e \<Rightarrow> Inl e
      | Inr tx \<Rightarrow>
          (case tx of
             None \<Rightarrow> Inl (could_not_fetch signature)
           | Some td \<Rightarrow>
               if \<not> has_key (td_transaction td) \<or> \<not> has_key (td_meta td)
               then Inl (could_not_fetch signature)
               else
                 (case pubkeys_of_tx td of
                    Inl e \<Rightarrow> Inl e
                  | Inr pubkeys \<Rightarrow>
                      (case py_index pubkeys wallet of
                         None \<Rightarrow> Inl wallet_not_found
                       | Some idx \<Rightarrow>
                           (case get_item (td_meta td) of
                              Inl e \<Rightarrow> Inl e
                            | Inr None \<Rightarrow> Inl TypeError
                            | Inr (Some m) \<Rightarrow>
                                (case meta_postBalances m of
                                   None \<Rightarrow> Inl KeyError
                                 | Some post_balances \<Rightarrow>
                                     if idx < length post_balances
                                     then Inr (post_balances ! idx)
                                     else Inl IndexError))))))"

subsection \<open>Token balances\<close>

text \<open>The local function \<^verbatim>\<open>pick_balance\<close>.\<close>

fun pick_balance ::
  "float_ops \<Rightarrow> string \<Rightarrow> string \<Rightarrow> string list \<Rightarrow> token_balance list \<Rightarrow> exc + rat option"
where
  "pick_balance fl mint token_account pubkeys [] = Inr None"
| "pick_balance fl mint token_account pubkeys (e # es) =
     (if tb_mint e \<noteq> Some mint then pick_balance fl mint token_account pubkeys es
      else
        (case tb_accountIndex e of
           None \<Rightarrow> pick_balance fl mint token_account pubkeys es
         | Some idx \<Rightarrow>
             if 0 \<le> idx \<and> idx < int (length pubkeys) \<and> pubkeys ! nat idx = token_account then
               (let ui = (case tb_uiTokenAmount e of
                            None \<Rightarrow> \<lparr>ui_amount = None, ui_decimals = None\<rparr>
                          | Some u \<Rightarrow> u)
                in case ui_amount ui of
                     None \<Rightarrow> pick_balance fl mint token_account pubkeys es
                   | Some amt_raw \<Rightarrow>
                       (case ui_decimals ui of
                          None \<Rightarrow> pick_balance fl mint token_account pubkeys es
                        | Some dec \<Rightarrow>
                            (case py_int 10 amt_raw of
                               Inl er \<Rightarrow> Inl er
                             | Inr a \<Rightarrow> Inr (Some (truediv fl a (10 ^ dec))))))
             else pick_balance fl mint token_account pubkeys es))"

definition or_empty :: "'a list option \<Rightarrow> 'a list" where
  "or_empty xs = (case xs of None \<Rightarrow> [] | Some ys \<Rightarrow> ys)"

text \<open>
  \<^verbatim>\<open>spl_balance_at_ts_via_last_tx\<close> from the signature on: what it does with the result
  of the search. \<^verbatim>\<open>tx["meta"].get(...)\<close> raises \<open>AttributeError\<close> on a null
  \<^verbatim>\<open>meta\<close>.
\<close>

definition spl_balance_of_signature ::
  "float_ops \<Rightarrow> tx_server \<Rightarrow> string \<Rightarrow> string \<Rightarrow> string option \<Rightarrow> exc + rat option"
where
  "spl_balance_of_signature fl tx_post token_account mint sig =
     (case sig of
        None \<Rightarrow> Inr None
      | Some s \<Rightarrow>
          if s = [] then Inr None
          else
            (case rpc (tx_post s) of
               Inl e \<Rightarrow> Inl e
             | Inr tx \<Rightarrow>
                 (case tx of
                    None \<Rightarrow> Inr None
                  | Some td \<Rightarrow>
                      if \<not> has_key (td_transaction td) \<or> \<not> has_key (td_meta td) then Inr None
                      else
                        (case pubkeys_of_tx td of
                           Inl e \<Rightarrow> Inl e
                         | Inr pubkeys \<Rightarrow>
                             (case get_item (td_meta td) of
                                Inl e \<Rightarrow> Inl e
                              | Inr None \<Rightarrow> Inl AttributeError
                              | Inr (Some m) \<Rightarrow>
                                  (case pick_balance fl mint token_account pubkeys
                                          (or_empty (meta_postTokenBalances m)) of
                                     Inl e \<Rightarrow> Inl e
                                   | Inr (Some bal) \<Rightarrow> Inr (Some bal)
                                   | Inr None \<Rightarrow>
                                       pick_balance fl mint token_account pubkeys
                                         (or_empty (meta_preTokenBalances m))))))))"

definition spl_balance_at_ts_via_last_tx ::
  "float_ops \<Rightarrow> sigs_server \<Rightarrow> tx_server \<Rightarrow> string \<Rightarrow> string \<Rightarrow> int
     \<Rightarrow> (exc + rat option) option"
where
  "spl_balance_at_ts_via_last_tx fl sigs_post tx_post token_account mint ts_unix =
     (case find_last_signature_before_ts sigs_post token_account ts_unix 1000 of
        None \<Rightarrow> None
      | Some (Inl e) \<Rightarrow> Some (Inl e)
      | Some (Inr sig) \<Rightarrow> Some (spl_balance_of_signature fl tx_post token_account mint sig))"

subsection \<open>Prices\<close>

definition STABLES :: "string list" where
  "STABLES = [''USDC'', ''USDT'', ''USX'']"

definition COINGECKO_IDS :: "(string \<times> string) list" where
  "COINGECKO_IDS = [(''JITOSOL'', ''jito-staked-sol'')]"

text \<open>
  \<^verbatim>\<open>coingecko_price_on_date_usd\<close>: every exception inside gives \<open>None\<close>. \<open>cg_get req\<close> is
  what the one \<^verbatim>\<open>requests.get\<close> yields.
\<close>

definition coingecko_request :: "string \<Rightarrow> string \<Rightarrow> request" where
  "coingecko_request coin_id date_str =
     \<lparr>req_method = ''GET'',
      req_url = ''https://api.coingecko.com/api/v3/coins/'' @ coin_id @ ''/history'',
      req_params = Some [(''date'', date_str), (''localization'', ''false'')],
      req_json = None\<rparr>"

definition coingecko_try ::
  "float_ops \<Rightarrow> (request \<Rightarrow> json outcome) \<Rightarrow> string \<Rightarrow> string \<Rightarrow> exc + rat option"
where
  "coingecko_try fl cg_get coin_id ondate =
     (case split_on CHR ''-'' ondate of
        [yyyy, mm, dd] \<Rightarrow>
          (case try_request (cg_get (coingecko_request coin_id (dd @ ''-'' @ mm @ ''-'' @ yyyy))) of
             Inl e \<Rightarrow> Inl e
           | Inr r \<Rightarrow>
               (case body r of
                  None \<Rightarrow> Inl ValueError
                | Some j \<Rightarrow>
                    (case py_get_default j ''market_data'' (JDict []) of
                       Inl e \<Rightarrow> Inl e
                     | Inr md \<Rightarrow>
                         (case py_get_default md ''current_price'' (JDict []) of
                            Inl e \<Rightarrow> Inl e
                          | Inr cp \<Rightarrow>
                              (case py_get cp ''usd'' of
                                 Inl e \<Rightarrow> Inl e
                               | Inr price \<Rightarrow>
                                   if price = JNull then Inr None
                                   else (case py_float fl price of
                                           Inl e \<Rightarrow> Inl e
                                         | Inr r \<Rightarrow> Inr (Some r)))))))
      | _ \<Rightarrow> Inl ValueError)"

definition coingecko_price_on_date_usd ::
  "float_ops \<Rightarrow> (request \<Rightarrow> json outcome) \<Rightarrow> string \<Rightarrow> string \<Rightarrow> rat option"
where
  "coingecko_price_on_date_usd fl cg_get coin_id ondate =
     (case coingecko_try fl cg_get coin_id ondate of Inl e \<Rightarrow> None | Inr r \<Rightarrow> r)"

text \<open>
  The \<^verbatim>\<open>try\<close> of \<^verbatim>\<open>price_on_date_usd\<close>: \<open>Inr (Some r)\<close> returns \<open>r\<close>, \<open>Inr None\<close> is
  \<^verbatim>\<open>data\<close> being false, \<open>Inl e\<close> an exception, which the handler drops.
\<close>

definition alchemy_try ::
  "float_ops \<Rightarrow> (request \<Rightarrow> json outcome) \<Rightarrow> string \<Rightarrow> string \<Rightarrow> string \<Rightarrow> exc + rat option"
where
  "alchemy_try fl post key symbol ondate =
     (case historical_price_usd post key symbol
             (ondate @ ''T00:00:00Z'') (ondate @ ''T23:59:59Z'') of
        Inl e \<Rightarrow> Inl e
      | Inr prices \<Rightarrow>
          (case py_get_default prices ''data'' (JList []) of
             Inl e \<Rightarrow> Inl e
           | Inr data \<Rightarrow>
               if truthy data then
                 (case py_first data of
                    Inl e \<Rightarrow> Inl e
                  | Inr p \<Rightarrow>
                      (case py_item p ''value'' of
                         Inl e \<Rightarrow> Inl e
                       | Inr v \<Rightarrow>
                           (case py_float fl v of Inl e \<Rightarrow> Inl e | Inr r \<Rightarrow> Inr (Some r))))
               else Inr None))"

definition price_on_date_usd ::
  "float_ops \<Rightarrow> (request \<Rightarrow> json outcome) \<Rightarrow> (request \<Rightarrow> json outcome) \<Rightarrow> string \<Rightarrow> string
     \<Rightarrow> string \<Rightarrow> rat option"
where
  "price_on_date_usd fl post cg_get key symbol ondate =
     (case alchemy_try fl post key symbol ondate of
        Inr (Some r) \<Rightarrow> Some r
      | _ \<Rightarrow>
          (case map_of COINGECKO_IDS (upper symbol) of
             None \<Rightarrow> None
           | Some coin_id \<Rightarrow>
               if coin_id \<noteq> [] then coingecko_price_on_date_usd fl cg_get coin_id ondate
               else None))"

definition fallback_price :: "string \<Rightarrow> rat option" where
  "fallback_price label = (if label \<in> set STABLES then Some 1 else None)"

text \<open>
  The two callers in \<^verbatim>\<open>solana_wallet_value_on_date\<close>: the native price is
  \<^verbatim>\<open>price_on_date_usd("SOL", ondate) or 0.0\<close>; a token's price is the lookup, then
  \<^verbatim>\<open>fallback_price(label)\<close> when that is \<open>None\<close>.
\<close>

definition sol_price ::
  "float_ops \<Rightarrow> (request \<Rightarrow> json outcome) \<Rightarrow> (request \<Rightarrow> json outcome) \<Rightarrow> string \<Rightarrow> string \<Rightarrow> rat"
where
  "sol_price fl post cg_get key ondate =
     (case price_on_date_usd fl post cg_get key ''SOL'' ondate of
        None \<Rightarrow> 0
      | Some r \<Rightarrow> if r = 0 then 0 else r)"

definition token_price ::
  "float_ops \<Rightarrow> (request \<Rightarrow> json outcome) \<Rightarrow> (request \<Rightarrow> json outcome) \<Rightarrow> string \<Rightarrow> string
     \<Rightarrow> string \<Rightarrow> string \<Rightarrow> rat option"
where
  "token_price fl post cg_get key label price_symbol ondate =
     (case price_on_date_usd fl post cg_get key price_symbol ondate of
        None \<Rightarrow> fallback_price label
      | Some px \<Rightarrow> Some px)"

subsection \<open>The value of one token\<close>

text \<open>
  The loop over \<^verbatim>\<open>token_accounts\<close> in \<^verbatim>\<open>token_usd_value\<close>, with \<^verbatim>\<open>total\<close> (here \<open>tot\<close>)
  and \<^verbatim>\<open>found_any\<close>; \<open>bal ta\<close> is the call \<^verbatim>\<open>spl_balance_at_ts_via_last_tx(ta, mint, ts)\<close>.
\<close>

fun sum_balances ::
  "float_ops \<Rightarrow> (string \<Rightarrow> (exc + rat option) option) \<Rightarrow> string list \<Rightarrow> rat \<Rightarrow> bool
     \<Rightarrow> (exc + rat \<times> bool) option"
where
  "sum_balances fl bal [] tot found_any = Some (Inr (tot, found_any))"
| "sum_balances fl bal (ta # tas) tot found_any =
     (case bal ta of
        None \<Rightarrow> None
      | Some (Inl e) \<Rightarrow> Some (Inl e)
      | Some (Inr None) \<Rightarrow> sum_balances fl bal tas tot found_any
      | Some (Inr (Some b)) \<Rightarrow> sum_balances fl bal tas (fadd fl tot b) True)"

record solana_env =
  env_float :: float_ops
  env_sigs :: sigs_server
  env_tx :: tx_server
  env_prices :: "request \<Rightarrow> json outcome"
  env_coingecko :: "request \<Rightarrow> json outcome"
  env_key :: string

text \<open>
  The closure \<^verbatim>\<open>token_usd_value\<close>; \<open>m2tas\<close>, \<open>ts\<close> and \<open>ondate\<close> are the variables it
  captures.
\<close>

definition token_usd_value ::
  "solana_env \<Rightarrow> (string \<times> string list) list \<Rightarrow> int \<Rightarrow> string \<Rightarrow> string \<Rightarrow> string \<Rightarrow> string
     \<Rightarrow> (exc + rat) option"
where
  "token_usd_value env m2tas ts ondate mint label price_symbol =
     (let token_accounts = (case map_of m2tas mint of None \<Rightarrow> [] | Some tas \<Rightarrow> tas) in
      if token_accounts = [] then Some (Inr 0)
      else
        (case sum_balances (env_float env)
                (\<lambda>ta. spl_balance_at_ts_via_last_tx (env_float env) (env_sigs env) (env_tx env)
                         ta mint ts)
                token_accounts 0 False of
           None \<Rightarrow> None
         | Some (Inl e) \<Rightarrow> Some (Inl e)
         | Some (Inr (tot, found_any)) \<Rightarrow>
             if \<not> found_any then Some (Inr 0)
             else
               (case token_price (env_float env) (env_prices env) (env_coingecko env)
                       (env_key env) label price_symbol ondate of
                  None \<Rightarrow> Some (Inr 0)
                | Some px \<Rightarrow> Some (Inr (fmul (env_float env) tot px)))))"

section \<open>Auxiliary notions for the proofs\<close>



section \<open>Servers\<close>

text \<open>A successful JSON-RPC answer carrying \<open>res\<close>.\<close>

definition rpc_ok :: "'r \<Rightarrow> 'r envelope outcome" where
  "rpc_ok res = Responds \<lparr>status_code = 200, body = Some \<lparr>env_error = None, env_result = Some res\<rparr>\<rparr>"

text \<open>
  A well-behaved signature server over a history \<open>h\<close> (newest first): it answers with
  the first \<open>limit\<close> entries, of the whole history without a cursor, of what follows the
  entry with the cursor's signature with one.
\<close>

definition after_cursor :: "string \<Rightarrow> sig_info list \<Rightarrow> sig_info list" where
  "after_cursor c h = drop 1 (dropWhile (\<lambda>s. sig_signature s \<noteq> Some c) h)"

definition honest_sigs :: "sig_info list \<Rightarrow> sigs_server" where
  "honest_sigs h i address cfg =
     rpc_ok (take (cfg_limit cfg)
               (case cfg_before cfg of None \<Rightarrow> h | Some c \<Rightarrow> after_cursor c h))"

text \<open>
  The claim's result of the search: the first signature, in the order of the history,
  whose confirmation time is present and at or before the cutoff; none when there is no
  such entry.
\<close>

definition at_or_before :: "int \<Rightarrow> sig_info \<Rightarrow> bool" where
  "at_or_before ts s = (case sig_blockTime s of None \<Rightarrow> False | Some bt \<Rightarrow> bt \<le> ts)"

definition first_at_or_before :: "int \<Rightarrow> sig_info list \<Rightarrow> string option" where
  "first_at_or_before ts h =
     (case find (at_or_before ts) h of None \<Rightarrow> None | Some s \<Rightarrow> sig_signature s)"

text \<open>
  A server that answers every call, whatever the cursor, with the same one-entry page,
  confirmed at time 1000.
\<close>

definition stuck_sigs :: sigs_server where
  "stuck_sigs i address cfg = rpc_ok [\<lparr>sig_signature = Some ''s'', sig_blockTime = Some 1000\<rparr>]"

text \<open>What a well-behaved server's next page is cut from, for the cursor the loop holds.\<close>

definition remaining :: "sig_info list \<Rightarrow> string option \<Rightarrow> sig_info list" where
  "remaining h before =
     (case before of None \<Rightarrow> h | Some b \<Rightarrow> if b \<noteq> [] then after_cursor b h else h)"

text \<open>
  An answer to a signature call that ends the search whatever follows: a failed call, an
  empty page, a page with a signature at or before the cutoff, or a page whose last entry
  has no signature.
\<close>

definition stops_search :: "int \<Rightarrow> sig_info list envelope outcome \<Rightarrow> bool" where
  "stops_search ts out =
     (case rpc out of
        Inl e \<Rightarrow> True
      | Inr sigs \<Rightarrow> sigs = [] \<or> scan_sigs ts sigs \<noteq> None \<or> sig_signature (last sigs) = None)"

text \<open>
  The run of the search on a stream: the cursor the search holds when it makes call \<open>n\<close>
  (the signature of the last entry of the page before), the page that call yields, whether
  that answer ends the search, and the entries of the pages before call \<open>n\<close>, in the order
  the search meets them.
\<close>

fun cursor_at :: "sigs_server \<Rightarrow> string \<Rightarrow> nat \<Rightarrow> nat \<Rightarrow> string option" where
  "cursor_at sp a limit 0 = None"
| "cursor_at sp a limit (Suc n) =
     (case rpc (sp n a (make_cfg limit (cursor_at sp a limit n))) of
        Inl e \<Rightarrow> None
      | Inr sigs \<Rightarrow> if sigs = [] then None else sig_signature (last sigs))"

definition page_at :: "sigs_server \<Rightarrow> string \<Rightarrow> nat \<Rightarrow> nat \<Rightarrow> exc + sig_info list" where
  "page_at sp a limit n = rpc (sp n a (make_cfg limit (cursor_at sp a limit n)))"

definition run_stops :: "sigs_server \<Rightarrow> string \<Rightarrow> int \<Rightarrow> nat \<Rightarrow> nat \<Rightarrow> bool" where
  "run_stops sp a ts limit n = stops_search ts (sp n a (make_cfg limit (cursor_at sp a limit n)))"

definition encountered :: "sigs_server \<Rightarrow> string \<Rightarrow> nat \<Rightarrow> nat \<Rightarrow> sig_info list" where
  "encountered sp a limit n =
     concat (map (\<lambda>j. case page_at sp a limit j of Inl e \<Rightarrow> [] | Inr sigs \<Rightarrow> sigs) [0..<n])"

text \<open>
  A server that ignores the cursor: it answers every call with the newest \<open>limit\<close>
  entries of the history.
\<close>

definition newest_only :: "sig_info list \<Rightarrow> sigs_server" where
  "newest_only h i address cfg = rpc_ok (take (cfg_limit cfg) h)"

text \<open>
  A transaction that cannot be fetched: the node answers null, or an object without the
  key \<^verbatim>\<open>"transaction"\<close> or without the key \<^verbatim>\<open>"meta"\<close>.
\<close>

definition not_fetched :: "tx_detail option \<Rightarrow> bool" where
  "not_fetched tx =
     (case tx of None \<Rightarrow> True | Some td \<Rightarrow> td_transaction td = Missing \<or> td_meta td = Missing)"

subsection \<open>A three-entry signature history and its transaction\<close>

definition history3 :: "sig_info list" where
  "history3 =
     [\<lparr>sig_signature = Some ''s3'', sig_blockTime = Some 300\<rparr>,
      \<lparr>sig_signature = Some ''s2'', sig_blockTime = Some 200\<rparr>,
      \<lparr>sig_signature = Some ''s1'', sig_blockTime = Some 100\<rparr>]"

definition detail1 :: tx_detail where
  "detail1 =
     \<lparr>td_transaction = Present \<lparr>tr_accountKeys = Some [KeyStr ''P'', KeyDict (Some ''W'')]\<rparr>,
      td_meta = Present \<lparr>meta_postBalances = Some [7, 42],
                          meta_postTokenBalances = None, meta_preTokenBalances = None\<rparr>\<rparr>"

definition tx_server1 :: tx_server where
  "tx_server1 sig = (if sig = ''s1'' then rpc_ok (Some detail1) else rpc_ok None)"

section \<open>Token balance entries, in the claim's words\<close>

text \<open>
  An entry matches when its mint is the tracked mint and its account index is the
  position of the token account in the account keys; its amount is the pair of the raw
  amount and the decimals, when both are there.
\<close>

definition entry_matches :: "string \<Rightarrow> string \<Rightarrow> string list \<Rightarrow> token_balance \<Rightarrow> bool" where
  "entry_matches mint token_account pubkeys e \<longleftrightarrow>
     tb_mint e = Some mint \<and>
     (case tb_accountIndex e of
        None \<Rightarrow> False
      | Some idx \<Rightarrow> 0 \<le> idx \<and> nat idx < length pubkeys \<and> pubkeys ! nat idx = token_account)"

definition entry_amount :: "token_balance \<Rightarrow> (string \<times> nat) option" where
  "entry_amount e =
     (case tb_uiTokenAmount e of
        None \<Rightarrow> None
      | Some ui \<Rightarrow>
          (case ui_amount ui of
             None \<Rightarrow> None
           | Some amt \<Rightarrow> (case ui_decimals ui of None \<Rightarrow> None | Some dec \<Rightarrow> Some (amt, dec))))"

definition entry_usable :: "string \<Rightarrow> string \<Rightarrow> string list \<Rightarrow> token_balance \<Rightarrow> bool" where
  "entry_usable mint token_account pubkeys e \<longleftrightarrow>
     entry_matches mint token_account pubkeys e \<and> entry_amount e \<noteq> None"

definition decode_amount :: "float_ops \<Rightarrow> string \<times> nat \<Rightarrow> exc + rat option" where
  "decode_amount fl ad =
     (case py_int 10 (fst ad) of
        Inl er \<Rightarrow> Inl er
      | Inr a \<Rightarrow> Inr (Some (truediv fl a (10 ^ snd ad))))"

text \<open>The balances the token accounts yield, in the order of the accounts.\<close>

definition found_balances :: "(string \<Rightarrow> (exc + rat option) option) \<Rightarrow> string list \<Rightarrow> rat list" where
  "found_balances bal tas =
     List.map_filter (\<lambda>ta. case bal ta of Some (Inr (Some b)) \<Rightarrow> Some b | _ \<Rightarrow> None) tas"

text \<open>The call the loop of \<^verbatim>\<open>token_usd_value\<close> makes for one token account.\<close>

definition account_balance :: "solana_env \<Rightarrow> string \<Rightarrow> int \<Rightarrow> string \<Rightarrow> (exc + rat option) option" where
  "account_balance env mint ts ta =
     spl_balance_at_ts_via_last_tx (env_float env) (env_sigs env) (env_tx env) ta mint ts"

section \<open>Hexadecimal text as bytes and as a number\<close>

text \<open>The bytes a string of hexadecimal digits denotes, two digits a byte.\<close>

fun hex_bytes :: "string \<Rightarrow> nat list option" where
  "hex_bytes [] = Some []"
| "hex_bytes [c] = None"
| "hex_bytes (a # b # cs) =
     (case digit_value 16 a of
        None \<Rightarrow> None
      | Some x \<Rightarrow>
          (case digit_value 16 b of
             None \<Rightarrow> None
           | Some y \<Rightarrow> (case hex_bytes cs of None \<Rightarrow> None | Some bs \<Rightarrow> Some ((16 * x + y) # bs))))"

text \<open>The unsigned number a string of hexadecimal digits denotes.\<close>

definition hex_value :: "string \<Rightarrow> int" where
  "hex_value ds = foldl (\<lambda>acc c. acc * 16 + int (the (digit_value 16 c))) 0 ds"

definition is_hex :: "string \<Rightarrow> bool" where
  "is_hex s \<longleftrightarrow> list_all (\<lambda>c. digit_value 16 c \<noteq> None) s"

section \<open>Price points, in the claim's words\<close>

text \<open>
  Position \<open>i\<close> holds the point with the maximum timestamp, the first one when several
  share it; \<open>stamp\<close> gives every point's timestamp.
\<close>

definition is_latest :: "('a \<Rightarrow> int) \<Rightarrow> 'a list \<Rightarrow> nat \<Rightarrow> bool" where
  "is_latest stamp ps i \<longleftrightarrow>
     i < length ps \<and> (\<forall>j<length ps. stamp (ps ! j) \<le> stamp (ps ! i))
     \<and> (\<forall>j<i. stamp (ps ! j) < stamp (ps ! i))"

text \<open>A point lacks a timestamp when the field is absent, null or otherwise false.\<close>

definition lacks_timestamp :: "json \<Rightarrow> bool" where
  "lacks_timestamp p = (case py_get p ''timestamp'' of Inl e \<Rightarrow> False | Inr ts \<Rightarrow> \<not> truthy ts)"

section \<open>Concrete inputs\<close>

subsection \<open>Transports\<close>







subsection \<open>A two-transaction history\<close>

text \<open>
  \<open>tx1\<close> pays 500 to A at time 100; \<open>tx2\<close> spends that output at time 200, paying 300 to B
  and 200 change to A. The server lists the newest first, on one page, and answers the
  follow-up request with an empty page.
\<close>

definition tx1 :: tx where
  "tx1 = \<lparr>tx_txid = Some ''tx1'',
          tx_status = Some \<lparr>status_confirmed = Some True, status_block_time = Some 100\<rparr>,
          tx_vin = Some [],
          tx_vout = Some [\<lparr>vout_scriptpubkey_address = Some ''A'', vout_value = Some 500\<rparr>]\<rparr>"

definition tx2 :: tx where
  "tx2 = \<lparr>tx_txid = Some ''tx2'',
          tx_status = Some \<lparr>status_confirmed = Some True, status_block_time = Some 200\<rparr>,
          tx_vin = Some [\<lparr>vin_prevout = Some \<lparr>prevout_scriptpubkey_address = Some ''A''\<rparr>,
                          vin_txid = Some ''tx1'', vin_vout = Some 0\<rparr>],
          tx_vout = Some [\<lparr>vout_scriptpubkey_address = Some ''B'', vout_value = Some 300\<rparr>,
                          \<lparr>vout_scriptpubkey_address = Some ''A'', vout_value = Some 200\<rparr>]\<rparr>"


definition serve_once :: "tx list \<Rightarrow> nat \<Rightarrow> tx list transport" where
  "serve_once page i req k =
     Responds \<lparr>status_code = 200,
               body = Some (if req_url req = ''https://blockstream.info/api/address/A/txs''
                            then page else [])\<rparr>"

subsection \<open>Endless and eventually empty servers\<close>

text \<open>An Esplora server that answers every page request with the same non-empty page.\<close>

definition endless :: "nat \<Rightarrow> tx list transport" where
  "endless i req k = Responds \<lparr>status_code = 200, body = Some [tx1]\<rparr>"

text \<open>A signature server whose third answer is an empty page.\<close>

definition eventually_empty :: sigs_server where
  "eventually_empty i address cfg =
     (if i < 2 then rpc_ok [\<lparr>sig_signature = Some ''s'', sig_blockTime = Some 1000\<rparr>]
      else rpc_ok [])"

text \<open>Servers whose every call times out.\<close>

definition timeout_sigs :: sigs_server where
  "timeout_sigs i address cfg = Throws Timeout"

definition timeout_txs :: tx_server where
  "timeout_txs sig = Throws Timeout"

subsection \<open>A wallet with two token accounts of one mint\<close>

definition USDC_MINT :: string where
  "USDC_MINT = ''EPjFWdd5AufqSSqeM2qN1xzybapC8G4wEGGkZwyTDt1v''"

text \<open>
  Float operations on inputs where the exact result is a double, so that rounding does
  not show.
\<close>

definition exact_floats :: float_ops where
  "exact_floats =
     \<lparr>float_of_str = (\<lambda>s. if s = ''1.0'' then Some 1 else if s = ''1.5'' then Some (3 / 2) else None),
      float_of_num = (\<lambda>r. r),
      truediv = (\<lambda>a b. of_int a / of_int b),
      fadd = (\<lambda>a b. a + b),
      fmul = (\<lambda>a b. a * b)\<rparr>"

text \<open>
  One transaction, confirmed at time 100, touches both token accounts: it lists the
  balance of \<open>ta1\<close> after the transaction, and that of \<open>ta2\<close> only before it.
\<close>

definition token_history :: "sig_info list" where
  "token_history = [\<lparr>sig_signature = Some ''g1'', sig_blockTime = Some 100\<rparr>]"

definition token_sigs :: sigs_server where
  "token_sigs = honest_sigs token_history"

definition usdc_entry :: "int \<Rightarrow> string \<Rightarrow> token_balance" where
  "usdc_entry idx amt =
     \<lparr>tb_mint = Some USDC_MINT, tb_accountIndex = Some idx,
      tb_uiTokenAmount = Some \<lparr>ui_amount = Some amt, ui_decimals = Some 6\<rparr>\<rparr>"

definition token_detail :: tx_detail where
  "token_detail =
     \<lparr>td_transaction =
        Present \<lparr>tr_accountKeys = Some [KeyStr ''W'', KeyDict (Some ''ta1''), KeyStr ''ta2'']\<rparr>,
      td_meta = Present \<lparr>meta_postBalances = Some [0, 0, 0],
                          meta_postTokenBalances = Some [usdc_entry 1 ''1500000''],
                          meta_preTokenBalances =
                            Some [usdc_entry 1 ''1000000'', usdc_entry 2 ''2250000'']\<rparr>\<rparr>"

definition token_txs :: tx_server where
  "token_txs sig = (if sig = ''g1'' then rpc_ok (Some token_detail) else rpc_ok None)"

text \<open>
  The same transaction as the node answers it without status metadata: with a null
  \<^verbatim>\<open>meta\<close>, and without the key.
\<close>

definition null_meta_txs :: tx_server where
  "null_meta_txs sig = rpc_ok (Some (token_detail\<lparr>td_meta := Null\<rparr>))"

definition missing_meta_txs :: tx_server where
  "missing_meta_txs sig = rpc_ok (Some (token_detail\<lparr>td_meta := Missing\<rparr>))"

definition json_response :: "json \<Rightarrow> json outcome" where
  "json_response j = Responds \<lparr>status_code = 200, body = Some j\<rparr>"

definition no_prices :: "request \<Rightarrow> json outcome" where
  "no_prices req = json_response (JDict [(''data'', JList [])])"

definition token_env :: solana_env where
  "token_env =
     \<lparr>env_float = exact_floats, env_sigs = token_sigs, env_tx = token_txs,
      env_prices = no_prices, env_coingecko = no_prices, env_key = ''k''\<rparr>"

definition null_meta_env :: solana_env where
  "null_meta_env = token_env\<lparr>env_tx := null_meta_txs\<rparr>"

definition missing_meta_env :: solana_env where
  "missing_meta_env = token_env\<lparr>env_tx := missing_meta_txs\<rparr>"

subsection \<open>An ERC-20 holder\<close>

definition holder_digits :: string where
  "holder_digits = ''Ab5801a7D398351b8bE11C439e05C5B3259aeC9B''"

definition balance_digits :: string where
  "balance_digits = ''00000000000000000000000000000000000000000000000000000000000f4240''"

text \<open>A node that answers every \<^verbatim>\<open>eth_call\<close> with the 32-byte word for 1000000.\<close>

definition usdc_node :: "call_obj \<Rightarrow> string \<Rightarrow> string envelope outcome" where
  "usdc_node call block = rpc_ok (''0x'' @ balance_digits)"

subsection \<open>Two price points of one day\<close>

definition point_10h :: json where
  "point_10h = JDict [(''timestamp'', JStr ''2025-12-31T10:00:00Z''), (''value'', JStr ''1.0'')]"

definition point_20h :: json where
  "point_20h = JDict [(''timestamp'', JStr ''2025-12-31T20:00:00Z''), (''value'', JStr ''1.5'')]"

definition nested_payload :: json where
  "nested_payload =
     JDict [(''data'', JDict [(''symbol'', JStr ''BTC''), (''prices'', JList [point_10h, point_20h])])]"

definition bare_payload :: json where
  "bare_payload = JDict [(''data'', JList [point_10h, point_20h])]"

text \<open>\<^verbatim>\<open>datetime.fromisoformat\<close> on the two timestamps, in hours of the day.\<close>

definition iso_hours :: "string \<Rightarrow> datetime option" where
  "iso_hours s =
     (if s = ''2025-12-31T10:00:00+00:00'' then Some (Aware 10)
      else if s = ''2025-12-31T20:00:00+00:00'' then Some (Aware 20)
      else None)"

definition hours_of :: "json \<Rightarrow> int" where
  "hours_of p = (if p = point_10h then 10 else 20)"

definition always_json :: "json \<Rightarrow> json transport" where
  "always_json j req k = json_response j"

definition once_json :: "json \<Rightarrow> request \<Rightarrow> json outcome" where
  "once_json j req = json_response j"

subsection \<open>Answers of the price sources\<close>

definition empty_payload :: json where
  "empty_payload = JDict [(''data'', JList [])]"

definition gecko_payload :: json where
  "gecko_payload = JDict [(''market_data'', JDict [(''current_price'', JDict [(''usd'', JNum 2)])])]"

definition timeout_post :: "request \<Rightarrow> json outcome" where
  "timeout_post req = Throws Timeout"

definition bad_stamp_payload :: json where
  "bad_stamp_payload =
     JDict [(''data'', JList [JDict [(''timestamp'', JStr ''yesterday''), (''value'', JStr ''1.5'')]])]"

definition no_value_payload :: json where
  "no_value_payload = JDict [(''data'', JList [JDict [(''timestamp'', JStr ''2025-12-31T10:00:00Z'')]])]"

subsection \<open>Parent and child in one block\<close>

text \<open>
  \<open>tx2\<close> confirmed in the block of \<open>tx1\<close>, whose output it spends; the server lists the
  newest first, the child before its parent.
\<close>

definition tx2_same_block :: tx where
  "tx2_same_block =
     tx2\<lparr>tx_status := Some \<lparr>status_confirmed = Some True, status_block_time = Some 100\<rparr>\<rparr>"

section \<open>Verification: the retry wrapper\<close>

lemma caught_iff_transient: "caught_for_retry e \<longleftrightarrow> transient e"
  by (cases e) (auto simp: transient_def)



lemma retry_loop_stop:
  "\<forall>a\<in>set pre. \<exists>e. failure_of (send a) = Some e \<and> transient e \<Longrightarrow>
   (case try_request (send a) of Inr r \<Rightarrow> True | Inl e \<Rightarrow> \<not> transient e) \<Longrightarrow>
   retry_loop send url (pre @ a # post) last_exc c = (try_request (send a), Suc (c + length pre))"
proof (induction pre arbitrary: last_exc c)
  case Nil
  then show ?case by (auto simp: caught_iff_transient split: sum.splits)
next
  case (Cons b pre)
  then obtain e where e: "failure_of (send b) = Some e" "transient e" by auto
  then have t: "try_request (send b) = Inl e"
    by (auto simp: failure_of_def split: sum.splits)
  show ?case using Cons e t
    by (simp add: caught_iff_transient)
qed







lemma upt_split_at:
  assumes "1 \<le> k" "k \<le> 5"
  shows "[1..<MAX_RETRIES + 1] = [1..<k] @ k # [Suc k..<6]"
proof -
  have "[1..<6] = [1..<k] @ [k..<6]"
    using assms upt_add_eq_append[of 1 k "6 - k"] by simp
  moreover have "[k..<6] = k # [Suc k..<6]"
    using assms by (simp add: upt_conv_Cons)
  ultimately show ?thesis by (simp add: MAX_RETRIES_def)
qed

lemma rwr_stop:
  assumes k: "1 \<le> k" "k \<le> 5"
    and pre: "\<forall>j. 1 \<le> j \<and> j < k \<longrightarrow> (\<exists>e. failure_of (send req j) = Some e \<and> transient e)"
    and last: "case try_request (send req k) of Inr r \<Rightarrow> True | Inl e \<Rightarrow> \<not> transient e"
  shows "request_with_retry send req = (try_request (send req k), k)"
proof -
  have "\<forall>a\<in>set [1..<k]. \<exists>e. failure_of (send req a) = Some e \<and> transient e"
    using pre by auto
  from retry_loop_stop[OF this last, of "req_url req" "[Suc k..<6]" None 0]
  show ?thesis
    unfolding request_with_retry_def upt_split_at[OF k] using k by simp
qed







section \<open>Verification: the UTXO replay against the reference algorithm\<close>


























section \<open>Verification: the signature search and the paging loops\<close>

lemma rpc_rpc_ok: "rpc (rpc_ok res) = Inr res"
  by (simp add: rpc_def rpc_ok_def try_request_def raise_for_status_def)

lemma scan_sigs_find:
  "scan_sigs ts xs =
     (case find (at_or_before ts) xs of
        None \<Rightarrow> None
      | Some s \<Rightarrow> Some (case sig_signature s of None \<Rightarrow> Inl KeyError | Some g \<Rightarrow> Inr g))"
  by (induction xs) (auto simp: at_or_before_def split: option.splits)

lemma find_append_none:
  "find P xs = None \<Longrightarrow> find P (xs @ ys) = find P ys"
  by (induction xs) (auto split: if_splits)

lemma find_append_some:
  "find P xs = Some x \<Longrightarrow> find P (xs @ ys) = Some x"
  by (induction xs) (auto split: if_splits)

lemma find_SomeD: "find P xs = Some x \<Longrightarrow> x \<in> set xs \<and> P x"
  by (induction xs) (auto split: if_splits)

lemma after_cursor_split:
  assumes d: "distinct (map sig_signature (xs @ s # ys))" and c: "sig_signature s = Some c"
  shows "after_cursor c (xs @ s # ys) = ys"
proof -
  have "\<forall>x\<in>set xs. sig_signature x \<noteq> Some c"
    using d c by (auto simp: image_iff)
  then have "dropWhile (\<lambda>s. sig_signature s \<noteq> Some c) (xs @ s # ys) = s # ys"
    using c by (simp add: dropWhile_append)
  then show ?thesis by (simp add: after_cursor_def)
qed

lemma honest_page:
  "rpc (honest_sigs h i a (make_cfg limit before)) = Inr (take limit (remaining h before))"
  by (simp add: honest_sigs_def rpc_rpc_ok make_cfg_def remaining_def split: option.splits)

lemma find_loop_honest:
  assumes d: "distinct (map sig_signature h)"
    and sigs: "\<forall>s\<in>set h. \<exists>g. sig_signature s = Some g \<and> g \<noteq> []"
    and lim: "0 < limit"
  shows "h = pre @ r \<Longrightarrow> find (at_or_before ts) pre = None \<Longrightarrow> remaining h before = r \<Longrightarrow>
    find_loop (honest_sigs h) a ts limit calls before = Some (Inr (first_at_or_before ts h))"
proof (induction "length r" arbitrary: pre r calls before rule: less_induct)
  case less
  let ?page = "take limit r"
  have page: "rpc (honest_sigs h calls a (make_cfg limit before)) = Inr ?page"
    using less.prems(3) by (simp add: honest_page)
  show ?case
  proof (cases "r = []")
    case True
    then have "first_at_or_before ts h = None"
      using less.prems by (simp add: first_at_or_before_def)
    then show ?thesis
      using True page by (subst find_loop.simps) simp
  next
    case False
    then have ne: "?page \<noteq> []" using lim by simp
    have hsplit: "h = pre @ ?page @ drop limit r" using less.prems(1) by simp
    show ?thesis
    proof (cases "find (at_or_before ts) ?page")
      case (Some s)
      then have "s \<in> set ?page" by (simp add: find_SomeD)
      then have "s \<in> set h" using hsplit by (metis Un_iff set_append)
      then obtain g where g: "sig_signature s = Some g" using sigs by blast
      have "find (at_or_before ts) h = Some s"
        using hsplit less.prems(2) Some
        by (metis find_append_none find_append_some)
      then have "first_at_or_before ts h = Some g"
        by (simp add: first_at_or_before_def g)
      then show ?thesis
        using ne page Some g by (subst find_loop.simps) (simp add: scan_sigs_find)
    next
      case None
      have "last ?page \<in> set h" using ne hsplit
        by (metis Un_iff last_in_set set_append)
      then obtain b where b: "sig_signature (last ?page) = Some b" "b \<noteq> []"
        using sigs by blast
      have h2: "h = (pre @ butlast ?page) @ last ?page # drop limit r"
        using hsplit ne by (metis append.assoc append_Cons append_Nil append_butlast_last_id)
      have rem: "remaining h (Some b) = drop limit r"
        using after_cursor_split[of "pre @ butlast ?page" "last ?page" "drop limit r" b] d b h2
        by (simp add: remaining_def)
      have shorter: "length (drop limit r) < length r"
        using False lim by simp
      have pre': "find (at_or_before ts) (pre @ ?page) = None"
        using less.prems(2) None by (simp add: find_append_none)
      have h3: "h = (pre @ ?page) @ drop limit r" using hsplit by simp
      from less.hyps[OF shorter h3 pre' rem]
      have IH: "find_loop (honest_sigs h) a ts limit (Suc calls) (Some b) =
          Some (Inr (first_at_or_before ts h))" .
      show ?thesis
        using ne page None b IH by (subst find_loop.simps) (simp add: scan_sigs_find)
    qed
  qed
qed

lemma find_last_signature_honest:
  assumes "distinct (map sig_signature h)"
    and "\<forall>s\<in>set h. \<exists>g. sig_signature s = Some g \<and> g \<noteq> []"
    and "0 < limit"
  shows "find_last_signature_before_ts (honest_sigs h) a ts limit =
    Some (Inr (first_at_or_before ts h))"
  unfolding find_last_signature_before_ts_def
  using find_loop_honest[OF assms, of "[]" h ts None a 0]
  by (simp add: remaining_def)

lemma stuck_page:
  "rpc (stuck_sigs i a cfg) = Inr [\<lparr>sig_signature = Some ''s'', sig_blockTime = Some 1000\<rparr>]"
  by (simp add: stuck_sigs_def rpc_rpc_ok)

lemma find_loop_stuck_aux:
  assumes "find_loop sp a ts limit calls before = Some y"
  shows "sp = stuck_sigs \<longrightarrow> ts < 1000 \<longrightarrow> False"
proof (rule find_loop.raw_induct
    [where P = "\<lambda>sp a ts limit calls before y. sp = stuck_sigs \<longrightarrow> ts < 1000 \<longrightarrow> False",
      OF _ assms], goal_cases)
  case (1 f sp a ts limit calls before y)
  then show ?case
    by (auto simp: stuck_page split: if_splits option.splits sum.splits)
qed

lemma find_loop_stuck: "ts < 1000 \<Longrightarrow> find_last_signature_before_ts stuck_sigs a ts limit = None"
  unfolding find_last_signature_before_ts_def
  using find_loop_stuck_aux[of stuck_sigs a ts limit 0 None]
  by (cases "find_loop stuck_sigs a ts limit 0 None") auto

lemma page_loop_bound:
  "snd (page_loop net a n fetched acc cur) \<le> fetched + n"
proof (induction n arbitrary: fetched acc cur)
  case 0
  then show ?case by simp
next
  case (Suc n)
  show ?case
  proof (cases "get_address_txs (net fetched) a cur")
    case (Inl e)
    then show ?thesis by simp
  next
    case (Inr page)
    show ?thesis
    proof (cases "page = []")
      case True
      with Inr show ?thesis by simp
    next
      case False
      show ?thesis
      proof (cases "tx_txid (last page)")
        case None
        with Inr False show ?thesis by simp
      next
        case (Some t)
        with Inr False Suc[of "Suc fetched" "acc @ page" "Some t"] show ?thesis by simp
      qed
    qed
  qed
qed

lemma page_loop_cap:
  "\<forall>i<fetched + n. \<forall>cur. \<exists>page. get_address_txs (net i) a cur = Inr page \<and> page \<noteq> []
       \<and> tx_txid (last page) \<noteq> None \<Longrightarrow>
   \<exists>all_txs. page_loop net a n fetched acc cur = (Inr all_txs, fetched + n)
       \<and> length acc + n \<le> length all_txs"
proof (induction n arbitrary: fetched acc cur)
  case 0
  then show ?case by simp
next
  case (Suc n)
  from Suc.prems obtain page t where page: "get_address_txs (net fetched) a cur = Inr page"
    "page \<noteq> []" "tx_txid (last page) = Some t"
  proof -
    have "fetched < fetched + Suc n" by simp
    with Suc.prems obtain page where "get_address_txs (net fetched) a cur = Inr page \<and> page \<noteq> []
       \<and> tx_txid (last page) \<noteq> None" by blast
    then show ?thesis using that by (cases "tx_txid (last page)") auto
  qed
  have "\<forall>i<Suc fetched + n. \<forall>cur. \<exists>page. get_address_txs (net i) a cur = Inr page \<and> page \<noteq> []
       \<and> tx_txid (last page) \<noteq> None"
    using Suc.prems by simp
  from Suc.IH[OF this, of "acc @ page" "Some t"]
  obtain all_txs where A: "page_loop net a n (Suc fetched) (acc @ page) (Some t) = (Inr all_txs, Suc fetched + n)"
    and B: "length (acc @ page) + n \<le> length all_txs" by blast
  have C: "length acc + Suc n \<le> length all_txs"
    using B page(2) by (cases page) auto
  show ?case using A C page by simp
qed

lemma find_loop_stops:
  assumes "\<forall>cur. stops_search ts (sigs_post n a (make_cfg limit cur))"
  shows "calls \<le> n \<Longrightarrow> find_loop sigs_post a ts limit calls before \<noteq> None"
proof (induction "n - calls" arbitrary: calls before)
  case 0
  then have "calls = n" by simp
  with assms have "stops_search ts (sigs_post calls a (make_cfg limit before))" by simp
  then show ?case
    by (subst find_loop.simps) (auto simp: stops_search_def split: sum.splits option.splits)
next
  case (Suc d)
  then have "d = n - Suc calls" "Suc calls \<le> n" by simp_all
  from Suc.hyps(1)[OF this] have IH: "find_loop sigs_post a ts limit (Suc calls) b \<noteq> None" for b .
  show ?case
    using IH by (subst find_loop.simps) (auto split: sum.splits option.splits)
qed

subsection \<open>The run of the search on an arbitrary stream\<close>

lemma find_loop_step:
  assumes "\<not> stops_search ts (sp calls a (make_cfg limit before))"
  shows "\<exists>sigs b. rpc (sp calls a (make_cfg limit before)) = Inr sigs \<and> sigs \<noteq> []
           \<and> find (at_or_before ts) sigs = None \<and> sig_signature (last sigs) = Some b
           \<and> find_loop sp a ts limit calls before = find_loop sp a ts limit (Suc calls) (Some b)"
proof -
  from assms obtain sigs where sigs: "rpc (sp calls a (make_cfg limit before)) = Inr sigs"
    "sigs \<noteq> []" "scan_sigs ts sigs = None" "sig_signature (last sigs) \<noteq> None"
    by (cases "rpc (sp calls a (make_cfg limit before))") (auto simp: stops_search_def)
  then obtain b where b: "sig_signature (last sigs) = Some b" by auto
  have f: "find (at_or_before ts) sigs = None"
    using sigs(3) by (simp add: scan_sigs_find split: option.splits)
  have "find_loop sp a ts limit calls before = find_loop sp a ts limit (Suc calls) (Some b)"
    using sigs b by (subst find_loop.simps) simp
  with sigs b f show ?thesis by blast
qed

lemma find_loop_stop:
  assumes "stops_search ts (sp calls a (make_cfg limit before))"
  shows "find_loop sp a ts limit calls before =
    Some (case rpc (sp calls a (make_cfg limit before)) of
            Inl e \<Rightarrow> Inl e
          | Inr sigs \<Rightarrow>
              if sigs = [] then Inr None
              else (case find (at_or_before ts) sigs of
                      None \<Rightarrow> Inl KeyError
                    | Some s \<Rightarrow> (case sig_signature s of None \<Rightarrow> Inl KeyError
                                 | Some g \<Rightarrow> Inr (Some g))))"
  using assms
  by (subst find_loop.simps)
     (auto simp: stops_search_def scan_sigs_find split: sum.splits option.splits)

lemma cursor_at_step:
  "\<not> run_stops sp a ts limit n \<Longrightarrow>
   find_loop sp a ts limit n (cursor_at sp a limit n) =
     find_loop sp a ts limit (Suc n) (cursor_at sp a limit (Suc n))"
proof -
  assume "\<not> run_stops sp a ts limit n"
  then have "\<not> stops_search ts (sp n a (make_cfg limit (cursor_at sp a limit n)))"
    by (simp add: run_stops_def)
  from find_loop_step[where sp = sp and calls = n and a = a and limit = limit and ts = ts
      and before = "cursor_at sp a limit n", OF this] obtain sigs b where
    "rpc (sp n a (make_cfg limit (cursor_at sp a limit n))) = Inr sigs" "sigs \<noteq> []"
    "sig_signature (last sigs) = Some b"
    "find_loop sp a ts limit n (cursor_at sp a limit n) = find_loop sp a ts limit (Suc n) (Some b)"
    by blast
  then show ?thesis by simp
qed

lemma find_loop_run:
  "\<forall>j<n. \<not> run_stops sp a ts limit j \<Longrightarrow>
   find_loop sp a ts limit 0 None = find_loop sp a ts limit n (cursor_at sp a limit n)"
proof (induction n)
  case 0
  then show ?case by simp
next
  case (Suc n)
  then have "find_loop sp a ts limit 0 None = find_loop sp a ts limit n (cursor_at sp a limit n)"
    by simp
  moreover have "\<not> run_stops sp a ts limit n" using Suc.prems by simp
  ultimately show ?case using cursor_at_step by simp
qed

lemma encountered_Suc:
  "encountered sp a limit (Suc n) =
     encountered sp a limit n @ (case page_at sp a limit n of Inl e \<Rightarrow> [] | Inr sigs \<Rightarrow> sigs)"
  by (simp add: encountered_def)

lemma encountered_none:
  "\<forall>j<n. \<not> run_stops sp a ts limit j \<Longrightarrow> find (at_or_before ts) (encountered sp a limit n) = None"
proof (induction n)
  case 0
  then show ?case by (simp add: encountered_def)
next
  case (Suc n)
  then have IH: "find (at_or_before ts) (encountered sp a limit n) = None" by simp
  from Suc.prems have "\<not> stops_search ts (sp n a (make_cfg limit (cursor_at sp a limit n)))"
    by (simp add: run_stops_def)
  from find_loop_step[where sp = sp and calls = n and a = a and limit = limit and ts = ts
      and before = "cursor_at sp a limit n", OF this] obtain sigs where
    "page_at sp a limit n = Inr sigs" "find (at_or_before ts) sigs = None"
    by (auto simp: page_at_def)
  then show ?case using IH by (simp add: encountered_Suc find_append_none)
qed

lemma search_first_stop:
  assumes "\<forall>j<n. \<not> run_stops sp a ts limit j" "run_stops sp a ts limit n"
  shows "find_last_signature_before_ts sp a ts limit =
    Some (case page_at sp a limit n of
            Inl e \<Rightarrow> Inl e
          | Inr sigs \<Rightarrow>
              if sigs = [] then Inr None
              else (case find (at_or_before ts) sigs of
                      None \<Rightarrow> Inl KeyError
                    | Some s \<Rightarrow> (case sig_signature s of None \<Rightarrow> Inl KeyError
                                 | Some g \<Rightarrow> Inr (Some g))))"
  unfolding find_last_signature_before_ts_def find_loop_run[OF assms(1)] page_at_def
  using assms(2) unfolding run_stops_def by (rule find_loop_stop)

lemma search_returns_iff:
  "find_last_signature_before_ts sp a ts limit \<noteq> None \<longleftrightarrow> (\<exists>n. run_stops sp a ts limit n)"
proof
  assume "\<exists>n. run_stops sp a ts limit n"
  then obtain n where n: "run_stops sp a ts limit n" "\<forall>j<n. \<not> run_stops sp a ts limit j"
    using exists_least_iff[of "run_stops sp a ts limit"] by blast
  from search_first_stop[OF n(2) n(1)] show "find_last_signature_before_ts sp a ts limit \<noteq> None"
    by simp
next
  assume r: "find_last_signature_before_ts sp a ts limit \<noteq> None"
  show "\<exists>n. run_stops sp a ts limit n"
  proof (rule ccontr)
    assume "\<not> (\<exists>n. run_stops sp a ts limit n)"
    then have never: "\<And>n. \<not> run_stops sp a ts limit n" by blast
    from r obtain y where y: "find_loop sp a ts limit 0 None = Some y"
      by (auto simp: find_last_signature_before_ts_def)
    have "sp' = sp \<longrightarrow> a' = a \<longrightarrow> ts' = ts \<longrightarrow> limit' = limit
        \<longrightarrow> before = cursor_at sp a limit calls \<longrightarrow> False"
      if "find_loop sp' a' ts' limit' calls before = Some y'" for sp' a' ts' limit' calls before y'
    proof (rule find_loop.raw_induct
        [where P = "\<lambda>sp' a' ts' limit' calls before y'. sp' = sp \<longrightarrow> a' = a \<longrightarrow> ts' = ts
            \<longrightarrow> limit' = limit \<longrightarrow> before = cursor_at sp a limit calls \<longrightarrow> False",
          OF _ that], goal_cases)
      case (1 f sp' a' ts' limit' calls before y')
      show ?case
      proof (intro impI)
        assume eq: "sp' = sp" "a' = a" "ts' = ts" "limit' = limit"
          "before = cursor_at sp a limit calls"
        from never[of calls]
        have ns: "\<not> stops_search ts (sp calls a (make_cfg limit (cursor_at sp a limit calls)))"
          by (simp add: run_stops_def)
        then obtain sigs b where sigs: "rpc (sp calls a (make_cfg limit (cursor_at sp a limit calls))) = Inr sigs"
          "sigs \<noteq> []" "scan_sigs ts sigs = None" "sig_signature (last sigs) = Some b"
          by (cases "rpc (sp calls a (make_cfg limit (cursor_at sp a limit calls)))")
             (auto simp: stops_search_def)
        from 1(2) eq sigs have "f sp a ts limit (Suc calls) (Some b) = Some y'" by simp
        moreover have "Some b = cursor_at sp a limit (Suc calls)" using sigs by simp
        ultimately show False using 1(1)[of sp a ts limit "Suc calls" "Some b" y'] by simp
      qed
    qed
    from this[OF y] show False by simp
  qed
qed

section \<open>Verification: the native Solana balance\<close>

lemma py_index_None: "py_index xs x = None \<longleftrightarrow> x \<notin> set xs"
  by (induction xs) auto

lemma py_index_Some:
  "py_index xs x = Some i \<Longrightarrow> i < length xs \<and> xs ! i = x \<and> (\<forall>j<i. xs ! j \<noteq> x)"
proof (induction xs arbitrary: i)
  case Nil
  then show ?case by simp
next
  case (Cons y ys)
  show ?case
  proof (cases "y = x")
    case True
    with Cons.prems show ?thesis by simp
  next
    case False
    with Cons.prems obtain i' where i': "py_index ys x = Some i'" "i = Suc i'" by auto
    from Cons.IH[OF i'(1)] have IH: "i' < length ys" "ys ! i' = x" "\<forall>j<i'. ys ! j \<noteq> x" by auto
    have "(y # ys) ! j \<noteq> x" if "j < Suc i'" for j
      using that False IH(3) by (cases j) auto
    with IH i' show ?thesis by simp
  qed
qed

lemma newest_only_never_stops:
  "\<not> run_stops (newest_only history3) a 150 2 n"
  by (simp add: run_stops_def stops_search_def newest_only_def rpc_rpc_ok make_cfg_def history3_def)

lemma sol_balance_not_fetched:
  "rpc (tx_post sig) = Inr tx \<Longrightarrow> not_fetched tx \<Longrightarrow>
   sol_balance_from_transaction tx_post wallet sig = Inl (could_not_fetch sig)"
  by (auto simp: sol_balance_from_transaction_def not_fetched_def has_key_def split: option.splits)

lemma pubkeys_of_tx_Present:
  "td_transaction td = Present tr \<Longrightarrow> tr_accountKeys tr = Some keys \<Longrightarrow>
   pubkeys_of_tx td = pubkeys_of keys"
  by (simp add: pubkeys_of_tx_def get_item_def)

lemma sol_balance_fetched:
  assumes "rpc (tx_post sig) = Inr (Some td)" "td_transaction td = Present tr"
    "td_meta td \<noteq> Missing" "tr_accountKeys tr = Some keys" "pubkeys_of keys = Inr pubkeys"
  shows "sol_balance_from_transaction tx_post wallet sig =
    (case py_index pubkeys wallet of
       None \<Rightarrow> Inl wallet_not_found
     | Some i \<Rightarrow>
         (case td_meta td of
            Present m \<Rightarrow>
              (case meta_postBalances m of
                 None \<Rightarrow> Inl KeyError
               | Some pb \<Rightarrow> if i < length pb then Inr (pb ! i) else Inl IndexError)
          | _ \<Rightarrow> Inl TypeError))"
  using assms
  by (cases "td_meta td")
     (simp_all add: sol_balance_from_transaction_def has_key_def get_item_def
        pubkeys_of_tx_Present[OF assms(2,4)] split: option.splits)

lemma sol_balance_value:
  assumes "sol_balance_from_transaction tx_post wallet sig = Inr v"
  shows "\<exists>td tr m keys pubkeys pb i.
      rpc (tx_post sig) = Inr (Some td) \<and> td_transaction td = Present tr \<and> td_meta td = Present m
      \<and> tr_accountKeys tr = Some keys \<and> pubkeys_of keys = Inr pubkeys
      \<and> meta_postBalances m = Some pb
      \<and> i < length pubkeys \<and> pubkeys ! i = wallet \<and> (\<forall>j<i. pubkeys ! j \<noteq> wallet)
      \<and> i < length pb \<and> v = pb ! i"
proof -
  from assms obtain td where td: "rpc (tx_post sig) = Inr (Some td)"
    and k: "td_transaction td \<noteq> Missing" "td_meta td \<noteq> Missing"
    by (auto simp: sol_balance_from_transaction_def has_key_def
        split: sum.splits option.splits if_splits)
  from assms td k obtain pubkeys where pk: "pubkeys_of_tx td = Inr pubkeys"
    by (auto simp: sol_balance_from_transaction_def has_key_def
        split: sum.splits option.splits if_splits)
  then obtain tr keys where tr: "td_transaction td = Present tr" "tr_accountKeys tr = Some keys"
    "pubkeys_of keys = Inr pubkeys"
    by (cases "td_transaction td")
       (auto simp: pubkeys_of_tx_def get_item_def split: option.splits)
  note f = sol_balance_fetched[where tx_post = tx_post and sig = sig and td = td and tr = tr
      and keys = keys and pubkeys = pubkeys and wallet = wallet, OF td tr(1) k(2) tr(2,3)]
  from assms f obtain i where i: "py_index pubkeys wallet = Some i"
    by (cases "py_index pubkeys wallet") auto
  from assms f i obtain m where m: "td_meta td = Present m"
    by (cases "td_meta td") auto
  from assms f i m obtain pb where pb: "meta_postBalances m = Some pb" "i < length pb" "v = pb ! i"
    by (cases "meta_postBalances m") (auto split: if_splits)
  from py_index_Some[OF i] td tr m pb show ?thesis by blast
qed

text \<open>
  Claim C5, as amended. On every signature stream, when the call at which the run of the
  backward search first meets an answer that ends it yields a page holding a signature
  confirmed at or before the cutoff, the search returns the first such signature among
  the entries it has met, in the order of the pages; when that call yields an empty page,
  it returns none and has met no such entry; when that call fails, it raises the call's
  error. Against a well-behaved server over a finite history with distinct, non-empty
  signatures and a positive page limit, it returns the first signature of the history
  confirmed at or before the cutoff, and none when there is no such entry. Given a
  signature, the native balance read returns the post-balance at the first position of
  the wallet in the account keys (\<open>IndexError\<close> when the post-balances are shorter), and
  whenever it returns a value it is that one; it raises a \<open>RuntimeError\<close> when the
  wallet is not among the account keys, and raises when the transaction cannot be
  fetched: the call's own error, or a \<open>RuntimeError\<close> for a null result and for a result
  without the transaction or the meta key.
\<close>

theorem solana_native_balance:
  "((\<forall>j<n. \<not> run_stops sp a ts limit j) \<longrightarrow>
      (\<forall>sigs g. page_at sp a limit n = Inr sigs \<and> first_at_or_before ts sigs = Some g \<longrightarrow>
          find_last_signature_before_ts sp a ts limit = Some (Inr (Some g))
          \<and> first_at_or_before ts (encountered sp a limit (Suc n)) = Some g)
      \<and> (page_at sp a limit n = Inr [] \<longrightarrow>
          find_last_signature_before_ts sp a ts limit = Some (Inr None)
          \<and> find (at_or_before ts) (encountered sp a limit (Suc n)) = None)
      \<and> (\<forall>e. page_at sp a limit n = Inl e \<longrightarrow>
          find_last_signature_before_ts sp a ts limit = Some (Inl e)))
   \<and> (distinct (map sig_signature h) \<and> (\<forall>s\<in>set h. \<exists>g. sig_signature s = Some g \<and> g \<noteq> [])
        \<and> 0 < limit
      \<longrightarrow> find_last_signature_before_ts (honest_sigs h) a ts limit =
            Some (Inr (first_at_or_before ts h)))
   \<and> (\<forall>e. rpc (tx_post sig) = Inl e \<longrightarrow> sol_balance_from_transaction tx_post wallet sig = Inl e)
   \<and> (\<forall>tx. rpc (tx_post sig) = Inr tx \<and> not_fetched tx \<longrightarrow>
        sol_balance_from_transaction tx_post wallet sig = Inl (could_not_fetch sig))
   \<and> (rpc (tx_post sig) = Inr (Some td) \<and> td_transaction td = Present tr \<and> td_meta td = Present m
        \<and> tr_accountKeys tr = Some keys \<and> pubkeys_of keys = Inr pubkeys
        \<and> meta_postBalances m = Some pb
      \<longrightarrow> (wallet \<notin> set pubkeys \<longrightarrow>
             sol_balance_from_transaction tx_post wallet sig = Inl wallet_not_found)
          \<and> (wallet \<in> set pubkeys \<longrightarrow>
               (\<exists>i<length pubkeys. pubkeys ! i = wallet \<and> (\<forall>j<i. pubkeys ! j \<noteq> wallet)
                  \<and> sol_balance_from_transaction tx_post wallet sig =
                      (if i < length pb then Inr (pb ! i) else Inl IndexError))))
   \<and> (\<forall>v. sol_balance_from_transaction tx_post wallet sig = Inr v \<longrightarrow>
        (\<exists>td tr m keys pubkeys pb i.
           rpc (tx_post sig) = Inr (Some td) \<and> td_transaction td = Present tr
           \<and> td_meta td = Present m \<and> tr_accountKeys tr = Some keys
           \<and> pubkeys_of keys = Inr pubkeys \<and> meta_postBalances m = Some pb
           \<and> i < length pubkeys \<and> pubkeys ! i = wallet \<and> (\<forall>j<i. pubkeys ! j \<noteq> wallet)
           \<and> i < length pb \<and> v = pb ! i))"
proof (intro conjI impI allI)
  fix sigs g
  assume ns: "\<forall>j<n. \<not> run_stops sp a ts limit j"
    and p: "page_at sp a limit n = Inr sigs \<and> first_at_or_before ts sigs = Some g"
  from p obtain s where s: "find (at_or_before ts) sigs = Some s" "sig_signature s = Some g"
    by (auto simp: first_at_or_before_def split: option.splits)
  then have ne: "sigs \<noteq> []" by auto
  have "scan_sigs ts sigs \<noteq> None" using s by (simp add: scan_sigs_find)
  then have st: "run_stops sp a ts limit n"
    using p by (simp add: run_stops_def stops_search_def page_at_def)
  from search_first_stop[OF ns st] p s ne
  show "find_last_signature_before_ts sp a ts limit = Some (Inr (Some g))" by simp
  have "find (at_or_before ts) (encountered sp a limit (Suc n)) = find (at_or_before ts) sigs"
    using encountered_none[OF ns] p by (simp add: encountered_Suc find_append_none)
  then show "first_at_or_before ts (encountered sp a limit (Suc n)) = Some g"
    using s by (simp add: first_at_or_before_def)
next
  assume ns: "\<forall>j<n. \<not> run_stops sp a ts limit j" and p: "page_at sp a limit n = Inr []"
  then have st: "run_stops sp a ts limit n"
    by (simp add: run_stops_def stops_search_def page_at_def)
  from search_first_stop[OF ns st] p
  show "find_last_signature_before_ts sp a ts limit = Some (Inr None)" by simp
  show "find (at_or_before ts) (encountered sp a limit (Suc n)) = None"
    using encountered_none[OF ns] p by (simp add: encountered_Suc)
next
  fix e
  assume ns: "\<forall>j<n. \<not> run_stops sp a ts limit j" and p: "page_at sp a limit n = Inl e"
  then have st: "run_stops sp a ts limit n"
    by (simp add: run_stops_def stops_search_def page_at_def)
  from search_first_stop[OF ns st] p
  show "find_last_signature_before_ts sp a ts limit = Some (Inl e)" by simp
next
  assume "distinct (map sig_signature h) \<and> (\<forall>s\<in>set h. \<exists>g. sig_signature s = Some g \<and> g \<noteq> [])
      \<and> 0 < limit"
  then show "find_last_signature_before_ts (honest_sigs h) a ts limit =
          Some (Inr (first_at_or_before ts h))"
    using find_last_signature_honest by blast
next
  fix e assume "rpc (tx_post sig) = Inl e"
  then show "sol_balance_from_transaction tx_post wallet sig = Inl e"
    by (simp add: sol_balance_from_transaction_def)
next
  fix tx assume "rpc (tx_post sig) = Inr tx \<and> not_fetched tx"
  then show "sol_balance_from_transaction tx_post wallet sig = Inl (could_not_fetch sig)"
    using sol_balance_not_fetched by blast
next
  assume f: "rpc (tx_post sig) = Inr (Some td) \<and> td_transaction td = Present tr \<and> td_meta td = Present m
        \<and> tr_accountKeys tr = Some keys \<and> pubkeys_of keys = Inr pubkeys
        \<and> meta_postBalances m = Some pb"
    and w: "wallet \<notin> set pubkeys"
  from w have "py_index pubkeys wallet = None" by (simp add: py_index_None)
  with f show "sol_balance_from_transaction tx_post wallet sig = Inl wallet_not_found"
    using sol_balance_fetched[where tx_post = tx_post and sig = sig and td = td and tr = tr
        and keys = keys and pubkeys = pubkeys and wallet = wallet] by simp
next
  assume f: "rpc (tx_post sig) = Inr (Some td) \<and> td_transaction td = Present tr \<and> td_meta td = Present m
        \<and> tr_accountKeys tr = Some keys \<and> pubkeys_of keys = Inr pubkeys
        \<and> meta_postBalances m = Some pb"
    and w: "wallet \<in> set pubkeys"
  from w obtain i where i: "py_index pubkeys wallet = Some i"
    using py_index_None[of pubkeys wallet] by (cases "py_index pubkeys wallet") auto
  from py_index_Some[OF i]
  have p: "i < length pubkeys" "pubkeys ! i = wallet" "\<forall>j<i. pubkeys ! j \<noteq> wallet" by auto
  have "sol_balance_from_transaction tx_post wallet sig =
      (if i < length pb then Inr (pb ! i) else Inl IndexError)"
    using f i sol_balance_fetched[where tx_post = tx_post and sig = sig and td = td and tr = tr
        and keys = keys and pubkeys = pubkeys and wallet = wallet] by simp
  with p show "\<exists>i<length pubkeys. pubkeys ! i = wallet \<and> (\<forall>j<i. pubkeys ! j \<noteq> wallet)
                  \<and> sol_balance_from_transaction tx_post wallet sig =
                      (if i < length pb then Inr (pb ! i) else Inl IndexError)"
    by blast
next
  fix v assume "sol_balance_from_transaction tx_post wallet sig = Inr v"
  then show "\<exists>td tr m keys pubkeys pb i.
           rpc (tx_post sig) = Inr (Some td) \<and> td_transaction td = Present tr
           \<and> td_meta td = Present m \<and> tr_accountKeys tr = Some keys
           \<and> pubkeys_of keys = Inr pubkeys \<and> meta_postBalances m = Some pb
           \<and> i < length pubkeys \<and> pubkeys ! i = wallet \<and> (\<forall>j<i. pubkeys ! j \<noteq> wallet)
           \<and> i < length pb \<and> v = pb ! i"
    by (rule sol_balance_value)
qed

text \<open>
  The claim as stated fails: a server that ignores the cursor and repeats the two newest
  entries of a three-entry history, both confirmed after the cutoff, never lets the
  search return, although the third entry is confirmed before the cutoff.
\<close>

theorem signature_search_misses_history:
  "first_at_or_before 150 history3 = Some ''s1''
   \<and> find_last_signature_before_ts (newest_only history3) ''W'' 150 2 = None"
proof
  show "first_at_or_before 150 history3 = Some ''s1''"
    by (simp add: first_at_or_before_def history3_def at_or_before_def)
  have "\<not> (\<exists>n. run_stops (newest_only history3) ''W'' 150 2 n)"
    using newest_only_never_stops by blast
  then show "find_last_signature_before_ts (newest_only history3) ''W'' 150 2 = None"
    using search_returns_iff[of "newest_only history3" "''W''" 150 2] by blast
qed


lemma history3_run:
  "\<not> run_stops (honest_sigs history3) ''W'' 150 2 0"
  "page_at (honest_sigs history3) ''W'' 2 1 = Inr [\<lparr>sig_signature = Some ''s1'', sig_blockTime = Some 100\<rparr>]"
  "\<not> run_stops (honest_sigs history3) ''W'' 50 2 0"
  "\<not> run_stops (honest_sigs history3) ''W'' 50 2 1"
  "page_at (honest_sigs history3) ''W'' 2 2 = Inr []"
  "page_at timeout_sigs ''W'' 2 0 = Inl Timeout"
  by code_simp+

theorem solana_native_balance_witness:
  "find_last_signature_before_ts (honest_sigs history3) ''W'' 150 2 = Some (Inr (Some ''s1''))
   \<and> first_at_or_before 150 (encountered (honest_sigs history3) ''W'' 2 2) = Some ''s1''
   \<and> find_last_signature_before_ts (honest_sigs history3) ''W'' 50 2 = Some (Inr None)
   \<and> find_last_signature_before_ts timeout_sigs ''W'' 150 2 = Some (Inl Timeout)
   \<and> find_last_signature_before_ts (honest_sigs history3) ''W'' 250 1000 = Some (Inr (Some ''s2''))
   \<and> sol_balance_from_transaction tx_server1 ''W'' ''s1'' = Inr 42
   \<and> sol_balance_from_transaction tx_server1 ''X'' ''s1'' = Inl wallet_not_found
   \<and> sol_balance_from_transaction tx_server1 ''W'' ''s0'' = Inl (could_not_fetch ''s0'')
   \<and> sol_balance_from_transaction timeout_txs ''W'' ''s1'' = Inl Timeout
   \<and> (\<exists>i. i < length [7, 42::int] \<and> [7, 42::int] ! i = 42)"
proof -
  let ?h = "honest_sigs history3"
  let ?s1 = "\<lparr>sig_signature = Some ''s1'', sig_blockTime = Some 100\<rparr>"
  let ?tr = "\<lparr>tr_accountKeys = Some [KeyStr ''P'', KeyDict (Some ''W'')]\<rparr>"
  let ?m = "\<lparr>meta_postBalances = Some [7, 42],
       meta_postTokenBalances = None, meta_preTokenBalances = None\<rparr>"
  have f1: "first_at_or_before 150 [?s1] = Some ''s1''"
    by (simp add: first_at_or_before_def at_or_before_def)
  have ns1: "\<forall>j<1. \<not> run_stops ?h ''W'' 150 2 j" using history3_run(1) by simp
  have ns2: "\<forall>j<2. \<not> run_stops ?h ''W'' 50 2 j"
    using history3_run(3,4) by (auto simp: less_Suc_eq numeral_2_eq_2)
  have ns0: "\<forall>j<0. \<not> run_stops timeout_sigs ''W'' 150 2 j" by simp
  note A = solana_native_balance[of 1 ?h "''W''" 150 2 history3 tx_server1 "''s1''" "''W''"
      detail1 ?tr ?m "[KeyStr ''P'', KeyDict (Some ''W'')]" "[''P'', ''W'']" "[7, 42]"]
  from A ns1 history3_run(2) f1
  have c1: "find_last_signature_before_ts ?h ''W'' 150 2 = Some (Inr (Some ''s1''))"
    and c2: "first_at_or_before 150 (encountered ?h ''W'' 2 (Suc 1)) = Some ''s1''"
    by blast+
  note B = solana_native_balance[of 2 ?h "''W''" 50 2 history3 tx_server1 "''s0''" "''W''"
      detail1 ?tr ?m "[KeyStr ''P'', KeyDict (Some ''W'')]" "[''P'', ''W'']" "[7, 42]"]
  from B ns2 history3_run(5)
  have c3: "find_last_signature_before_ts ?h ''W'' 50 2 = Some (Inr None)" by blast
  note C = solana_native_balance[of 0 timeout_sigs "''W''" 150 2 history3 timeout_txs "''s1''" "''W''"
      detail1 ?tr ?m "[KeyStr ''P'', KeyDict (Some ''W'')]" "[''P'', ''W'']" "[7, 42]"]
  from C ns0 history3_run(6)
  have c4: "find_last_signature_before_ts timeout_sigs ''W'' 150 2 = Some (Inl Timeout)" by blast
  have e: "rpc (timeout_txs ''s1'') = Inl Timeout"
    by (simp add: rpc_def timeout_txs_def try_request_def)
  from C e have c9: "sol_balance_from_transaction timeout_txs ''W'' ''s1'' = Inl Timeout" by blast
  have h: "distinct (map sig_signature history3)
      \<and> (\<forall>s\<in>set history3. \<exists>g. sig_signature s = Some g \<and> g \<noteq> []) \<and> 0 < (1000::nat)"
    by (simp add: history3_def)
  have v: "first_at_or_before 250 history3 = Some ''s2''"
    by (simp add: first_at_or_before_def history3_def at_or_before_def)
  note D = solana_native_balance[of 1 ?h "''W''" 250 1000 history3 tx_server1 "''s1''" "''X''"
      detail1 ?tr ?m "[KeyStr ''P'', KeyDict (Some ''W'')]" "[''P'', ''W'']" "[7, 42]"]
  from D h have "find_last_signature_before_ts ?h ''W'' 250 1000 =
      Some (Inr (first_at_or_before 250 history3))" by blast
  then have c5: "find_last_signature_before_ts ?h ''W'' 250 1000 = Some (Inr (Some ''s2''))"
    by (simp only: v)
  have f: "rpc (tx_server1 ''s1'') = Inr (Some detail1) \<and> td_transaction detail1 = Present ?tr
      \<and> td_meta detail1 = Present ?m
      \<and> tr_accountKeys ?tr = Some [KeyStr ''P'', KeyDict (Some ''W'')]
      \<and> pubkeys_of [KeyStr ''P'', KeyDict (Some ''W'')] = Inr [''P'', ''W'']
      \<and> meta_postBalances ?m = Some [7, 42]"
    by (simp add: tx_server1_def rpc_rpc_ok detail1_def)
  have inW: "''W'' \<in> set [''P'', ''W'']" and outX: "''X'' \<notin> set [''P'', ''W'']"
    by simp_all
  from A f inW
  have "\<exists>i<length [''P'', ''W'']. [''P'', ''W''] ! i = ''W'' \<and> (\<forall>j<i. [''P'', ''W''] ! j \<noteq> ''W'')
      \<and> sol_balance_from_transaction tx_server1 ''W'' ''s1'' =
          (if i < length [7, 42::int] then Inr ([7, 42] ! i) else Inl IndexError)"
    by blast
  then obtain i where i: "i < length [''P'', ''W'']" "[''P'', ''W''] ! i = ''W''"
    "sol_balance_from_transaction tx_server1 ''W'' ''s1'' =
       (if i < length [7, 42::int] then Inr ([7, 42] ! i) else Inl IndexError)"
    by blast
  from i(1,2) have "i = 1" by (cases i) auto
  with i(3) have c6: "sol_balance_from_transaction tx_server1 ''W'' ''s1'' = Inr 42" by simp
  from D f outX
  have c7: "sol_balance_from_transaction tx_server1 ''X'' ''s1'' = Inl wallet_not_found"
    by blast
  have n: "rpc (tx_server1 ''s0'') = Inr None \<and> not_fetched None"
    by (simp add: tx_server1_def rpc_rpc_ok not_fetched_def)
  from B n
  have c8: "sol_balance_from_transaction tx_server1 ''W'' ''s0'' = Inl (could_not_fetch ''s0'')"
    by blast
  from A c6 obtain td' m' pb' i' where v: "rpc (tx_server1 ''s1'') = Inr (Some td')"
    "td_meta td' = Present m'" "meta_postBalances m' = Some pb'" "i' < length pb'" "42 = pb' ! i'"
    by blast
  from v(1) f have "td' = detail1" by simp
  with v(2) f have "m' = ?m" by simp
  with v(3) have pb: "pb' = [7, 42]" by simp
  from v(4) have lt: "i' < length [7, 42::int]" unfolding pb .
  from v(5) have at: "[7, 42::int] ! i' = 42" unfolding pb by (rule sym)
  from lt at have c10: "\<exists>i. i < length [7, 42::int] \<and> [7, 42::int] ! i = 42" by blast
  from c2 have c2': "first_at_or_before 150 (encountered ?h ''W'' 2 2) = Some ''s1''"
    by (simp only: numeral_2_eq_2 One_nat_def)
  from c1 c2' c3 c4 c5 c6 c7 c8 c9 c10 show ?thesis by (intro conjI)
qed

section \<open>Verification: the paging loops\<close>

lemma stuck_never_stops: "ts < 1000 \<Longrightarrow> \<not> run_stops stuck_sigs a ts limit n"
  by (simp add: run_stops_def stops_search_def stuck_page)

text \<open>
  Claim C6, as amended. On every response stream the UTXO history loop makes at most
  \<open>max_pages\<close> page fetches, and when every fetched page is non-empty it stops at the cap
  and goes on with the pages fetched so far, without an error. The signature loop has no
  cap: it returns, a result or an error, if and only if some call of its run fails,
  yields an empty page, yields a page with a signature confirmed at or before the cutoff,
  or yields a page whose last entry has no signature; so it does on a well-behaved server
  over a finite history with distinct, non-empty signatures and a positive page limit.
  On a stream on which no call of the run does so, it never returns.
\<close>

theorem pagination_loops:
  "snd (page_loop net a max_pages 0 [] None) \<le> max_pages
   \<and> ((\<forall>i<max_pages. \<forall>cur. \<exists>page. get_address_txs (net i) a cur = Inr page \<and> page \<noteq> []
          \<and> tx_txid (last page) \<noteq> None)
      \<longrightarrow> (\<exists>all_txs. page_loop net a max_pages 0 [] None = (Inr all_txs, max_pages)
            \<and> max_pages \<le> length all_txs
            \<and> btc_balance_at_timestamp net a cutoff max_pages = balance_of_history a cutoff all_txs))
   \<and> (find_last_signature_before_ts sigs_post w ts limit \<noteq> None
        \<longleftrightarrow> (\<exists>n. run_stops sigs_post w ts limit n))
   \<and> ((\<forall>n. \<not> run_stops sigs_post w ts limit n)
      \<longrightarrow> find_last_signature_before_ts sigs_post w ts limit = None)
   \<and> ((\<exists>n. \<forall>cur. stops_search ts (sigs_post n w (make_cfg limit cur)))
      \<longrightarrow> find_last_signature_before_ts sigs_post w ts limit \<noteq> None)
   \<and> (distinct (map sig_signature h) \<and> (\<forall>s\<in>set h. \<exists>g. sig_signature s = Some g \<and> g \<noteq> [])
        \<and> 0 < limit
      \<longrightarrow> find_last_signature_before_ts (honest_sigs h) w ts limit \<noteq> None)"
proof (intro conjI impI)
  show "snd (page_loop net a max_pages 0 [] None) \<le> max_pages"
    using page_loop_bound[of net a max_pages 0 "[]" None] by simp
next
  assume "\<forall>i<max_pages. \<forall>cur. \<exists>page. get_address_txs (net i) a cur = Inr page \<and> page \<noteq> []
          \<and> tx_txid (last page) \<noteq> None"
  then have "\<forall>i<0 + max_pages. \<forall>cur. \<exists>page. get_address_txs (net i) a cur = Inr page \<and> page \<noteq> []
          \<and> tx_txid (last page) \<noteq> None" by simp
  from page_loop_cap[OF this, of "[]" None]
  obtain all_txs where "page_loop net a max_pages 0 [] None = (Inr all_txs, max_pages)"
    "max_pages \<le> length all_txs" by auto
  then show "\<exists>all_txs. page_loop net a max_pages 0 [] None = (Inr all_txs, max_pages)
            \<and> max_pages \<le> length all_txs
            \<and> btc_balance_at_timestamp net a cutoff max_pages = balance_of_history a cutoff all_txs"
    by (simp add: btc_balance_at_timestamp_def)
next
  show "find_last_signature_before_ts sigs_post w ts limit \<noteq> None
        \<longleftrightarrow> (\<exists>n. run_stops sigs_post w ts limit n)"
    by (rule search_returns_iff)
next
  assume "\<forall>n. \<not> run_stops sigs_post w ts limit n"
  then show "find_last_signature_before_ts sigs_post w ts limit = None"
    using search_returns_iff[of sigs_post w ts limit] by blast
next
  assume "\<exists>n. \<forall>cur. stops_search ts (sigs_post n w (make_cfg limit cur))"
  then obtain n where "\<forall>cur. stops_search ts (sigs_post n w (make_cfg limit cur))" by blast
  then show "find_last_signature_before_ts sigs_post w ts limit \<noteq> None"
    using find_loop_stops[where sigs_post = sigs_post and n = n and a = w and ts = ts
        and limit = limit and calls = 0 and before = None]
    by (simp add: find_last_signature_before_ts_def)
next
  assume "distinct (map sig_signature h) \<and> (\<forall>s\<in>set h. \<exists>g. sig_signature s = Some g \<and> g \<noteq> [])
        \<and> 0 < limit"
  then show "find_last_signature_before_ts (honest_sigs h) w ts limit \<noteq> None"
    using find_last_signature_honest[of h limit w ts] by simp
qed

text \<open>
  The claim as stated fails: on a server that answers every call with the same page of one
  signature confirmed after the cutoff, the signature loop never returns.
\<close>

theorem signature_loop_runs_forever:
  "find_last_signature_before_ts stuck_sigs ''W'' 999 1000 = None"
  by (rule find_loop_stuck) simp

theorem pagination_loops_witness:
  "page_loop endless ''A'' 3 0 [] None = (Inr [tx1, tx1, tx1], 3)
   \<and> find_last_signature_before_ts eventually_empty ''W'' 999 1000 \<noteq> None
   \<and> find_last_signature_before_ts (honest_sigs history3) ''W'' 999 1000 \<noteq> None
   \<and> run_stops eventually_empty ''W'' 999 1000 2
   \<and> find_last_signature_before_ts stuck_sigs ''W'' 500 10 = None"
proof -
  note T = pagination_loops[where net = endless and a = "''A''" and max_pages = 3 and cutoff = 0
      and ts = 999 and sigs_post = eventually_empty and w = "''W''" and limit = 1000
      and h = history3]
  note S = pagination_loops[where net = endless and a = "''A''" and max_pages = 3 and cutoff = 0
      and ts = 500 and sigs_post = stuck_sigs and w = "''W''" and limit = 10
      and h = history3]
  have c4: "run_stops eventually_empty ''W'' 999 1000 2" by code_simp
  with T have c2': "find_last_signature_before_ts eventually_empty ''W'' 999 1000 \<noteq> None"
    by blast
  have "\<forall>n. \<not> run_stops stuck_sigs ''W'' 500 10 n" by (simp add: stuck_never_stops)
  with S have c5: "find_last_signature_before_ts stuck_sigs ''W'' 500 10 = None"
    by blast
  have rw: "request_with_retry (endless i) req = (Inr \<lparr>status_code = 200, body = Some [tx1]\<rparr>, 1)"
    for i req
    using rwr_stop[of 1 "endless i" req]
    by (simp add: try_request_def raise_for_status_def endless_def)
  have page: "get_address_txs (endless i) ''A'' cur = Inr [tx1]" for i cur
    by (simp add: get_address_txs_def esplora_get_json_def rw split: option.splits)
  have "\<forall>i<3. \<forall>cur. \<exists>page. get_address_txs (endless i) ''A'' cur = Inr page \<and> page \<noteq> []
          \<and> tx_txid (last page) \<noteq> None"
    by (simp add: page tx1_def)
  with T obtain all_txs where a: "page_loop endless ''A'' 3 0 [] None = (Inr all_txs, 3)"
    by blast
  have "fst (page_loop endless ''A'' 3 0 [] None) = Inr [tx1, tx1, tx1]"
    by (simp add: page numeral_3_eq_3 tx1_def)
  with a have c1: "page_loop endless ''A'' 3 0 [] None = (Inr [tx1, tx1, tx1], 3)" by simp
  have "\<forall>cur. stops_search 999 (eventually_empty 2 ''W'' (make_cfg 1000 cur))"
    by (simp add: stops_search_def eventually_empty_def rpc_rpc_ok)
  then have "\<exists>n. \<forall>cur. stops_search 999 (eventually_empty n ''W'' (make_cfg 1000 cur))" ..
  with T have c2: "find_last_signature_before_ts eventually_empty ''W'' 999 1000 \<noteq> None"
    by blast
  have "distinct (map sig_signature history3)
      \<and> (\<forall>s\<in>set history3. \<exists>g. sig_signature s = Some g \<and> g \<noteq> []) \<and> 0 < (1000::nat)"
    by (simp add: history3_def)
  with T have c3: "find_last_signature_before_ts (honest_sigs history3) ''W'' 999 1000 \<noteq> None"
    by blast
  from c1 c2 c3 c4 c5 show ?thesis by (intro conjI)
qed

section \<open>Verification: token balances\<close>

lemma pick_balance_step:
  "pick_balance fl mint ta pubkeys (e # es) =
     (if entry_usable mint ta pubkeys e
      then decode_amount fl (the (entry_amount e))
      else pick_balance fl mint ta pubkeys es)"
proof (cases "tb_mint e = Some mint")
  case False
  then show ?thesis by (simp add: entry_usable_def entry_matches_def)
next
  case mint: True
  show ?thesis
  proof (cases "tb_accountIndex e")
    case None
    with mint show ?thesis by (simp add: entry_usable_def entry_matches_def)
  next
    case idx: (Some idx)
    show ?thesis
    proof (cases "0 \<le> idx \<and> idx < int (length pubkeys) \<and> pubkeys ! nat idx = ta")
      case False
      then have n: "\<not> entry_usable mint ta pubkeys e"
        using idx by (auto simp: entry_usable_def entry_matches_def)
      from False have c: "(0 \<le> idx \<and> idx < int (length pubkeys) \<and> pubkeys ! nat idx = ta) = False"
        by simp
      show ?thesis by (simp add: mint idx c n)
    next
      case pos: True
      then have m: "entry_matches mint ta pubkeys e"
        using idx mint by (auto simp: entry_matches_def)
      from pos have c: "(0 \<le> idx \<and> idx < int (length pubkeys) \<and> pubkeys ! nat idx = ta) = True"
        by simp
      show ?thesis
      proof (cases "tb_uiTokenAmount e")
        case None
        then have "entry_amount e = None" by (simp add: entry_amount_def)
        then have "\<not> entry_usable mint ta pubkeys e" by (simp add: entry_usable_def)
        then show ?thesis by (simp add: mint idx c None)
      next
        case ui: (Some ui)
        show ?thesis
        proof (cases "ui_amount ui")
          case None
          then have "entry_amount e = None" by (simp add: entry_amount_def ui)
          then have "\<not> entry_usable mint ta pubkeys e" by (simp add: entry_usable_def)
          then show ?thesis by (simp add: mint idx c ui None)
        next
          case amt: (Some amt)
          show ?thesis
          proof (cases "ui_decimals ui")
            case None
            then have "entry_amount e = None" by (simp add: entry_amount_def ui amt)
            then have "\<not> entry_usable mint ta pubkeys e" by (simp add: entry_usable_def)
            then show ?thesis by (simp add: mint idx c ui amt None)
          next
            case dec: (Some dec)
            then have a: "entry_amount e = Some (amt, dec)" by (simp add: entry_amount_def ui amt)
            then have "entry_usable mint ta pubkeys e" using m by (simp add: entry_usable_def)
            then show ?thesis by (simp add: mint idx c ui amt dec a decode_amount_def split: sum.splits)
          qed
        qed
      qed
    qed
  qed
qed

lemma pick_balance_find:
  "pick_balance fl mint ta pubkeys es =
     (case find (entry_usable mint ta pubkeys) es of
        None \<Rightarrow> Inr None
      | Some e \<Rightarrow> decode_amount fl (the (entry_amount e)))"
proof (induction es)
  case Nil
  then show ?case by simp
next
  case (Cons e es)
  then show ?case by (simp add: pick_balance_step del: pick_balance.simps)
qed

lemma sum_balances_all_return:
  "\<forall>ta\<in>set tas. \<exists>b. bal ta = Some (Inr b) \<Longrightarrow>
   sum_balances fl bal tas tot found =
     Some (Inr (foldl (fadd fl) tot (found_balances bal tas),
                found \<or> found_balances bal tas \<noteq> []))"
proof (induction tas arbitrary: tot found)
  case Nil
  then show ?case by (simp add: found_balances_def map_filter_simps)
next
  case (Cons ta tas)
  then obtain b where b: "bal ta = Some (Inr b)" by auto
  have IH: "sum_balances fl bal tas t f =
     Some (Inr (foldl (fadd fl) t (found_balances bal tas), f \<or> found_balances bal tas \<noteq> []))"
    for t f using Cons by simp
  show ?case
    using b IH by (cases b) (simp_all add: found_balances_def map_filter_simps)
qed

lemma found_balances_Nil_iff:
  "\<forall>ta\<in>set tas. \<exists>b. bal ta = Some (Inr b) \<Longrightarrow>
   found_balances bal tas = [] \<longleftrightarrow> (\<forall>ta\<in>set tas. bal ta = Some (Inr None))"
proof (induction tas)
  case Nil
  then show ?case by (simp add: found_balances_def map_filter_simps)
next
  case (Cons ta tas)
  then obtain b where b: "bal ta = Some (Inr b)" by auto
  show ?case using Cons b
    by (cases b) (simp_all add: found_balances_def map_filter_simps)
qed

lemma token_example_search: "find_last_signature_before_ts token_sigs a 150 1000 = Some (Inr (Some ''g1''))"
  unfolding token_sigs_def
  by (subst find_last_signature_honest)
     (simp_all add: token_history_def first_at_or_before_def at_or_before_def)

lemma token_example_post: "spl_balance_of_signature exact_floats token_txs ''ta1'' USDC_MINT (Some ''g1'')
   = Inr (Some (3 / 2))"
  by code_simp

lemma token_example_pre: "spl_balance_of_signature exact_floats token_txs ''ta2'' USDC_MINT (Some ''g1'')
   = Inr (Some (9 / 4))"
  by code_simp

lemma token_example_ta1: "spl_balance_at_ts_via_last_tx exact_floats token_sigs token_txs ''ta1'' USDC_MINT 150
   = Some (Inr (Some (3 / 2)))"
  by (simp add: spl_balance_at_ts_via_last_tx_def token_example_search token_example_post)

lemma token_example_ta2: "spl_balance_at_ts_via_last_tx exact_floats token_sigs token_txs ''ta2'' USDC_MINT 150
   = Some (Inr (Some (9 / 4)))"
  by (simp add: spl_balance_at_ts_via_last_tx_def token_example_search token_example_pre)

lemma token_example_price: "token_price exact_floats no_prices no_prices ''k'' ''USDC'' ''USDC'' ''2025-12-31'' = Some 1"
  by code_simp


lemma token_accounts_lambda:
  "(\<lambda>ta. spl_balance_at_ts_via_last_tx (env_float env) (env_sigs env) (env_tx env) ta mint ts)
     = account_balance env mint ts"
  by (rule ext) (simp add: account_balance_def)

lemma token_usd_value_no_accounts:
  "map_of m2tas mint = None \<or> map_of m2tas mint = Some [] \<Longrightarrow>
   token_usd_value env m2tas ts ondate mint label psym = Some (Inr 0)"
  by (auto simp: token_usd_value_def)

lemma token_usd_value_all_return:
  assumes tas: "map_of m2tas mint = Some tas"
    and ret: "\<forall>ta\<in>set tas. \<exists>b. account_balance env mint ts ta = Some (Inr b)"
  shows "token_usd_value env m2tas ts ondate mint label psym =
    Some (Inr (if found_balances (account_balance env mint ts) tas = [] then 0
               else (case token_price (env_float env) (env_prices env) (env_coingecko env)
                            (env_key env) label psym ondate of
                       None \<Rightarrow> 0
                     | Some px \<Rightarrow>
                         fmul (env_float env)
                           (foldl (fadd (env_float env)) 0
                              (found_balances (account_balance env mint ts) tas)) px)))"
proof (cases "tas = []")
  case True
  then show ?thesis using tas
    by (simp add: token_usd_value_def found_balances_def map_filter_simps)
next
  case False
  show ?thesis
    using tas False sum_balances_all_return[OF ret, of "env_float env" 0 False]
    by (simp add: token_usd_value_def token_accounts_lambda split: option.splits)
qed

lemma spl_balance_of_signature_fetched:
  assumes "s \<noteq> []" "rpc (tx_post s) = Inr (Some td)" "td_transaction td = Present tr"
    "td_meta td = Present m" "tr_accountKeys tr = Some keys" "pubkeys_of keys = Inr pubkeys"
  shows "spl_balance_of_signature fl tx_post ta mint (Some s) =
    (case pick_balance fl mint ta pubkeys (or_empty (meta_postTokenBalances m)) of
       Inr None \<Rightarrow> pick_balance fl mint ta pubkeys (or_empty (meta_preTokenBalances m))
     | r \<Rightarrow> r)"
  using assms
  by (simp add: spl_balance_of_signature_def has_key_def get_item_def
      pubkeys_of_tx_Present[OF assms(3,5)] split: sum.splits option.splits)

lemma spl_balance_of_signature_not_fetched:
  "rpc (tx_post s) = Inr tx \<Longrightarrow> not_fetched tx \<Longrightarrow>
   spl_balance_of_signature fl tx_post ta mint (Some s) = Inr None"
  by (auto simp: spl_balance_of_signature_def not_fetched_def has_key_def split: option.splits)

lemma spl_balance_of_signature_null_meta:
  assumes "s \<noteq> []" "rpc (tx_post s) = Inr (Some td)" "td_transaction td = Present tr"
    "td_meta td = Null" "tr_accountKeys tr = Some keys" "pubkeys_of keys = Inr pubkeys"
  shows "spl_balance_of_signature fl tx_post ta mint (Some s) = Inl AttributeError"
  using assms
  by (simp add: spl_balance_of_signature_def has_key_def get_item_def
      pubkeys_of_tx_Present[OF assms(3,5)])

lemma account_balance_search:
  "account_balance env mint ts ta =
     (case find_last_signature_before_ts (env_sigs env) ta ts 1000 of
        None \<Rightarrow> None
      | Some (Inl e) \<Rightarrow> Some (Inl e)
      | Some (Inr sig) \<Rightarrow> Some (spl_balance_of_signature (env_float env) (env_tx env) ta mint sig))"
  by (simp add: account_balance_def spl_balance_at_ts_via_last_tx_def)

text \<open>
  What holds of \<^verbatim>\<open>token_usd_value\<close>. It returns zero, raising nothing, when the wallet
  has no token accounts for the mint and when every token account's snapshot call returns
  no balance. A snapshot call returns no balance when the search finds no signature and
  when the transaction is not fetched (a null result, or one without the transaction or
  the meta key); on a fetched transaction it decodes the balance from the first entry of
  the post-token-balances whose mint is the tracked mint and whose account index is the
  token account's position in the account keys (and which carries amount and decimals),
  and when there is none, from the first such entry of the pre-token-balances; on a
  transaction whose \<^verbatim>\<open>meta\<close> is null it raises \<open>AttributeError\<close>. When every call
  returns and at least one yields a balance, the loop's total is the sum, in account
  order, of the balances found, and the value is that sum times the price (zero without
  a price).
\<close>

theorem token_usd_value_amounts:
  "((map_of m2tas mint = None \<or> map_of m2tas mint = Some [])
      \<longrightarrow> token_usd_value env m2tas ts ondate mint label psym = Some (Inr 0))
   \<and> (find_last_signature_before_ts (env_sigs env) ta ts 1000 = Some (Inr None)
      \<longrightarrow> account_balance env mint ts ta = Some (Inr None))
   \<and> (\<forall>tx. find_last_signature_before_ts (env_sigs env) ta ts 1000 = Some (Inr (Some s))
          \<and> rpc (env_tx env s) = Inr tx \<and> not_fetched tx
        \<longrightarrow> account_balance env mint ts ta = Some (Inr None))
   \<and> (find_last_signature_before_ts (env_sigs env) ta ts 1000 = Some (Inr (Some s)) \<and> s \<noteq> []
        \<and> rpc (env_tx env s) = Inr (Some td) \<and> td_transaction td = Present tr
        \<and> tr_accountKeys tr = Some keys \<and> pubkeys_of keys = Inr pubkeys
      \<longrightarrow> (\<forall>m. td_meta td = Present m \<longrightarrow>
             account_balance env mint ts ta =
               Some (case pick_balance (env_float env) mint ta pubkeys
                            (or_empty (meta_postTokenBalances m)) of
                       Inr None \<Rightarrow> pick_balance (env_float env) mint ta pubkeys
                                     (or_empty (meta_preTokenBalances m))
                     | r \<Rightarrow> r))
          \<and> (td_meta td = Null \<longrightarrow> account_balance env mint ts ta = Some (Inl AttributeError)))
   \<and> (map_of m2tas mint = Some tas
        \<and> (\<forall>ta\<in>set tas. account_balance env mint ts ta = Some (Inr None))
      \<longrightarrow> token_usd_value env m2tas ts ondate mint label psym = Some (Inr 0))
   \<and> (map_of m2tas mint = Some tas
        \<and> (\<forall>ta\<in>set tas. \<exists>b. account_balance env mint ts ta = Some (Inr b))
        \<and> (\<exists>ta\<in>set tas. account_balance env mint ts ta \<noteq> Some (Inr None))
      \<longrightarrow> sum_balances (env_float env) (account_balance env mint ts) tas 0 False =
            Some (Inr (foldl (fadd (env_float env)) 0
                         (found_balances (account_balance env mint ts) tas), True))
          \<and> token_usd_value env m2tas ts ondate mint label psym =
            Some (Inr (case token_price (env_float env) (env_prices env) (env_coingecko env)
                              (env_key env) label psym ondate of
                         None \<Rightarrow> 0
                       | Some px \<Rightarrow>
                           fmul (env_float env)
                             (foldl (fadd (env_float env)) 0
                                (found_balances (account_balance env mint ts) tas)) px)))
   \<and> pick_balance fl mint ta pubkeys es =
        (case find (entry_usable mint ta pubkeys) es of
           None \<Rightarrow> Inr None
         | Some e \<Rightarrow> decode_amount fl (the (entry_amount e)))"
proof (intro conjI impI allI)
  assume "map_of m2tas mint = None \<or> map_of m2tas mint = Some []"
  then show "token_usd_value env m2tas ts ondate mint label psym = Some (Inr 0)"
    by (rule token_usd_value_no_accounts)
next
  assume "find_last_signature_before_ts (env_sigs env) ta ts 1000 = Some (Inr None)"
  then show "account_balance env mint ts ta = Some (Inr None)"
    by (simp add: account_balance_search spl_balance_of_signature_def)
next
  fix tx
  assume "find_last_signature_before_ts (env_sigs env) ta ts 1000 = Some (Inr (Some s))
          \<and> rpc (env_tx env s) = Inr tx \<and> not_fetched tx"
  then show "account_balance env mint ts ta = Some (Inr None)"
    by (simp add: account_balance_search spl_balance_of_signature_not_fetched)
next
  fix m
  assume h: "find_last_signature_before_ts (env_sigs env) ta ts 1000 = Some (Inr (Some s)) \<and> s \<noteq> []
        \<and> rpc (env_tx env s) = Inr (Some td) \<and> td_transaction td = Present tr
        \<and> tr_accountKeys tr = Some keys \<and> pubkeys_of keys = Inr pubkeys"
    and m: "td_meta td = Present m"
  from h m have "spl_balance_of_signature (env_float env) (env_tx env) ta mint (Some s) =
      (case pick_balance (env_float env) mint ta pubkeys (or_empty (meta_postTokenBalances m)) of
         Inr None \<Rightarrow> pick_balance (env_float env) mint ta pubkeys
                       (or_empty (meta_preTokenBalances m))
       | r \<Rightarrow> r)"
    using spl_balance_of_signature_fetched[where s = s and tx_post = "env_tx env" and td = td
        and tr = tr and m = m and keys = keys and pubkeys = pubkeys and fl = "env_float env"
        and ta = ta and mint = mint]
    by blast
  with h show "account_balance env mint ts ta =
               Some (case pick_balance (env_float env) mint ta pubkeys
                            (or_empty (meta_postTokenBalances m)) of
                       Inr None \<Rightarrow> pick_balance (env_float env) mint ta pubkeys
                                     (or_empty (meta_preTokenBalances m))
                     | r \<Rightarrow> r)"
    by (simp add: account_balance_search)
next
  assume h: "find_last_signature_before_ts (env_sigs env) ta ts 1000 = Some (Inr (Some s)) \<and> s \<noteq> []
        \<and> rpc (env_tx env s) = Inr (Some td) \<and> td_transaction td = Present tr
        \<and> tr_accountKeys tr = Some keys \<and> pubkeys_of keys = Inr pubkeys"
    and m: "td_meta td = Null"
  from h m have "spl_balance_of_signature (env_float env) (env_tx env) ta mint (Some s) =
      Inl AttributeError"
    using spl_balance_of_signature_null_meta[where s = s and tx_post = "env_tx env" and td = td
        and tr = tr and keys = keys and pubkeys = pubkeys and fl = "env_float env"
        and ta = ta and mint = mint]
    by blast
  with h show "account_balance env mint ts ta = Some (Inl AttributeError)"
    by (simp add: account_balance_search)
next
  assume h: "map_of m2tas mint = Some tas
        \<and> (\<forall>ta\<in>set tas. account_balance env mint ts ta = Some (Inr None))"
  then have ret: "\<forall>ta\<in>set tas. \<exists>b. account_balance env mint ts ta = Some (Inr b)" by simp
  from h have "found_balances (account_balance env mint ts) tas = []"
    using found_balances_Nil_iff[OF ret] by simp
  then show "token_usd_value env m2tas ts ondate mint label psym = Some (Inr 0)"
    using token_usd_value_all_return[OF _ ret, of m2tas] h by simp
next
  assume h: "map_of m2tas mint = Some tas
        \<and> (\<forall>ta\<in>set tas. \<exists>b. account_balance env mint ts ta = Some (Inr b))
        \<and> (\<exists>ta\<in>set tas. account_balance env mint ts ta \<noteq> Some (Inr None))"
  then have ret: "\<forall>ta\<in>set tas. \<exists>b. account_balance env mint ts ta = Some (Inr b)" by simp
  from h have ne: "found_balances (account_balance env mint ts) tas \<noteq> []"
    using found_balances_Nil_iff[OF ret] by blast
  show "sum_balances (env_float env) (account_balance env mint ts) tas 0 False =
            Some (Inr (foldl (fadd (env_float env)) 0
                         (found_balances (account_balance env mint ts) tas), True))"
    using sum_balances_all_return[OF ret, of "env_float env" 0 False] ne by simp
  show "token_usd_value env m2tas ts ondate mint label psym =
            Some (Inr (case token_price (env_float env) (env_prices env) (env_coingecko env)
                              (env_key env) label psym ondate of
                         None \<Rightarrow> 0
                       | Some px \<Rightarrow>
                           fmul (env_float env)
                             (foldl (fadd (env_float env)) 0
                                (found_balances (account_balance env mint ts) tas)) px))"
    using token_usd_value_all_return[OF _ ret, of m2tas] h ne by simp
next
  show "pick_balance fl mint ta pubkeys es =
        (case find (entry_usable mint ta pubkeys) es of
           None \<Rightarrow> Inr None
         | Some e \<Rightarrow> decode_amount fl (the (entry_amount e)))"
    by (rule pick_balance_find)
qed

lemma token_example_fetch:
  "rpc (token_txs ''g1'') = Inr (Some token_detail)"
  "rpc (null_meta_txs ''g1'') = Inr (Some (token_detail\<lparr>td_meta := Null\<rparr>))"
  "rpc (missing_meta_txs ''g1'') = Inr (Some (token_detail\<lparr>td_meta := Missing\<rparr>))"
  by (simp_all add: token_txs_def null_meta_txs_def missing_meta_txs_def rpc_rpc_ok)

lemma token_example_early_search:
  "find_last_signature_before_ts token_sigs ta 50 1000 = Some (Inr None)"
  unfolding token_sigs_def
  by (subst find_last_signature_honest)
     (simp_all add: token_history_def first_at_or_before_def at_or_before_def)

theorem token_usd_value_amounts_witness:
  "token_usd_value token_env [(USDC_MINT, [''ta1'', ''ta2''])] 150 ''2025-12-31''
      ''other mint'' ''USDC'' ''USDC'' = Some (Inr 0)
   \<and> token_usd_value token_env [(USDC_MINT, [''ta1'', ''ta2''])] 50 ''2025-12-31''
      USDC_MINT ''USDC'' ''USDC'' = Some (Inr 0)
   \<and> token_usd_value missing_meta_env [(USDC_MINT, [''ta1'', ''ta2''])] 150 ''2025-12-31''
      USDC_MINT ''USDC'' ''USDC'' = Some (Inr 0)
   \<and> account_balance token_env USDC_MINT 150 ''ta1'' = Some (Inr (Some (3 / 2)))
   \<and> account_balance token_env USDC_MINT 150 ''ta2'' = Some (Inr (Some (9 / 4)))
   \<and> token_usd_value token_env [(USDC_MINT, [''ta1'', ''ta2''])] 150 ''2025-12-31''
      USDC_MINT ''USDC'' ''USDC'' = Some (Inr (15 / 4))"
proof -
  let ?m = "[(USDC_MINT, [''ta1'', ''ta2''])]"
  let ?tr = "\<lparr>tr_accountKeys = Some [KeyStr ''W'', KeyDict (Some ''ta1''), KeyStr ''ta2'']\<rparr>"
  let ?meta = "\<lparr>meta_postBalances = Some [0, 0, 0],
      meta_postTokenBalances = Some [usdc_entry 1 ''1500000''],
      meta_preTokenBalances = Some [usdc_entry 1 ''1000000'', usdc_entry 2 ''2250000'']\<rparr>"
  have none: "map_of ?m ''other mint'' = None \<or> map_of ?m ''other mint'' = Some []"
    by (simp add: USDC_MINT_def)
  from token_usd_value_amounts[where m2tas = ?m and mint = "''other mint''" and env = token_env
      and ts = 150 and ondate = "''2025-12-31''" and label = "''USDC''" and psym = "''USDC''"]
    none
  have c1: "token_usd_value token_env ?m 150 ''2025-12-31'' ''other mint'' ''USDC'' ''USDC''
      = Some (Inr 0)"
    by blast
  have tas: "map_of ?m USDC_MINT = Some [''ta1'', ''ta2'']" by simp
  have early: "account_balance token_env USDC_MINT 50 ta = Some (Inr None)" for ta
  proof -
    have "find_last_signature_before_ts (env_sigs token_env) ta 50 1000 = Some (Inr None)"
      by (simp add: token_env_def token_example_early_search)
    with token_usd_value_amounts[where env = token_env and ta = ta and ts = 50
        and mint = USDC_MINT]
    show ?thesis by blast
  qed
  then have "map_of ?m USDC_MINT = Some [''ta1'', ''ta2'']
      \<and> (\<forall>ta\<in>set [''ta1'', ''ta2'']. account_balance token_env USDC_MINT 50 ta = Some (Inr None))"
    by simp
  with token_usd_value_amounts[where m2tas = ?m and mint = USDC_MINT and env = token_env
      and ts = 50 and ondate = "''2025-12-31''" and label = "''USDC''" and psym = "''USDC''"
      and tas = "[''ta1'', ''ta2'']"]
  have c2: "token_usd_value token_env ?m 50 ''2025-12-31'' USDC_MINT ''USDC'' ''USDC'' = Some (Inr 0)"
    by blast
  have lost: "account_balance missing_meta_env USDC_MINT 150 ta = Some (Inr None)" for ta
  proof -
    have "find_last_signature_before_ts (env_sigs missing_meta_env) ta 150 1000
          = Some (Inr (Some ''g1''))
        \<and> rpc (env_tx missing_meta_env ''g1'') = Inr (Some (token_detail\<lparr>td_meta := Missing\<rparr>))
        \<and> not_fetched (Some (token_detail\<lparr>td_meta := Missing\<rparr>))"
      by (simp add: missing_meta_env_def token_env_def token_example_search token_example_fetch
          not_fetched_def)
    with token_usd_value_amounts[where env = missing_meta_env and ta = ta and ts = 150
        and mint = USDC_MINT and s = "''g1''"]
    show ?thesis by blast
  qed
  then have "map_of ?m USDC_MINT = Some [''ta1'', ''ta2'']
      \<and> (\<forall>ta\<in>set [''ta1'', ''ta2'']. account_balance missing_meta_env USDC_MINT 150 ta
            = Some (Inr None))"
    by simp
  with token_usd_value_amounts[where m2tas = ?m and mint = USDC_MINT and env = missing_meta_env
      and ts = 150 and ondate = "''2025-12-31''" and label = "''USDC''" and psym = "''USDC''"
      and tas = "[''ta1'', ''ta2'']"]
  have c3: "token_usd_value missing_meta_env ?m 150 ''2025-12-31'' USDC_MINT ''USDC'' ''USDC''
      = Some (Inr 0)"
    by blast
  have fetched: "find_last_signature_before_ts (env_sigs token_env) ta 150 1000
          = Some (Inr (Some ''g1'')) \<and> ''g1'' \<noteq> []
        \<and> rpc (env_tx token_env ''g1'') = Inr (Some token_detail)
        \<and> td_transaction token_detail = Present ?tr
        \<and> tr_accountKeys ?tr = Some [KeyStr ''W'', KeyDict (Some ''ta1''), KeyStr ''ta2'']
        \<and> pubkeys_of [KeyStr ''W'', KeyDict (Some ''ta1''), KeyStr ''ta2'']
            = Inr [''W'', ''ta1'', ''ta2'']" for ta
    by (simp add: token_env_def token_example_search token_example_fetch token_detail_def)
  have meta: "td_meta token_detail = Present ?meta" by (simp add: token_detail_def)
  have p1: "(case pick_balance exact_floats USDC_MINT ''ta1'' [''W'', ''ta1'', ''ta2'']
                   (or_empty (meta_postTokenBalances ?meta)) of
               Inr None \<Rightarrow> pick_balance exact_floats USDC_MINT ''ta1'' [''W'', ''ta1'', ''ta2'']
                             (or_empty (meta_preTokenBalances ?meta))
             | r \<Rightarrow> r) = Inr (Some (3 / 2))"
    by code_simp
  have p2: "(case pick_balance exact_floats USDC_MINT ''ta2'' [''W'', ''ta1'', ''ta2'']
                   (or_empty (meta_postTokenBalances ?meta)) of
               Inr None \<Rightarrow> pick_balance exact_floats USDC_MINT ''ta2'' [''W'', ''ta1'', ''ta2'']
                             (or_empty (meta_preTokenBalances ?meta))
             | r \<Rightarrow> r) = Inr (Some (9 / 4))"
    by code_simp
  have fl: "env_float token_env = exact_floats" by (simp add: token_env_def)
  from token_usd_value_amounts[where env = token_env and ta = "''ta1''" and ts = 150
      and mint = USDC_MINT and s = "''g1''" and td = token_detail and tr = ?tr
      and keys = "[KeyStr ''W'', KeyDict (Some ''ta1''), KeyStr ''ta2'']"
      and pubkeys = "[''W'', ''ta1'', ''ta2'']"] fetched[of "''ta1''"] meta
  have "account_balance token_env USDC_MINT 150 ''ta1'' =
      Some (case pick_balance (env_float token_env) USDC_MINT ''ta1'' [''W'', ''ta1'', ''ta2'']
                   (or_empty (meta_postTokenBalances ?meta)) of
               Inr None \<Rightarrow> pick_balance (env_float token_env) USDC_MINT ''ta1''
                             [''W'', ''ta1'', ''ta2''] (or_empty (meta_preTokenBalances ?meta))
             | r \<Rightarrow> r)"
    by blast
  then have c4: "account_balance token_env USDC_MINT 150 ''ta1'' = Some (Inr (Some (3 / 2)))"
    unfolding fl p1 .
  from token_usd_value_amounts[where env = token_env and ta = "''ta2''" and ts = 150
      and mint = USDC_MINT and s = "''g1''" and td = token_detail and tr = ?tr
      and keys = "[KeyStr ''W'', KeyDict (Some ''ta1''), KeyStr ''ta2'']"
      and pubkeys = "[''W'', ''ta1'', ''ta2'']"] fetched[of "''ta2''"] meta
  have "account_balance token_env USDC_MINT 150 ''ta2'' =
      Some (case pick_balance (env_float token_env) USDC_MINT ''ta2'' [''W'', ''ta1'', ''ta2'']
                   (or_empty (meta_postTokenBalances ?meta)) of
               Inr None \<Rightarrow> pick_balance (env_float token_env) USDC_MINT ''ta2''
                             [''W'', ''ta1'', ''ta2''] (or_empty (meta_preTokenBalances ?meta))
             | r \<Rightarrow> r)"
    by blast
  then have c5: "account_balance token_env USDC_MINT 150 ''ta2'' = Some (Inr (Some (9 / 4)))"
    unfolding fl p2 .
  have h: "map_of ?m USDC_MINT = Some [''ta1'', ''ta2'']
      \<and> (\<forall>ta\<in>set [''ta1'', ''ta2'']. \<exists>b. account_balance token_env USDC_MINT 150 ta = Some (Inr b))
      \<and> (\<exists>ta\<in>set [''ta1'', ''ta2'']. account_balance token_env USDC_MINT 150 ta \<noteq> Some (Inr None))"
    by (simp add: c4 c5)
  have fb: "found_balances (account_balance token_env USDC_MINT 150) [''ta1'', ''ta2''] = [3 / 2, 9 / 4]"
    by (simp add: found_balances_def map_filter_simps c4 c5)
  have px: "token_price (env_float token_env) (env_prices token_env) (env_coingecko token_env)
      (env_key token_env) ''USDC'' ''USDC'' ''2025-12-31'' = Some 1"
    by (simp add: token_env_def token_example_price)
  from token_usd_value_amounts[where m2tas = ?m and mint = USDC_MINT and env = token_env
      and ts = 150 and ondate = "''2025-12-31''" and label = "''USDC''" and psym = "''USDC''"
      and tas = "[''ta1'', ''ta2'']"] h
  have "token_usd_value token_env ?m 150 ''2025-12-31'' USDC_MINT ''USDC'' ''USDC'' =
     Some (Inr (case token_price (env_float token_env) (env_prices token_env) (env_coingecko token_env)
                              (env_key token_env) ''USDC'' ''USDC'' ''2025-12-31'' of
                         None \<Rightarrow> 0
                       | Some px \<Rightarrow>
                           fmul (env_float token_env)
                             (foldl (fadd (env_float token_env)) 0
                                (found_balances (account_balance token_env USDC_MINT 150) [''ta1'', ''ta2''])) px))"
    by blast
  then have c6: "token_usd_value token_env ?m 150 ''2025-12-31'' USDC_MINT ''USDC'' ''USDC''
      = Some (Inr (15 / 4))"
    unfolding fb px by (simp add: token_env_def exact_floats_def)
  from c1 c2 c3 c4 c5 c6 show ?thesis by (intro conjI)
qed

text \<open>
  Claim C7 does not hold of the code. A node may answer a transaction with a null
  \<^verbatim>\<open>meta\<close>. The key is then in the object, so the guard that returns no balance for a
  transaction that was not fetched lets it pass, and \<^verbatim>\<open>tx["meta"].get\<close> raises
  \<open>AttributeError\<close>: the snapshot of the token account yields no balance, and the
  function raises where the claim has the amount count as zero. Without the key the
  same transaction gives zero.
\<close>

theorem token_usd_value_null_meta:
  "rpc (null_meta_txs ''g1'') = Inr (Some (token_detail\<lparr>td_meta := Null\<rparr>))
   \<and> find_last_signature_before_ts token_sigs ''ta1'' 150 1000 = Some (Inr (Some ''g1''))
   \<and> spl_balance_at_ts_via_last_tx exact_floats token_sigs null_meta_txs ''ta1'' USDC_MINT 150
       = Some (Inl AttributeError)
   \<and> token_usd_value null_meta_env [(USDC_MINT, [''ta1''])] 150 ''2025-12-31''
       USDC_MINT ''USDC'' ''USDC'' = Some (Inl AttributeError)
   \<and> token_usd_value missing_meta_env [(USDC_MINT, [''ta1''])] 150 ''2025-12-31''
       USDC_MINT ''USDC'' ''USDC'' = Some (Inr 0)"
proof (intro conjI)
  show "rpc (null_meta_txs ''g1'') = Inr (Some (token_detail\<lparr>td_meta := Null\<rparr>))"
    by (rule token_example_fetch)
  show s: "find_last_signature_before_ts token_sigs ''ta1'' 150 1000 = Some (Inr (Some ''g1''))"
    by (rule token_example_search)
  have n: "spl_balance_of_signature exact_floats null_meta_txs ''ta1'' USDC_MINT (Some ''g1'')
      = Inl AttributeError"
    by code_simp
  show a: "spl_balance_at_ts_via_last_tx exact_floats token_sigs null_meta_txs ''ta1'' USDC_MINT 150
       = Some (Inl AttributeError)"
    by (simp add: spl_balance_at_ts_via_last_tx_def s n)
  show "token_usd_value null_meta_env [(USDC_MINT, [''ta1''])] 150 ''2025-12-31''
       USDC_MINT ''USDC'' ''USDC'' = Some (Inl AttributeError)"
    by (simp add: token_usd_value_def null_meta_env_def token_env_def a)
  have m: "spl_balance_of_signature exact_floats missing_meta_txs ''ta1'' USDC_MINT (Some ''g1'')
      = Inr None"
    by code_simp
  have b: "spl_balance_at_ts_via_last_tx exact_floats token_sigs missing_meta_txs ''ta1'' USDC_MINT 150
       = Some (Inr None)"
    by (simp add: spl_balance_at_ts_via_last_tx_def s m)
  show "token_usd_value missing_meta_env [(USDC_MINT, [''ta1''])] 150 ''2025-12-31''
       USDC_MINT ''USDC'' ''USDC'' = Some (Inr 0)"
    by (simp add: token_usd_value_def missing_meta_env_def token_env_def b)
qed

section \<open>Verification: the ERC-20 balance query\<close>

lemma lower_char_idem_all: "\<forall>c. lower_char (lower_char c) = lower_char c"
  by code_simp

lemma digit_value_lower: "digit_value b (lower_char c) = digit_value b c"
  using lower_char_idem_all by (simp add: digit_value_def)

lemma not_digit:
  "digit_value 16 CHR ''x'' = None" "digit_value 16 CHR ''_'' = None"
  by (simp_all add: digit_value_def lower_char_def digit_table_def)

lemma space_chars_not_digit:
  "digit_value 16 CHR '' '' = None" "digit_value 16 (CHR 0x09) = None"
  "digit_value 16 (CHR 0x0A) = None" "digit_value 16 (CHR 0x0B) = None"
  "digit_value 16 (CHR 0x0C) = None" "digit_value 16 (CHR 0x0D) = None"
  by code_simp+

lemma space_not_digit: "is_space c \<Longrightarrow> digit_value 16 c = None"
proof -
  assume "is_space c"
  then have "c = CHR '' '' \<or> c = CHR 0x09 \<or> c = CHR 0x0A \<or> c = CHR 0x0B \<or> c = CHR 0x0C
      \<or> c = CHR 0x0D"
    unfolding is_space_def by (simp only: set_simps insert_iff empty_iff simp_thms)
  then show ?thesis
    by (elim disjE) (simp_all only: space_chars_not_digit)
qed

lemma not_space: "\<not> is_space CHR ''0''" "\<not> is_space CHR ''x''"
  by code_simp+

lemma is_hex_Nil: "is_hex []"
  by (simp add: is_hex_def)

lemma is_hex_Cons: "is_hex (c # cs) \<longleftrightarrow> digit_value 16 c \<noteq> None \<and> is_hex cs"
  by (simp add: is_hex_def)

lemma is_hex_lower: "is_hex (lower s) = is_hex s"
  by (induction s) (simp_all add: is_hex_def lower_def digit_value_lower)

lemma is_hex_no_x: "is_hex s \<Longrightarrow> CHR ''x'' \<notin> set s"
proof (induction s)
  case Nil
  then show ?case by simp
next
  case (Cons c cs)
  then have "digit_value 16 c \<noteq> None" "CHR ''x'' \<notin> set cs" by (simp_all add: is_hex_Cons)
  moreover from this have "c \<noteq> CHR ''x''" using not_digit(1) by auto
  ultimately show ?case by simp
qed

lemma replace_no_x: "CHR ''x'' \<notin> set s \<Longrightarrow> replace ''0x'' [] s = s"
proof (induction s)
  case Nil
  then show ?case by simp
next
  case (Cons c cs)
  have nt: "take (length ''0x'') (c # cs) \<noteq> ''0x''"
  proof
    assume "take (length ''0x'') (c # cs) = ''0x''"
    then have "set ''0x'' = set (take (length ''0x'') (c # cs))" by (rule arg_cong[OF sym])
    moreover have "CHR ''x'' \<in> set ''0x''" by simp
    ultimately have "CHR ''x'' \<in> set (take (length ''0x'') (c # cs))" by (simp only:)
    then have "CHR ''x'' \<in> set (c # cs)" by (rule in_set_takeD)
    with Cons.prems show False by simp
  qed
  have "replace ''0x'' [] (c # cs) = c # replace ''0x'' [] cs"
    by (subst replace.simps) (simp only: nt simp_thms if_False)
  with Cons show ?case by simp
qed

lemma call_data_shape:
  assumes "length h = 40" "is_hex h"
  shows "balance_of_call_data (''0x'' @ h) = ''0x70a08231'' @ replicate 24 CHR ''0'' @ lower h"
proof -
  have l: "lower (''0x'' @ h) = ''0x'' @ lower h"
    by (simp add: lower_def lower_char_def)
  have "CHR ''x'' \<notin> set (lower h)"
    using assms(2) by (simp add: is_hex_no_x is_hex_lower)
  then have r0: "replace ''0x'' [] (lower h) = lower h" by (rule replace_no_x)
  have r: "replace ''0x'' [] (''0x'' @ lower h) = lower h"
    by (subst append_Cons, subst replace.simps) (simp add: r0)
  have "length (lower h) = 40" using assms(1) by (simp add: lower_def)
  then have "rjust 64 CHR ''0'' (lower h) = replicate 24 CHR ''0'' @ lower h"
    by (simp add: rjust_def)
  then show ?thesis by (simp only: balance_of_call_data_def l r)
qed


lemma hex_bytes_lower: "hex_bytes (lower s) = hex_bytes s"
  by (induction s rule: hex_bytes.induct)
     (simp_all add: lower_def digit_value_lower split: option.splits)

lemma hex_bytes_is_hex:
  "is_hex s \<Longrightarrow> even (length s) \<Longrightarrow> \<exists>bs. hex_bytes s = Some bs \<and> 2 * length bs = length s"
proof (induction s rule: hex_bytes.induct)
  case 1
  then show ?case by simp
next
  case (2 c)
  then show ?case by simp
next
  case (3 a b cs)
  from "3.prems" obtain x y where xy: "digit_value 16 a = Some x" "digit_value 16 b = Some y"
    and cs: "is_hex cs" "even (length cs)"
    by (auto simp: is_hex_Cons)
  from "3.IH"[OF xy cs] obtain bs where "hex_bytes cs = Some bs" "2 * length bs = length cs"
    by blast
  then show ?case using xy by simp
qed

lemma hex_bytes_append:
  "hex_bytes xs = Some a \<Longrightarrow> hex_bytes ys = Some b \<Longrightarrow> hex_bytes (xs @ ys) = Some (a @ b)"
proof (induction xs arbitrary: a rule: hex_bytes.induct)
  case 1
  then show ?case by simp
next
  case (2 c)
  then show ?case by simp
next
  case (3 p q cs)
  from "3.prems"(1) obtain x y bs where xy: "digit_value 16 p = Some x" "digit_value 16 q = Some y"
    and bs: "hex_bytes cs = Some bs" and a: "a = (16 * x + y) # bs"
    by (auto split: option.splits)
  from "3.IH"[OF xy bs "3.prems"(2)] have "hex_bytes (cs @ ys) = Some (bs @ b)" .
  then show ?case using xy a by simp
qed

lemma hex_bytes_zeros: "hex_bytes (replicate (2 * n) CHR ''0'') = Some (replicate n 0)"
proof (induction n)
  case 0
  then show ?case by simp
next
  case (Suc n)
  have z: "digit_value 16 CHR ''0'' = Some 0"
    by (simp add: digit_value_def lower_char_def digit_table_def)
  show ?case using Suc by (simp add: z)
qed

lemma hex_bytes_selector: "hex_bytes ''70a08231'' = Some [112, 160, 130, 49]"
  by (simp add: digit_value_def lower_char_def digit_table_def)

lemma read_digits_hex:
  "is_hex ds \<Longrightarrow> ds \<noteq> [] \<or> b \<Longrightarrow>
   read_digits 16 ds acc b = Some (foldl (\<lambda>acc c. acc * 16 + int (the (digit_value 16 c))) acc ds)"
proof (induction ds arbitrary: acc b)
  case Nil
  then show ?case by simp
next
  case (Cons c cs)
  then obtain d where d: "digit_value 16 c = Some d" by (auto simp: is_hex_Cons)
  then have u: "c \<noteq> CHR ''_''" using not_digit(2) by auto
  have "read_digits 16 cs (acc * 16 + int d) True =
      Some (foldl (\<lambda>acc c. acc * 16 + int (the (digit_value 16 c))) (acc * 16 + int d) cs)"
    using Cons by (simp add: is_hex_Cons)
  then show ?case using d u by simp
qed

lemma strip_hex: "is_hex ds \<Longrightarrow> strip (''0x'' @ ds) = ''0x'' @ ds"
proof -
  assume h: "is_hex ds"
  have front: "dropWhile is_space (''0x'' @ ds) = ''0x'' @ ds" using not_space by simp
  have rear: "dropWhile is_space (rev (''0x'' @ ds)) = rev (''0x'' @ ds)"
  proof (cases ds rule: rev_cases)
    case Nil
    then show ?thesis using not_space by simp
  next
    case (snoc ys y)
    then have "digit_value 16 y \<noteq> None" using h by (simp add: is_hex_def)
    then have "\<not> is_space y" using space_not_digit[of y] by auto
    then show ?thesis using snoc by simp
  qed
  show ?thesis by (simp only: strip_def front rear rev_rev_ident)
qed

lemma py_int_hex:
  assumes "is_hex ds" "ds \<noteq> []"
  shows "py_int 16 (''0x'' @ ds) = Inr (hex_value ds)"
proof -
  obtain c cs where ds: "ds = c # cs" using assms(2) by (cases ds) auto
  then have "digit_value 16 c \<noteq> None" using assms(1) by (simp add: is_hex_Cons)
  then have u: "c \<noteq> CHR ''_''" using not_digit(2) by auto
  have "read_unsigned 16 (''0x'' @ ds) = read_digits 16 ds 0 False"
    using u by (simp add: read_unsigned_def ds)
  also have "\<dots> = Some (hex_value ds)"
    using read_digits_hex[OF assms(1), of False 0] assms(2) by (simp add: hex_value_def)
  finally have r: "read_unsigned 16 (''0x'' @ ds) = Some (hex_value ds)" .
  have s: "strip (''0x'' @ ds) = ''0x'' @ ds" using strip_hex[OF assms(1)] .
  have "py_int 16 (''0x'' @ ds) =
      (case read_unsigned 16 (''0x'' @ ds) of None \<Rightarrow> Inl ValueError | Some n \<Rightarrow> Inr n)"
    unfolding py_int_def s by (simp split: option.splits)
  then show ?thesis using r by simp
qed

lemma hex_value_nonneg: "0 \<le> hex_value ds"
proof -
  have "0 \<le> acc \<Longrightarrow> 0 \<le> foldl (\<lambda>acc c. acc * 16 + int (the (digit_value 16 c))) acc ds" for acc
    by (induction ds arbitrary: acc) simp_all
  then show ?thesis by (simp add: hex_value_def)
qed

text \<open>
  Claim C8. For a holder address written as \<^verbatim>\<open>0x\<close> and 40 hexadecimal digits, the call
  data of the balance-of query is \<^verbatim>\<open>0x\<close>, the selector \<^verbatim>\<open>70a08231\<close> and 64 digits:
  24 zeros and the address in lower case. Read as bytes these are the four selector
  bytes, twelve zero bytes and the twenty bytes of the address. A result \<^verbatim>\<open>0x\<close> and
  hexadecimal digits is decoded as the unsigned number these digits denote.
\<close>

theorem erc20_balance_of_encoding:
  "(length h = 40 \<and> is_hex h \<longrightarrow>
      balance_of_call_data (''0x'' @ h) = ''0x70a08231'' @ replicate 24 CHR ''0'' @ lower h
      \<and> length (balance_of_call_data (''0x'' @ h)) = 2 + 8 + 64
      \<and> (\<exists>addr. hex_bytes h = Some addr \<and> length addr = 20
            \<and> hex_bytes (drop 2 (balance_of_call_data (''0x'' @ h))) =
                Some ([112, 160, 130, 49] @ replicate 12 0 @ addr)))
   \<and> (is_hex ds \<and> ds \<noteq> []
        \<and> rpc (eth_call \<lparr>call_to = token, call_data = balance_of_call_data holder\<rparr> (hex block))
            = Inr (''0x'' @ ds)
      \<longrightarrow> erc20_balance_at_block eth_call holder token block = Inr (hex_value ds)
          \<and> 0 \<le> hex_value ds)"
proof (intro conjI impI)
  assume h: "length h = 40 \<and> is_hex h"
  then show shape: "balance_of_call_data (''0x'' @ h) = ''0x70a08231'' @ replicate 24 CHR ''0'' @ lower h"
    using call_data_shape[of h] by blast
  show "length (balance_of_call_data (''0x'' @ h)) = 2 + 8 + 64"
    unfolding shape using h by (simp add: lower_def)
  from h hex_bytes_is_hex[of h] obtain addr where addr: "hex_bytes h = Some addr" "2 * length addr = length h"
    by auto
  have "hex_bytes (replicate (2 * 12) CHR ''0'' @ lower h) = Some (replicate 12 0 @ addr)"
    using hex_bytes_append[OF hex_bytes_zeros[of 12]] addr(1) by (simp only: hex_bytes_lower)
  then have "hex_bytes (''70a08231'' @ replicate (2 * 12) CHR ''0'' @ lower h) =
      Some ([112, 160, 130, 49] @ replicate 12 0 @ addr)"
    using hex_bytes_append[OF hex_bytes_selector] by blast
  moreover have "drop 2 (balance_of_call_data (''0x'' @ h)) =
      ''70a08231'' @ replicate (2 * 12) CHR ''0'' @ lower h"
    unfolding shape by simp
  ultimately have "hex_bytes (drop 2 (balance_of_call_data (''0x'' @ h))) =
      Some ([112, 160, 130, 49] @ replicate 12 0 @ addr)" by (simp only:)
  with addr h show "\<exists>addr. hex_bytes h = Some addr \<and> length addr = 20
            \<and> hex_bytes (drop 2 (balance_of_call_data (''0x'' @ h))) =
                Some ([112, 160, 130, 49] @ replicate 12 0 @ addr)"
    by auto
next
  assume d: "is_hex ds \<and> ds \<noteq> []
        \<and> rpc (eth_call \<lparr>call_to = token, call_data = balance_of_call_data holder\<rparr> (hex block))
            = Inr (''0x'' @ ds)"
  then have "py_int 16 (''0x'' @ ds) = Inr (hex_value ds)" using py_int_hex by blast
  with d show "erc20_balance_at_block eth_call holder token block = Inr (hex_value ds)"
    by (simp add: erc20_balance_at_block_def)
  show "0 \<le> hex_value ds" by (rule hex_value_nonneg)
qed

theorem erc20_balance_of_encoding_witness:
  "balance_of_call_data (''0x'' @ holder_digits) =
     ''0x70a08231000000000000000000000000ab5801a7d398351b8be11c439e05c5b3259aec9b''
   \<and> erc20_balance_at_block usdc_node (''0x'' @ holder_digits)
        ''0xA0b86991c6218b36c1d19d4a2e9eb0ce3606eb48'' 19000000 = Inr 1000000"
proof -
  note T = erc20_balance_of_encoding[of holder_digits balance_digits usdc_node
      "''0xA0b86991c6218b36c1d19d4a2e9eb0ce3606eb48''" "''0x'' @ holder_digits" 19000000]
  have h: "length holder_digits = 40 \<and> is_hex holder_digits" by code_simp
  have low: "''0x70a08231'' @ replicate 24 CHR ''0'' @ lower holder_digits =
     ''0x70a08231000000000000000000000000ab5801a7d398351b8be11c439e05c5b3259aec9b''"
    by code_simp
  from T h have "balance_of_call_data (''0x'' @ holder_digits) =
      ''0x70a08231'' @ replicate 24 CHR ''0'' @ lower holder_digits" by blast
  then have c1: "balance_of_call_data (''0x'' @ holder_digits) =
     ''0x70a08231000000000000000000000000ab5801a7d398351b8be11c439e05c5b3259aec9b''"
    by (simp only: low)
  have d: "is_hex balance_digits \<and> balance_digits \<noteq> []" by code_simp
  have r: "rpc (usdc_node \<lparr>call_to = ''0xA0b86991c6218b36c1d19d4a2e9eb0ce3606eb48'',
        call_data = balance_of_call_data (''0x'' @ holder_digits)\<rparr> (hex 19000000))
      = Inr (''0x'' @ balance_digits)"
    by (simp add: usdc_node_def rpc_rpc_ok)
  have v: "hex_value balance_digits = 1000000" by code_simp
  from T d r have "erc20_balance_at_block usdc_node (''0x'' @ holder_digits)
        ''0xA0b86991c6218b36c1d19d4a2e9eb0ce3606eb48'' 19000000 = Inr (hex_value balance_digits)"
    by blast
  then have c2: "erc20_balance_at_block usdc_node (''0x'' @ holder_digits)
        ''0xA0b86991c6218b36c1d19d4a2e9eb0ce3606eb48'' 19000000 = Inr 1000000"
    by (simp only: v)
  from c1 c2 show ?thesis by (rule conjI)
qed

section \<open>Verification: the price lookups\<close>

lemma is_latest_snoc_new:
  assumes "is_latest k xs i" "k (xs ! i) < k p"
  shows "is_latest k (xs @ [p]) (length xs)"
  unfolding is_latest_def
proof (intro conjI allI impI)
  show "length xs < length (xs @ [p])" by simp
next
  fix j assume "j < length (xs @ [p])"
  then have "j < length xs \<or> j = length xs" by auto
  then show "k ((xs @ [p]) ! j) \<le> k ((xs @ [p]) ! length xs)"
  proof
    assume j: "j < length xs"
    then have "k (xs ! j) \<le> k (xs ! i)" using assms(1) by (simp add: is_latest_def)
    with assms(2) j show ?thesis by (simp add: nth_append)
  next
    assume "j = length xs"
    then show ?thesis by simp
  qed
next
  fix j assume j: "j < length xs"
  then have "k (xs ! j) \<le> k (xs ! i)" using assms(1) by (simp add: is_latest_def)
  with assms(2) j show "k ((xs @ [p]) ! j) < k ((xs @ [p]) ! length xs)"
    by (simp add: nth_append)
qed

lemma is_latest_snoc_keep:
  assumes "is_latest k xs i" "k p \<le> k (xs ! i)"
  shows "is_latest k (xs @ [p]) i"
  unfolding is_latest_def
proof (intro conjI allI impI)
  from assms(1) have i: "i < length xs" by (simp add: is_latest_def)
  then show "i < length (xs @ [p])" by simp
  fix j
  {
    assume "j < length (xs @ [p])"
    then have "j < length xs \<or> j = length xs" by auto
    then show "k ((xs @ [p]) ! j) \<le> k ((xs @ [p]) ! i)"
    proof
      assume j: "j < length xs"
      then have "k (xs ! j) \<le> k (xs ! i)" using assms(1) by (simp add: is_latest_def)
      with i j show ?thesis by (simp add: nth_append)
    next
      assume "j = length xs"
      with assms(2) i show ?thesis by (simp add: nth_append)
    qed
  }
  {
    assume j: "j < i"
    then have "k (xs ! j) < k (xs ! i)" using assms(1) by (simp add: is_latest_def)
    with i j show "k ((xs @ [p]) ! j) < k ((xs @ [p]) ! i)" by (simp add: nth_append)
  }
qed

lemma max_loop_latest:
  "\<forall>p\<in>set ps. key p = Inr (Aware (k p)) \<Longrightarrow> is_latest k xs i \<Longrightarrow>
   \<exists>i'. is_latest k (xs @ ps) i' \<and> max_loop key ps (xs ! i) (Aware (k (xs ! i))) = Inr ((xs @ ps) ! i')"
proof (induction ps arbitrary: xs i)
  case Nil
  then show ?case by auto
next
  case (Cons p ps)
  have kp: "key p = Inr (Aware (k p))" using Cons.prems(1) by simp
  have rest: "\<forall>p\<in>set ps. key p = Inr (Aware (k p))" using Cons.prems(1) by simp
  show ?case
  proof (cases "k p > k (xs ! i)")
    case True
    from is_latest_snoc_new[OF Cons.prems(2) True]
    have l: "is_latest k (xs @ [p]) (length xs)" .
    from Cons.IH[OF rest l]
    obtain i' where "is_latest k ((xs @ [p]) @ ps) i'"
      "max_loop key ps ((xs @ [p]) ! length xs) (Aware (k ((xs @ [p]) ! length xs))) =
         Inr (((xs @ [p]) @ ps) ! i')" by blast
    then show ?thesis using kp True by auto
  next
    case False
    then have "k p \<le> k (xs ! i)" by simp
    from is_latest_snoc_keep[OF Cons.prems(2) this]
    have l: "is_latest k (xs @ [p]) i" .
    have i: "i < length xs" using Cons.prems(2) by (simp add: is_latest_def)
    from Cons.IH[OF rest l]
    obtain i' where "is_latest k ((xs @ [p]) @ ps) i'"
      "max_loop key ps ((xs @ [p]) ! i) (Aware (k ((xs @ [p]) ! i))) =
         Inr (((xs @ [p]) @ ps) ! i')" by blast
    then show ?thesis using kp False i by (auto simp: nth_append)
  qed
qed

lemma py_max_latest:
  assumes "\<forall>p\<in>set ps. key p = Inr (Aware (k p))" "ps \<noteq> []"
  shows "\<exists>i. is_latest k ps i \<and> py_max key ps = Inr (ps ! i)"
proof -
  obtain p0 rest where ps: "ps = p0 # rest" using assms(2) by (cases ps) auto
  have l: "is_latest k [p0] 0" by (simp add: is_latest_def)
  have "\<forall>p\<in>set rest. key p = Inr (Aware (k p))" using assms(1) ps by simp
  from max_loop_latest[OF this l]
  obtain i' where "is_latest k ([p0] @ rest) i'"
    "max_loop key rest ([p0] ! 0) (Aware (k ([p0] ! 0))) = Inr (([p0] @ rest) ! i')" by blast
  then show ?thesis using assms(1) ps by (auto simp: py_max_def)
qed

lemma lacks_timestamp_min:
  "lacks_timestamp p \<Longrightarrow> parse_ts fromiso p = Inr (Aware 0)"
  by (auto simp: lacks_timestamp_def parse_ts_def datetime_min_utc_def split: sum.splits)

lemma latest_value_latest:
  assumes "\<forall>p\<in>set points. parse_ts fromiso p = Inr (Aware (stamp p))" "points \<noteq> []"
  shows "\<exists>i. is_latest stamp points i \<and> latest_value fl fromiso points = point_value fl (points ! i)"
proof -
  from py_max_latest[OF assms]
  obtain i where "is_latest stamp points i" "py_max (parse_ts fromiso) points = Inr (points ! i)"
    by blast
  then show ?thesis by (auto simp: latest_value_def)
qed

lemma latest_not_lacking:
  assumes st: "\<forall>p\<in>set points. parse_ts fromiso p = Inr (Aware (stamp p))"
    and l: "is_latest stamp points i"
    and pos: "\<forall>p\<in>set points. lacks_timestamp p \<or> 0 < stamp p"
    and ex: "\<exists>p\<in>set points. \<not> lacks_timestamp p"
  shows "\<not> lacks_timestamp (points ! i)"
proof
  assume lk: "lacks_timestamp (points ! i)"
  from l have i: "i < length points" by (simp add: is_latest_def)
  then have mem: "points ! i \<in> set points" by simp
  from lacks_timestamp_min[OF lk, of fromiso] st mem have z: "stamp (points ! i) = 0" by auto
  from ex obtain q where q: "q \<in> set points" "\<not> lacks_timestamp q" by blast
  with pos have "0 < stamp q" by blast
  moreover from q(1) obtain j where "j < length points" "points ! j = q"
    by (auto simp: in_set_conv_nth)
  then have "stamp q \<le> stamp (points ! i)" using l by (auto simp: is_latest_def)
  ultimately show False using z by simp
qed

text \<open>
  The lookups of btc.py and eth\_alchemy.py. When the price source yields a non-empty list
  of points whose timestamps are absent or parse to aware times, the lookup returns the
  value of the first point with the maximum timestamp (what \<^verbatim>\<open>float\<close> of its
  \<^verbatim>\<open>value\<close> field gives; when that raises, the Ethereum variant returns the fallback
  for a symbol that has one). A point without a timestamp counts as the minimal time
  \<^verbatim>\<open>datetime.min\<close>; it is not selected when some point carries a timestamp and every
  timestamp is later than \<^verbatim>\<open>datetime.min\<close> (a point stamped with \<^verbatim>\<open>datetime.min\<close>
  itself ties with it, and of two tied points the first listed wins).
\<close>

theorem latest_point_selected:
  "(extract_price_points payload = Inr points \<and> points \<noteq> []
      \<and> (\<forall>p\<in>set points. parse_ts fromiso p = Inr (Aware (stamp p)))
    \<longrightarrow> (\<exists>i. is_latest stamp points i
          \<and> (btc_historical_price_usd send key symbol (ondate @ ''T00:00:00Z'')
                (ondate @ ''T23:59:59Z'') = Inr payload
              \<longrightarrow> btc_fx_rate_usd_end_of_day fl fromiso send key symbol ondate =
                    point_value fl (points ! i))
          \<and> (historical_price_usd post key symbol (ondate @ ''T00:00:00Z'')
                (ondate @ ''T23:59:59Z'') = Inr payload
              \<longrightarrow> eth_fx_rate_usd_end_of_day fl fromiso post key symbol ondate =
                    (case point_value fl (points ! i) of
                       Inr v \<Rightarrow> Inr v
                     | Inl e \<Rightarrow> (case map_of STABLE_FALLBACK symbol of
                                  Some r \<Rightarrow> Inr r | None \<Rightarrow> Inl e)))
          \<and> ((\<forall>p\<in>set points. lacks_timestamp p \<or> 0 < stamp p)
                \<and> (\<exists>p\<in>set points. \<not> lacks_timestamp p)
              \<longrightarrow> \<not> lacks_timestamp (points ! i))))"
proof (intro impI)
  assume h: "extract_price_points payload = Inr points \<and> points \<noteq> []
      \<and> (\<forall>p\<in>set points. parse_ts fromiso p = Inr (Aware (stamp p)))"
  then have st: "\<forall>p\<in>set points. parse_ts fromiso p = Inr (Aware (stamp p))"
    and ne: "points \<noteq> []" and ex: "extract_price_points payload = Inr points" by simp_all
  from latest_value_latest[OF st ne, of fl]
  obtain i where i: "is_latest stamp points i"
    and lv: "latest_value fl fromiso points = point_value fl (points ! i)" by blast
  have btc: "btc_fx_rate_usd_end_of_day fl fromiso send key symbol ondate =
      point_value fl (points ! i)"
    if "btc_historical_price_usd send key symbol (ondate @ ''T00:00:00Z'')
                (ondate @ ''T23:59:59Z'') = Inr payload"
    using that ex ne lv by (simp add: btc_fx_rate_usd_end_of_day_def)
  have eth: "eth_fx_rate_usd_end_of_day fl fromiso post key symbol ondate =
      (case point_value fl (points ! i) of
         Inr v \<Rightarrow> Inr v
       | Inl e \<Rightarrow> (case map_of STABLE_FALLBACK symbol of Some r \<Rightarrow> Inr r | None \<Rightarrow> Inl e))"
    if "historical_price_usd post key symbol (ondate @ ''T00:00:00Z'')
                (ondate @ ''T23:59:59Z'') = Inr payload"
    using that ex ne lv
    by (simp add: eth_fx_rate_usd_end_of_day_def eth_fx_try_def split: sum.splits)
  have nl: "\<not> lacks_timestamp (points ! i)"
    if "(\<forall>p\<in>set points. lacks_timestamp p \<or> 0 < stamp p)
                \<and> (\<exists>p\<in>set points. \<not> lacks_timestamp p)"
    using latest_not_lacking[OF st i] that by blast
  from i btc eth nl show "\<exists>i. is_latest stamp points i
          \<and> (btc_historical_price_usd send key symbol (ondate @ ''T00:00:00Z'')
                (ondate @ ''T23:59:59Z'') = Inr payload
              \<longrightarrow> btc_fx_rate_usd_end_of_day fl fromiso send key symbol ondate =
                    point_value fl (points ! i))
          \<and> (historical_price_usd post key symbol (ondate @ ''T00:00:00Z'')
                (ondate @ ''T23:59:59Z'') = Inr payload
              \<longrightarrow> eth_fx_rate_usd_end_of_day fl fromiso post key symbol ondate =
                    (case point_value fl (points ! i) of
                       Inr v \<Rightarrow> Inr v
                     | Inl e \<Rightarrow> (case map_of STABLE_FALLBACK symbol of
                                  Some r \<Rightarrow> Inr r | None \<Rightarrow> Inl e)))
          \<and> ((\<forall>p\<in>set points. lacks_timestamp p \<or> 0 < stamp p)
                \<and> (\<exists>p\<in>set points. \<not> lacks_timestamp p)
              \<longrightarrow> \<not> lacks_timestamp (points ! i))"
    by blast
qed

text \<open>
  Claim C2 does not hold of the code. \<^verbatim>\<open>price_on_date_usd\<close> of solana\_alchemy.py
  compares no timestamps: it returns the value of the first point of the list. On the
  two points of one day, 1.0 at 10:00 and 1.5 at 20:00, the list the other two variants
  answer with 1.5, it returns 1.0, where the claim has every variant return the value of
  the point with the maximum timestamp.
\<close>

theorem solana_lookup_takes_first_point:
  "extract_price_points bare_payload = Inr [point_10h, point_20h]
   \<and> latest_value exact_floats iso_hours [point_10h, point_20h] = Inr (3 / 2)
   \<and> btc_fx_rate_usd_end_of_day exact_floats iso_hours (always_json bare_payload) ''k'' ''SOL''
       ''2025-12-31'' = Inr (3 / 2)
   \<and> eth_fx_rate_usd_end_of_day exact_floats iso_hours (once_json bare_payload) ''k'' ''SOL''
       ''2025-12-31'' = Inr (3 / 2)
   \<and> price_on_date_usd exact_floats (once_json bare_payload) no_prices ''k'' ''SOL'' ''2025-12-31''
       = Some 1"
proof (intro conjI)
  show "extract_price_points bare_payload = Inr [point_10h, point_20h]"
    by code_simp
  show "latest_value exact_floats iso_hours [point_10h, point_20h] = Inr (3 / 2)"
    by code_simp
  show "btc_fx_rate_usd_end_of_day exact_floats iso_hours (always_json bare_payload) ''k'' ''SOL''
       ''2025-12-31'' = Inr (3 / 2)"
    by code_simp
  show "eth_fx_rate_usd_end_of_day exact_floats iso_hours (once_json bare_payload) ''k'' ''SOL''
       ''2025-12-31'' = Inr (3 / 2)"
    by code_simp
  show "price_on_date_usd exact_floats (once_json bare_payload) no_prices ''k'' ''SOL'' ''2025-12-31''
       = Some 1"
    by code_simp
qed

lemma two_points_stamps:
  "\<forall>p\<in>set [point_10h, point_20h]. parse_ts iso_hours p = Inr (Aware (hours_of p))"
proof -
  have "parse_ts iso_hours point_10h = Inr (Aware (hours_of point_10h))" by code_simp
  moreover have "parse_ts iso_hours point_20h = Inr (Aware (hours_of point_20h))" by code_simp
  ultimately show ?thesis by simp
qed

lemma two_points_latest: "is_latest hours_of [point_10h, point_20h] i \<Longrightarrow> i = 1"
proof -
  assume l: "is_latest hours_of [point_10h, point_20h] i"
  have h: "hours_of point_10h = 10" "hours_of point_20h = 20" by code_simp+
  from l have lt: "i < length [point_10h, point_20h]"
    and all: "\<forall>j<length [point_10h, point_20h].
        hours_of ([point_10h, point_20h] ! j) \<le> hours_of ([point_10h, point_20h] ! i)"
    unfolding is_latest_def by blast+
  from all[rule_format, of 1]
  have "hours_of ([point_10h, point_20h] ! 1) \<le> hours_of ([point_10h, point_20h] ! i)"
    by simp
  then have "20 \<le> hours_of ([point_10h, point_20h] ! i)" using h by simp
  with lt h show ?thesis by (cases i) auto
qed

theorem latest_point_selected_witness:
  "btc_fx_rate_usd_end_of_day exact_floats iso_hours (always_json nested_payload) ''k'' ''BTC''
      ''2025-12-31'' = Inr (3 / 2)
   \<and> eth_fx_rate_usd_end_of_day exact_floats iso_hours (once_json nested_payload) ''k'' ''BTC''
      ''2025-12-31'' = Inr (3 / 2)"
proof -
  have hyp: "extract_price_points nested_payload = Inr [point_10h, point_20h]
      \<and> [point_10h, point_20h] \<noteq> []
      \<and> (\<forall>p\<in>set [point_10h, point_20h]. parse_ts iso_hours p = Inr (Aware (hours_of p)))"
  proof (intro conjI)
    show "extract_price_points nested_payload = Inr [point_10h, point_20h]" by code_simp
    show "[point_10h, point_20h] \<noteq> []" by simp
    show "\<forall>p\<in>set [point_10h, point_20h]. parse_ts iso_hours p = Inr (Aware (hours_of p))"
      by (rule two_points_stamps)
  qed
  have fb: "btc_historical_price_usd (always_json nested_payload) ''k'' ''BTC''
      (''2025-12-31'' @ ''T00:00:00Z'') (''2025-12-31'' @ ''T23:59:59Z'') = Inr nested_payload"
    by code_simp
  have fe: "historical_price_usd (once_json nested_payload) ''k'' ''BTC''
      (''2025-12-31'' @ ''T00:00:00Z'') (''2025-12-31'' @ ''T23:59:59Z'') = Inr nested_payload"
    by code_simp
  have pv: "point_value exact_floats ([point_10h, point_20h] ! 1) = Inr (3 / 2)" by code_simp
  from latest_point_selected[of nested_payload "[point_10h, point_20h]" iso_hours hours_of
      "always_json nested_payload" "''k''" "''BTC''" "''2025-12-31''" exact_floats
      "once_json nested_payload"] hyp
  obtain i where i: "is_latest hours_of [point_10h, point_20h] i"
    and b: "btc_historical_price_usd (always_json nested_payload) ''k'' ''BTC''
        (''2025-12-31'' @ ''T00:00:00Z'') (''2025-12-31'' @ ''T23:59:59Z'') = Inr nested_payload
      \<longrightarrow> btc_fx_rate_usd_end_of_day exact_floats iso_hours (always_json nested_payload) ''k''
            ''BTC'' ''2025-12-31'' = point_value exact_floats ([point_10h, point_20h] ! i)"
    and e: "historical_price_usd (once_json nested_payload) ''k'' ''BTC''
        (''2025-12-31'' @ ''T00:00:00Z'') (''2025-12-31'' @ ''T23:59:59Z'') = Inr nested_payload
      \<longrightarrow> eth_fx_rate_usd_end_of_day exact_floats iso_hours (once_json nested_payload) ''k''
            ''BTC'' ''2025-12-31'' =
          (case point_value exact_floats ([point_10h, point_20h] ! i) of
             Inr v \<Rightarrow> Inr v
           | Inl e \<Rightarrow> (case map_of STABLE_FALLBACK ''BTC'' of Some r \<Rightarrow> Inr r | None \<Rightarrow> Inl e))"
    by blast
  have i1: "i = 1" using two_points_latest[OF i] .
  from b fb have "btc_fx_rate_usd_end_of_day exact_floats iso_hours (always_json nested_payload) ''k''
            ''BTC'' ''2025-12-31'' = point_value exact_floats ([point_10h, point_20h] ! i)" by blast
  then have c1: "btc_fx_rate_usd_end_of_day exact_floats iso_hours (always_json nested_payload) ''k''
            ''BTC'' ''2025-12-31'' = Inr (3 / 2)" unfolding i1 pv .
  from e fe have "eth_fx_rate_usd_end_of_day exact_floats iso_hours (once_json nested_payload) ''k''
            ''BTC'' ''2025-12-31'' =
          (case point_value exact_floats ([point_10h, point_20h] ! i) of
             Inr v \<Rightarrow> Inr v
           | Inl e \<Rightarrow> (case map_of STABLE_FALLBACK ''BTC'' of Some r \<Rightarrow> Inr r | None \<Rightarrow> Inl e))"
    by blast
  then have c2: "eth_fx_rate_usd_end_of_day exact_floats iso_hours (once_json nested_payload) ''k''
            ''BTC'' ''2025-12-31'' = Inr (3 / 2)" unfolding i1 pv by simp
  from c1 c2 show ?thesis by (rule conjI)
qed

lemma extract_empty_dict:
  "extract_price_points payload = Inr [] \<Longrightarrow> \<exists>kvs. payload = JDict kvs"
  by (cases payload) (simp_all add: extract_price_points_def)

lemma alchemy_try_no_points:
  assumes f: "historical_price_usd post key symbol (ondate @ ''T00:00:00Z'')
      (ondate @ ''T23:59:59Z'') = Inr payload"
    and e: "extract_price_points payload = Inr []"
  shows "alchemy_try fl post key symbol ondate \<noteq> Inr (Some r)"
proof -
  from extract_empty_dict[OF e] obtain kvs where p: "payload = JDict kvs" by blast
  show ?thesis
  proof (cases "map_of kvs ''data''")
    case None
    then show ?thesis using f p by (simp add: alchemy_try_def)
  next
    case (Some data)
    show ?thesis
    proof (cases data)
      case JNull
      then show ?thesis using f p Some by (simp add: alchemy_try_def)
    next
      case (JBool b)
      then show ?thesis using f p Some by (simp add: alchemy_try_def)
    next
      case (JNum n)
      then show ?thesis using f p Some by (simp add: alchemy_try_def)
    next
      case (JStr s)
      then show ?thesis using f p Some by (cases s) (simp_all add: alchemy_try_def)
    next
      case (JList xs)
      then have "xs = []" using e p Some by (simp add: extract_price_points_def)
      then show ?thesis using f p Some JList by (simp add: alchemy_try_def)
    next
      case (JDict d)
      then show ?thesis using f p Some by (simp add: alchemy_try_def)
    qed
  qed
qed

lemma price_on_date_no_points:
  assumes f: "historical_price_usd post key symbol (ondate @ ''T00:00:00Z'')
      (ondate @ ''T23:59:59Z'') = Inr payload"
    and e: "extract_price_points payload = Inr []"
  shows "price_on_date_usd fl post cg key symbol ondate =
    (case map_of COINGECKO_IDS (upper symbol) of
       None \<Rightarrow> None
     | Some coin_id \<Rightarrow> coingecko_price_on_date_usd fl cg coin_id ondate)"
proof -
  have n: "alchemy_try fl post key symbol ondate \<noteq> Inr (Some r)" for r
    using alchemy_try_no_points[OF f e] .
  have ids: "map_of COINGECKO_IDS s = Some c \<Longrightarrow> c \<noteq> []" for s c
    by (auto simp: COINGECKO_IDS_def split: if_splits)
  show ?thesis
  proof (cases "alchemy_try fl post key symbol ondate")
    case (Inl x)
    then show ?thesis using ids by (auto simp: price_on_date_usd_def split: option.splits)
  next
    case (Inr y)
    with n have "y = None" by (cases y) auto
    with Inr show ?thesis using ids by (auto simp: price_on_date_usd_def split: option.splits)
  qed
qed

lemma coingecko_unmapped:
  "upper symbol \<noteq> ''JITOSOL'' \<Longrightarrow> map_of COINGECKO_IDS (upper symbol) = None"
  by (simp add: COINGECKO_IDS_def)

text \<open>
  Claim C3, as amended. When the primary price source yields no price points: the Bitcoin
  variant, which has no stablecoin fallback, fails with the "No price points" error for
  every symbol; the Ethereum variant returns exactly 1.0 for USDC and USDT and fails with
  that error for any other symbol; the Solana lookup raises nothing and returns what the
  secondary source gives for a symbol with a mapped identifier, and "unavailable" for any
  other symbol, after which a token labelled USDC, USDT or USX is priced at exactly 1.0,
  any other token has no price, and the native price is replaced by 0.
\<close>

theorem no_price_points_policy:
  "(btc_historical_price_usd send key symbol (ondate @ ''T00:00:00Z'') (ondate @ ''T23:59:59Z'')
        = Inr payload
      \<and> extract_price_points payload = Inr []
    \<longrightarrow> btc_fx_rate_usd_end_of_day fl fromiso send key symbol ondate =
          Inl (no_points_error symbol ondate))
   \<and> (historical_price_usd post key symbol (ondate @ ''T00:00:00Z'') (ondate @ ''T23:59:59Z'')
        = Inr payload
      \<and> extract_price_points payload = Inr []
    \<longrightarrow> eth_fx_rate_usd_end_of_day fl fromiso post key symbol ondate =
          (if symbol = ''USDC'' \<or> symbol = ''USDT'' then Inr 1
           else Inl (no_points_error symbol ondate))
        \<and> price_on_date_usd fl post cg key symbol ondate =
          (case map_of COINGECKO_IDS (upper symbol) of
             None \<Rightarrow> None
           | Some coin_id \<Rightarrow> coingecko_price_on_date_usd fl cg coin_id ondate)
        \<and> (upper symbol \<noteq> ''JITOSOL''
            \<longrightarrow> price_on_date_usd fl post cg key symbol ondate = None
              \<and> token_price fl post cg key label symbol ondate =
                  (if label = ''USDC'' \<or> label = ''USDT'' \<or> label = ''USX'' then Some 1 else None))
        \<and> (symbol = ''SOL'' \<longrightarrow> sol_price fl post cg key ondate = 0))"
proof (intro conjI impI)
  assume "btc_historical_price_usd send key symbol (ondate @ ''T00:00:00Z'') (ondate @ ''T23:59:59Z'')
        = Inr payload
      \<and> extract_price_points payload = Inr []"
  then show "btc_fx_rate_usd_end_of_day fl fromiso send key symbol ondate =
          Inl (no_points_error symbol ondate)"
    by (simp add: btc_fx_rate_usd_end_of_day_def)
next
  assume h: "historical_price_usd post key symbol (ondate @ ''T00:00:00Z'') (ondate @ ''T23:59:59Z'')
        = Inr payload
      \<and> extract_price_points payload = Inr []"
  then show "eth_fx_rate_usd_end_of_day fl fromiso post key symbol ondate =
          (if symbol = ''USDC'' \<or> symbol = ''USDT'' then Inr 1
           else Inl (no_points_error symbol ondate))"
    by (simp add: eth_fx_rate_usd_end_of_day_def eth_fx_try_def STABLE_FALLBACK_def)
  from h show p: "price_on_date_usd fl post cg key symbol ondate =
          (case map_of COINGECKO_IDS (upper symbol) of
             None \<Rightarrow> None
           | Some coin_id \<Rightarrow> coingecko_price_on_date_usd fl cg coin_id ondate)"
    using price_on_date_no_points by blast
  {
    assume u: "upper symbol \<noteq> ''JITOSOL''"
    show n: "price_on_date_usd fl post cg key symbol ondate = None"
      unfolding p by (simp add: coingecko_unmapped[OF u])
    show "token_price fl post cg key label symbol ondate =
        (if label = ''USDC'' \<or> label = ''USDT'' \<or> label = ''USX'' then Some 1 else None)"
      by (simp add: token_price_def n fallback_price_def STABLES_def)
  }
  {
    assume s: "symbol = ''SOL''"
    have "upper ''SOL'' \<noteq> ''JITOSOL''" by (simp add: upper_def)
    then have "map_of COINGECKO_IDS (upper ''SOL'') = None" by (rule coingecko_unmapped)
    then have "price_on_date_usd fl post cg key ''SOL'' ondate = None"
      using p s by simp
    then show "sol_price fl post cg key ondate = 0" by (simp add: sol_price_def)
  }
qed

text \<open>
  The claim as stated fails twice: with no price points, the Solana lookup of JITOSOL,
  which is no stablecoin, returns the secondary source's price rather than
  "unavailable"; and the Bitcoin variant raises for the stablecoin symbol USDC.
\<close>

theorem no_price_points_counterexample:
  "extract_price_points empty_payload = Inr []
   \<and> ''JITOSOL'' \<notin> set STABLES
   \<and> price_on_date_usd exact_floats (once_json empty_payload) (once_json gecko_payload) ''k''
        ''JITOSOL'' ''2025-12-31'' = Some 2
   \<and> btc_fx_rate_usd_end_of_day exact_floats iso_hours (always_json empty_payload) ''k''
        ''USDC'' ''2025-12-31'' = Inl (no_points_error ''USDC'' ''2025-12-31'')"
  by code_simp

theorem no_price_points_policy_witness:
  "btc_fx_rate_usd_end_of_day exact_floats iso_hours (always_json empty_payload) ''k'' ''BTC''
      ''2025-12-31'' = Inl (no_points_error ''BTC'' ''2025-12-31'')
   \<and> eth_fx_rate_usd_end_of_day exact_floats iso_hours (once_json empty_payload) ''k'' ''USDC''
      ''2025-12-31'' = Inr 1
   \<and> eth_fx_rate_usd_end_of_day exact_floats iso_hours (once_json empty_payload) ''k'' ''ETH''
      ''2025-12-31'' = Inl (no_points_error ''ETH'' ''2025-12-31'')
   \<and> token_price exact_floats (once_json empty_payload) (once_json gecko_payload) ''k''
      ''USX'' ''USX'' ''2025-12-31'' = Some 1
   \<and> sol_price exact_floats (once_json empty_payload) (once_json gecko_payload) ''k''
      ''2025-12-31'' = 0"
proof -
  have e: "extract_price_points empty_payload = Inr []" by code_simp
  have fb: "btc_historical_price_usd (always_json empty_payload) ''k'' s
      (''2025-12-31'' @ ''T00:00:00Z'') (''2025-12-31'' @ ''T23:59:59Z'') = Inr empty_payload" for s
    using rwr_stop[of 1 "always_json empty_payload"]
    by (simp add: btc_historical_price_usd_def always_json_def json_response_def
        try_request_def raise_for_status_def)
  have fe: "historical_price_usd (once_json empty_payload) ''k'' s
      (''2025-12-31'' @ ''T00:00:00Z'') (''2025-12-31'' @ ''T23:59:59Z'') = Inr empty_payload" for s
    by (simp add: historical_price_usd_def once_json_def json_response_def
        try_request_def raise_for_status_def)
  note T = no_price_points_policy[where payload = empty_payload and ondate = "''2025-12-31''"
      and key = "''k''" and fl = exact_floats and fromiso = iso_hours
      and send = "always_json empty_payload" and post = "once_json empty_payload"
      and cg = "once_json gecko_payload"]
  from T[of "''BTC''"] fb e
  have c1: "btc_fx_rate_usd_end_of_day exact_floats iso_hours (always_json empty_payload) ''k'' ''BTC''
      ''2025-12-31'' = Inl (no_points_error ''BTC'' ''2025-12-31'')" by blast
  from T[of "''USDC''"] fe e
  have "eth_fx_rate_usd_end_of_day exact_floats iso_hours (once_json empty_payload) ''k'' ''USDC''
      ''2025-12-31'' = (if ''USDC'' = ''USDC'' \<or> ''USDC'' = ''USDT'' then Inr 1
           else Inl (no_points_error ''USDC'' ''2025-12-31''))" by blast
  then have c2: "eth_fx_rate_usd_end_of_day exact_floats iso_hours (once_json empty_payload) ''k'' ''USDC''
      ''2025-12-31'' = Inr 1" by simp
  from T[of "''ETH''"] fe e
  have "eth_fx_rate_usd_end_of_day exact_floats iso_hours (once_json empty_payload) ''k'' ''ETH''
      ''2025-12-31'' = (if ''ETH'' = ''USDC'' \<or> ''ETH'' = ''USDT'' then Inr 1
           else Inl (no_points_error ''ETH'' ''2025-12-31''))" by blast
  then have c3: "eth_fx_rate_usd_end_of_day exact_floats iso_hours (once_json empty_payload) ''k'' ''ETH''
      ''2025-12-31'' = Inl (no_points_error ''ETH'' ''2025-12-31'')" by simp
  have ux: "upper ''USX'' \<noteq> ''JITOSOL''" by (simp add: upper_def)
  from T[of "''USX''" "''USX''"] fe e ux
  have "token_price exact_floats (once_json empty_payload) (once_json gecko_payload) ''k''
      ''USX'' ''USX'' ''2025-12-31'' =
      (if ''USX'' = ''USDC'' \<or> ''USX'' = ''USDT'' \<or> ''USX'' = ''USX'' then Some 1 else None)"
    by blast
  then have c4: "token_price exact_floats (once_json empty_payload) (once_json gecko_payload) ''k''
      ''USX'' ''USX'' ''2025-12-31'' = Some 1" by simp
  from T[of "''SOL''"] fe e
  have c5: "sol_price exact_floats (once_json empty_payload) (once_json gecko_payload) ''k''
      ''2025-12-31'' = 0" by blast
  from c1 c2 c3 c4 c5 show ?thesis by blast
qed

lemma eth_fx_stable:
  "symbol = ''USDC'' \<or> symbol = ''USDT'' \<Longrightarrow>
   eth_fx_rate_usd_end_of_day fl fromiso post key symbol ondate =
     (case eth_fx_try fl fromiso post key symbol ondate of Inr r \<Rightarrow> Inr r | Inl e \<Rightarrow> Inr 1)"
  by (auto simp: eth_fx_rate_usd_end_of_day_def STABLE_FALLBACK_def split: sum.splits)

text \<open>
  Claim C10. For the symbols USDC and USDT and every date, the Ethereum variant's lookup
  never raises: it returns a rate, and whenever the body of its \<^verbatim>\<open>try\<close> raises, it
  returns 1.0, be it the price fetch that fails, the extraction of the points, the
  selection of the latest point with its timestamp parsing, or the conversion of the
  value, and also when the list of points is empty.
\<close>

theorem eth_stable_never_raises:
  "symbol = ''USDC'' \<or> symbol = ''USDT'' \<longrightarrow>
     (\<exists>r. eth_fx_rate_usd_end_of_day fl fromiso post key symbol ondate = Inr r)
     \<and> (\<forall>e. eth_fx_try fl fromiso post key symbol ondate = Inl e
           \<longrightarrow> eth_fx_rate_usd_end_of_day fl fromiso post key symbol ondate = Inr 1)
     \<and> (\<forall>e. historical_price_usd post key symbol (ondate @ ''T00:00:00Z'')
              (ondate @ ''T23:59:59Z'') = Inl e
           \<longrightarrow> eth_fx_rate_usd_end_of_day fl fromiso post key symbol ondate = Inr 1)
     \<and> (\<forall>payload e. historical_price_usd post key symbol (ondate @ ''T00:00:00Z'')
              (ondate @ ''T23:59:59Z'') = Inr payload
            \<and> extract_price_points payload = Inl e
           \<longrightarrow> eth_fx_rate_usd_end_of_day fl fromiso post key symbol ondate = Inr 1)
     \<and> (\<forall>payload. historical_price_usd post key symbol (ondate @ ''T00:00:00Z'')
              (ondate @ ''T23:59:59Z'') = Inr payload
            \<and> extract_price_points payload = Inr []
           \<longrightarrow> eth_fx_rate_usd_end_of_day fl fromiso post key symbol ondate = Inr 1)
     \<and> (\<forall>payload points e. historical_price_usd post key symbol (ondate @ ''T00:00:00Z'')
              (ondate @ ''T23:59:59Z'') = Inr payload
            \<and> extract_price_points payload = Inr points \<and> points \<noteq> []
            \<and> py_max (parse_ts fromiso) points = Inl e
           \<longrightarrow> eth_fx_rate_usd_end_of_day fl fromiso post key symbol ondate = Inr 1)
     \<and> (\<forall>payload points latest e. historical_price_usd post key symbol (ondate @ ''T00:00:00Z'')
              (ondate @ ''T23:59:59Z'') = Inr payload
            \<and> extract_price_points payload = Inr points \<and> points \<noteq> []
            \<and> py_max (parse_ts fromiso) points = Inr latest \<and> point_value fl latest = Inl e
           \<longrightarrow> eth_fx_rate_usd_end_of_day fl fromiso post key symbol ondate = Inr 1)"
proof (intro impI)
  assume s: "symbol = ''USDC'' \<or> symbol = ''USDT''"
  note fx = eth_fx_stable[OF s, of fl fromiso post key ondate]
  have stable: "map_of STABLE_FALLBACK symbol = Some 1"
    using s by (auto simp: STABLE_FALLBACK_def)
  have a: "\<exists>r. eth_fx_rate_usd_end_of_day fl fromiso post key symbol ondate = Inr r"
    unfolding fx by (cases "eth_fx_try fl fromiso post key symbol ondate") auto
  have b: "eth_fx_rate_usd_end_of_day fl fromiso post key symbol ondate = Inr 1"
    if "eth_fx_try fl fromiso post key symbol ondate = Inl e" for e
    unfolding fx using that by simp
  have c: "eth_fx_rate_usd_end_of_day fl fromiso post key symbol ondate = Inr 1"
    if "historical_price_usd post key symbol (ondate @ ''T00:00:00Z'')
              (ondate @ ''T23:59:59Z'') = Inl e" for e
    using that by (intro b[of e]) (simp add: eth_fx_try_def)
  have d: "eth_fx_rate_usd_end_of_day fl fromiso post key symbol ondate = Inr 1"
    if "historical_price_usd post key symbol (ondate @ ''T00:00:00Z'')
              (ondate @ ''T23:59:59Z'') = Inr payload \<and> extract_price_points payload = Inl e"
    for payload e
    using that by (intro b[of e]) (simp add: eth_fx_try_def)
  have e: "eth_fx_rate_usd_end_of_day fl fromiso post key symbol ondate = Inr 1"
    if "historical_price_usd post key symbol (ondate @ ''T00:00:00Z'')
              (ondate @ ''T23:59:59Z'') = Inr payload \<and> extract_price_points payload = Inr []"
    for payload
    unfolding fx using that stable by (simp add: eth_fx_try_def)
  have f: "eth_fx_rate_usd_end_of_day fl fromiso post key symbol ondate = Inr 1"
    if "historical_price_usd post key symbol (ondate @ ''T00:00:00Z'')
              (ondate @ ''T23:59:59Z'') = Inr payload
            \<and> extract_price_points payload = Inr points \<and> points \<noteq> []
            \<and> py_max (parse_ts fromiso) points = Inl e"
    for payload points e
    using that by (intro b[of e]) (simp add: eth_fx_try_def latest_value_def)
  have g: "eth_fx_rate_usd_end_of_day fl fromiso post key symbol ondate = Inr 1"
    if "historical_price_usd post key symbol (ondate @ ''T00:00:00Z'')
              (ondate @ ''T23:59:59Z'') = Inr payload
            \<and> extract_price_points payload = Inr points \<and> points \<noteq> []
            \<and> py_max (parse_ts fromiso) points = Inr latest \<and> point_value fl latest = Inl e"
    for payload points latest e
    using that by (intro b[of e]) (simp add: eth_fx_try_def latest_value_def)
  from a b c d e f g show "(\<exists>r. eth_fx_rate_usd_end_of_day fl fromiso post key symbol ondate = Inr r)
     \<and> (\<forall>e. eth_fx_try fl fromiso post key symbol ondate = Inl e
           \<longrightarrow> eth_fx_rate_usd_end_of_day fl fromiso post key symbol ondate = Inr 1)
     \<and> (\<forall>e. historical_price_usd post key symbol (ondate @ ''T00:00:00Z'')
              (ondate @ ''T23:59:59Z'') = Inl e
           \<longrightarrow> eth_fx_rate_usd_end_of_day fl fromiso post key symbol ondate = Inr 1)
     \<and> (\<forall>payload e. historical_price_usd post key symbol (ondate @ ''T00:00:00Z'')
              (ondate @ ''T23:59:59Z'') = Inr payload
            \<and> extract_price_points payload = Inl e
           \<longrightarrow> eth_fx_rate_usd_end_of_day fl fromiso post key symbol ondate = Inr 1)
     \<and> (\<forall>payload. historical_price_usd post key symbol (ondate @ ''T00:00:00Z'')
              (ondate @ ''T23:59:59Z'') = Inr payload
            \<and> extract_price_points payload = Inr []
           \<longrightarrow> eth_fx_rate_usd_end_of_day fl fromiso post key symbol ondate = Inr 1)
     \<and> (\<forall>payload points e. historical_price_usd post key symbol (ondate @ ''T00:00:00Z'')
              (ondate @ ''T23:59:59Z'') = Inr payload
            \<and> extract_price_points payload = Inr points \<and> points \<noteq> []
            \<and> py_max (parse_ts fromiso) points = Inl e
           \<longrightarrow> eth_fx_rate_usd_end_of_day fl fromiso post key symbol ondate = Inr 1)
     \<and> (\<forall>payload points latest e. historical_price_usd post key symbol (ondate @ ''T00:00:00Z'')
              (ondate @ ''T23:59:59Z'') = Inr payload
            \<and> extract_price_points payload = Inr points \<and> points \<noteq> []
            \<and> py_max (parse_ts fromiso) points = Inr latest \<and> point_value fl latest = Inl e
           \<longrightarrow> eth_fx_rate_usd_end_of_day fl fromiso post key symbol ondate = Inr 1)"
    by (intro conjI allI impI)
qed


theorem eth_stable_never_raises_witness:
  "historical_price_usd timeout_post ''k'' ''USDC'' (''2025-12-31'' @ ''T00:00:00Z'')
      (''2025-12-31'' @ ''T23:59:59Z'') = Inl Timeout
   \<and> eth_fx_rate_usd_end_of_day exact_floats iso_hours timeout_post ''k'' ''USDC'' ''2025-12-31''
      = Inr 1
   \<and> extract_price_points (JList []) = Inl AttributeError
   \<and> eth_fx_rate_usd_end_of_day exact_floats iso_hours (once_json (JList [])) ''k'' ''USDC''
      ''2025-12-31'' = Inr 1
   \<and> eth_fx_try exact_floats iso_hours (once_json bad_stamp_payload) ''k'' ''USDT'' ''2025-12-31''
      = Inl ValueError
   \<and> eth_fx_rate_usd_end_of_day exact_floats iso_hours (once_json bad_stamp_payload) ''k'' ''USDT''
      ''2025-12-31'' = Inr 1
   \<and> eth_fx_try exact_floats iso_hours (once_json no_value_payload) ''k'' ''USDT'' ''2025-12-31''
      = Inl KeyError
   \<and> eth_fx_rate_usd_end_of_day exact_floats iso_hours (once_json no_value_payload) ''k'' ''USDT''
      ''2025-12-31'' = Inr 1"
proof -
  have h1: "historical_price_usd timeout_post ''k'' ''USDC'' (''2025-12-31'' @ ''T00:00:00Z'')
      (''2025-12-31'' @ ''T23:59:59Z'') = Inl Timeout" by code_simp
  have s1: "''USDC'' = ''USDC'' \<or> ''USDC'' = ''USDT''" by simp
  have s2: "''USDT'' = ''USDC'' \<or> ''USDT'' = ''USDT''" by simp
  from eth_stable_never_raises[of "''USDC''" exact_floats iso_hours timeout_post "''k''"
      "''2025-12-31''"] s1 h1
  have c1: "eth_fx_rate_usd_end_of_day exact_floats iso_hours timeout_post ''k'' ''USDC''
      ''2025-12-31'' = Inr 1" by blast
  have h2: "historical_price_usd (once_json (JList [])) ''k'' ''USDC''
      (''2025-12-31'' @ ''T00:00:00Z'') (''2025-12-31'' @ ''T23:59:59Z'') = Inr (JList [])
      \<and> extract_price_points (JList []) = Inl AttributeError" by code_simp
  from eth_stable_never_raises[of "''USDC''" exact_floats iso_hours "once_json (JList [])" "''k''"
      "''2025-12-31''"] s1 h2
  have c2: "eth_fx_rate_usd_end_of_day exact_floats iso_hours (once_json (JList [])) ''k'' ''USDC''
      ''2025-12-31'' = Inr 1" by blast
  have h3: "eth_fx_try exact_floats iso_hours (once_json bad_stamp_payload) ''k'' ''USDT''
      ''2025-12-31'' = Inl ValueError" by code_simp
  from eth_stable_never_raises[of "''USDT''" exact_floats iso_hours "once_json bad_stamp_payload"
      "''k''" "''2025-12-31''"] s2 h3
  have c3: "eth_fx_rate_usd_end_of_day exact_floats iso_hours (once_json bad_stamp_payload) ''k''
      ''USDT'' ''2025-12-31'' = Inr 1" by blast
  have h4: "eth_fx_try exact_floats iso_hours (once_json no_value_payload) ''k'' ''USDT''
      ''2025-12-31'' = Inl KeyError" by code_simp
  from eth_stable_never_raises[of "''USDT''" exact_floats iso_hours "once_json no_value_payload"
      "''k''" "''2025-12-31''"] s2 h4
  have c4: "eth_fx_rate_usd_end_of_day exact_floats iso_hours (once_json no_value_payload) ''k''
      ''USDT'' ''2025-12-31'' = Inr 1" by blast
  from h1 c1 h2 c2 h3 c3 h4 c4 show ?thesis by blast
qed

section \<open>Verification: a spend replayed before its funding transaction\<close>

text \<open>
  Claim C9 does not hold of the code. Two transactions of one block have the same
  confirmation time, the sort is by that time alone and keeps the order of the pages,
  which list the newest first. With the spending transaction listed before the one that
  funds it, the spend finds nothing to remove, the funding output is then added and stays
  in the live set: the output of \<open>tx1\<close> is spent by \<open>tx2\<close> and still counted, and the
  balance is 700 where 200 remain unspent.
\<close>

theorem same_block_child_replayed_first:
  "sort_key sort_time (eligible 150 [tx2_same_block, tx1]) = [tx2_same_block, tx1]
   \<and> replay ''A'' [tx2_same_block, tx1] [] = Inr [((''tx2'', 1), 200), ((''tx1'', 0), 500)]
   \<and> (''tx1'', 0) \<in> ref_spent ''A'' tx2_same_block
   \<and> btc_balance_at_timestamp (serve_once [tx2_same_block, tx1]) ''A'' 150 200 = Inr 700"
proof (intro conjI)
  show "sort_key sort_time (eligible 150 [tx2_same_block, tx1]) = [tx2_same_block, tx1]"
    by code_simp
  show "replay ''A'' [tx2_same_block, tx1] [] = Inr [((''tx2'', 1), 200), ((''tx1'', 0), 500)]"
    by code_simp
  show "(''tx1'', 0) \<in> ref_spent ''A'' tx2_same_block"
    by (simp add: ref_spent_def tx2_same_block_def tx2_def tx_inputs_def)
  show "btc_balance_at_timestamp (serve_once [tx2_same_block, tx1]) ''A'' 150 200 = Inr 700"
    by code_simp
qed

end
